theory Spec2Isabelle
  imports Complex_Main
begin

section \<open>Errors and tensors\<close>

text \<open>
  The notebook is a script over an external tensor framework. Every framework call that can
  raise returns \<open>error + 'a\<close>; the script has no \<open>try\<close>, so the first \<open>Inl\<close> ends the run.

  Float values are idealised as reals: rounding, overflow and the value nan are outside the
  model. Where the framework would return nan (the mean of an empty tensor) the model stops
  with \<open>NotRepresentable\<close>, which is not an exception of the framework.
\<close>

datatype error =
    RuntimeError string
  | IndexError string
  | ValueError string
  | ZeroDivisionError
  | StopIteration
  | NotRepresentable string

datatype dtype = FloatTensor | ByteTensor | LongTensor

text \<open>
  A tensor is its element type, its shape and its elements in row-major order.
  \<open>requires_grad\<close> says whether the autograd graph reaches the tensor.
\<close>

record tensor =
  dtype :: dtype
  shape :: "nat list"
  data :: "real list"
  requires_grad :: bool

definition numel :: "tensor \<Rightarrow> nat" where
  "numel t = prod_list (shape t)"

definition wf_tensor :: "tensor \<Rightarrow> bool" where
  "wf_tensor t = (length (data t) = numel t)"

definition ebind :: "error + 'a \<Rightarrow> ('a \<Rightarrow> error + 'b) \<Rightarrow> error + 'b" where
  "ebind r f = (case r of Inl e \<Rightarrow> Inl e | Inr x \<Rightarrow> f x)"

subsection \<open>\<open>Tensor.view\<close>\<close>

text \<open>
  The sizes given to \<open>view\<close> may hold one \<open>-1\<close>, which is inferred from the number of
  elements. A tensor without elements cannot have a dimension inferred.
\<close>

definition infer_size :: "int list \<Rightarrow> nat \<Rightarrow> error + nat list" where
  "infer_size dims n =
     (if list_ex (\<lambda>d. d < - 1) dims then Inl (RuntimeError ''invalid shape dimension'')
      else if 1 < length (filter (\<lambda>d. d = - 1) dims)
        then Inl (RuntimeError ''only one dimension can be inferred'')
      else
        let known = prod_list (map nat (filter (\<lambda>d. d \<noteq> - 1) dims)) in
        if list_ex (\<lambda>d. d = - 1) dims then
          (if known = 0 then
             (if n = 0
              then Inl (RuntimeError ''cannot reshape tensor of 0 elements: the unspecified dimension size -1 can be any value and is ambiguous'')
              else Inl (RuntimeError ''shape is invalid for input size''))
           else if n mod known \<noteq> 0 then Inl (RuntimeError ''shape is invalid for input size'')
           else Inr (map (\<lambda>d. if d = - 1 then n div known else nat d) dims))
        else if known = n then Inr (map nat dims)
        else Inl (RuntimeError ''shape is invalid for input size''))"

definition view :: "tensor \<Rightarrow> int list \<Rightarrow> error + tensor" where
  "view t dims = ebind (infer_size dims (numel t)) (\<lambda>s. Inr (t\<lparr>shape := s\<rparr>))"

subsection \<open>\<open>nn.Linear\<close>, \<open>F.relu\<close>, \<open>F.log_softmax\<close>, \<open>nn.Dropout\<close>\<close>

text \<open>
  A linear layer keeps its declared sizes and its two parameter tensors, the weight of shape
  \<open>(out_features, in_features)\<close> and the bias of shape \<open>(out_features)\<close>, as index functions:
  the optimizer updates them element by element in place and never reshapes them.
\<close>

record Linear =
  in_features :: nat
  out_features :: nat
  weight :: "nat \<Rightarrow> nat \<Rightarrow> real"
  bias :: "nat \<Rightarrow> real"

text \<open>
  Randomness is an input: \<open>rnd k i\<close> is component \<open>i\<close> of the \<open>k\<close>-th draw of the
  framework's generator, and a counter of draws is threaded through the calls that sample.
  \<open>nn.Linear(i, o)\<close> draws its weight and its bias.
\<close>

definition nn_Linear :: "(nat \<Rightarrow> nat \<Rightarrow> real) \<Rightarrow> nat \<Rightarrow> nat \<Rightarrow> nat \<Rightarrow> Linear \<times> nat" where
  "nn_Linear rnd k i o' =
     (\<lparr>in_features = i, out_features = o',
       weight = (\<lambda>r c. rnd k (r * i + c)), bias = rnd (Suc k)\<rparr>, k + 2)"

text \<open>
  \<open>fc(x)\<close>: the last dimension of \<open>x\<close> must be \<open>in_features\<close>; every row \<open>x\<^sub>r\<close> becomes
  \<open>W x\<^sub>r + b\<close>. The first argument is the grad mode at the call.
\<close>

definition Linear_forward :: "bool \<Rightarrow> Linear \<Rightarrow> tensor \<Rightarrow> error + tensor" where
  "Linear_forward grad_mode l x =
     (if dtype x \<noteq> FloatTensor then Inl (RuntimeError ''expected scalar type Float'')
      else case rev (shape x) of
        [] \<Rightarrow> Inl (RuntimeError ''size mismatch'')
      | k # _ \<Rightarrow>
          if k \<noteq> in_features l then Inl (RuntimeError ''size mismatch'')
          else
            let n = in_features l; m = out_features l;
                rows = prod_list (butlast (shape x)) in
            Inr \<lparr>dtype = FloatTensor, shape = butlast (shape x) @ [m],
                 data = map (\<lambda>f. (\<Sum>j\<leftarrow>[0..<n]. data x ! ((f div m) * n + j) * weight l (f mod m) j)
                                  + bias l (f mod m)) [0..<rows * m],
                 requires_grad = grad_mode\<rparr>)"

definition F_relu :: "tensor \<Rightarrow> tensor" where
  "F_relu x = x\<lparr>data := map (max 0) (data x)\<rparr>"

text \<open>
  \<open>F.log_softmax(x, dim)\<close>: along dimension \<open>dim\<close>, of size \<open>c\<close> and stride \<open>r\<close>, every
  element loses the logarithm of the sum of the exponentials of its slice.
\<close>

definition F_log_softmax :: "tensor \<Rightarrow> nat \<Rightarrow> error + tensor" where
  "F_log_softmax x dm =
     (if dtype x \<noteq> FloatTensor then Inl (RuntimeError ''log_softmax is not implemented for this type'')
      else if length (shape x) \<le> dm then Inl (IndexError ''Dimension out of range'')
      else
        let c = shape x ! dm; r = prod_list (drop (Suc dm) (shape x)) in
        Inr (x\<lparr>data := map (\<lambda>f. data x ! f
                  - ln (\<Sum>j\<leftarrow>[0..<c]. exp (data x ! ((f div (c * r)) * (c * r) + j * r + f mod r))))
                [0..<length (data x)]\<rparr>))"

text \<open>
  \<open>nn.Dropout(p)\<close> (its \<open>p\<close> is the field \<open>p_drop\<close>): in training mode one draw decides which elements are kept, and the kept
  ones are scaled by \<open>1 / (1 - p)\<close>; in evaluation mode the module is the identity and draws
  nothing.
\<close>

record Dropout =
  p_drop :: real

definition nn_Dropout :: "real \<Rightarrow> Dropout" where
  "nn_Dropout q = \<lparr>p_drop = q\<rparr>"

definition Dropout_forward ::
  "(nat \<Rightarrow> nat \<Rightarrow> real) \<Rightarrow> Dropout \<Rightarrow> bool \<Rightarrow> tensor \<times> nat \<Rightarrow> tensor \<times> nat" where
  "Dropout_forward rnd d train xk =
     (case xk of (x, k) \<Rightarrow>
        if train then
          (x\<lparr>data := map (\<lambda>i. if p_drop d \<le> rnd k i then data x ! i / (1 - p_drop d) else 0)
                       [0..<length (data x)]\<rparr>, Suc k)
        else (x, k))"

section \<open>The classifier (cell 3) and its dropout variant (cell 17)\<close>

record Classifier =
  fc1 :: Linear
  fc2 :: Linear
  fc3 :: Linear
  fc4 :: Linear
  training :: bool

text \<open>\<open>nn.Module.__init__\<close> puts a new module in training mode.\<close>

definition Classifier_init :: "(nat \<Rightarrow> nat \<Rightarrow> real) \<Rightarrow> nat \<Rightarrow> Classifier \<times> nat" where
  "Classifier_init rnd k0 =
     (let (l1, k1) = nn_Linear rnd k0 784 256;
          (l2, k2) = nn_Linear rnd k1 256 128;
          (l3, k3) = nn_Linear rnd k2 128 64;
          (l4, k4) = nn_Linear rnd k3 64 10
      in (\<lparr>fc1 = l1, fc2 = l2, fc3 = l3, fc4 = l4, training = True\<rparr>, k4))"

text \<open>The declared sizes of the four layers, input and output.\<close>

definition layer_sizes :: "'a Classifier_scheme \<Rightarrow> (nat \<times> nat) list" where
  "layer_sizes m =
     map (\<lambda>l. (in_features l, out_features l)) [fc1 m, fc2 m, fc3 m, fc4 m]"

text \<open>\<open>x.view(x.shape[0], -1)\<close>: \<open>x.shape[0]\<close> raises on a tensor without dimensions.\<close>

definition flatten_input :: "tensor \<Rightarrow> error + tensor" where
  "flatten_input x =
     (case shape x of
        [] \<Rightarrow> Inl (IndexError ''tuple index out of range'')
      | n # _ \<Rightarrow> view x [int n, - 1])"

definition Classifier_forward :: "bool \<Rightarrow> 'a Classifier_scheme \<Rightarrow> tensor \<Rightarrow> error + tensor" where
  "Classifier_forward grad_mode self x =
     ebind (flatten_input x) (\<lambda>x.
     ebind (Linear_forward grad_mode (fc1 self) x) (\<lambda>x. let x = F_relu x in
     ebind (Linear_forward grad_mode (fc2 self) x) (\<lambda>x. let x = F_relu x in
     ebind (Linear_forward grad_mode (fc3 self) x) (\<lambda>x. let x = F_relu x in
     ebind (Linear_forward grad_mode (fc4 self) x) (\<lambda>x.
     F_log_softmax x 1)))))"

record ClassifierDropout = Classifier +
  dropout :: Dropout

definition ClassifierDropout_init ::
  "(nat \<Rightarrow> nat \<Rightarrow> real) \<Rightarrow> nat \<Rightarrow> ClassifierDropout \<times> nat" where
  "ClassifierDropout_init rnd k0 =
     (let (l1, k1) = nn_Linear rnd k0 784 256;
          (l2, k2) = nn_Linear rnd k1 256 128;
          (l3, k3) = nn_Linear rnd k2 128 64;
          (l4, k4) = nn_Linear rnd k3 64 10
      in (\<lparr>fc1 = l1, fc2 = l2, fc3 = l3, fc4 = l4, training = True,
           dropout = nn_Dropout (2 / 10)\<rparr>, k4))"

text \<open>The forward pass of cell 17 returns its output and the draw counter after its masks.\<close>

definition ClassifierDropout_forward ::
  "(nat \<Rightarrow> nat \<Rightarrow> real) \<Rightarrow> bool \<Rightarrow> ClassifierDropout \<Rightarrow> nat \<Rightarrow> tensor \<Rightarrow> error + tensor \<times> nat" where
  "ClassifierDropout_forward rnd grad_mode self k x =
     ebind (flatten_input x) (\<lambda>x.
     ebind (Linear_forward grad_mode (fc1 self) x) (\<lambda>x.
       let (x, k) = Dropout_forward rnd (dropout self) (training self) (F_relu x, k) in
     ebind (Linear_forward grad_mode (fc2 self) x) (\<lambda>x.
       let (x, k) = Dropout_forward rnd (dropout self) (training self) (F_relu x, k) in
     ebind (Linear_forward grad_mode (fc3 self) x) (\<lambda>x.
       let (x, k) = Dropout_forward rnd (dropout self) (training self) (F_relu x, k) in
     ebind (Linear_forward grad_mode (fc4 self) x) (\<lambda>x.
     ebind (F_log_softmax x 1) (\<lambda>x. Inr (x, k)))))))"

section \<open>Tensor operations of the accuracy computation\<close>

definition torch_exp :: "tensor \<Rightarrow> error + tensor" where
  "torch_exp x =
     (if dtype x \<noteq> FloatTensor then Inl (RuntimeError ''exp is not implemented for this type'')
      else Inr (x\<lparr>data := map exp (data x)\<rparr>))"

text \<open>
  \<open>x.topk(k, dim)\<close> returns the \<open>k\<close> largest values of every slice along \<open>dim\<close> and their
  indices in the slice, largest first; among equal values this model lists the lower index
  first. Both results have the shape of \<open>x\<close> with size \<open>k\<close> at \<open>dim\<close>.
\<close>

definition topk :: "tensor \<Rightarrow> nat \<Rightarrow> nat \<Rightarrow> error + tensor \<times> tensor" where
  "topk x k dm =
     (if length (shape x) \<le> dm then Inl (IndexError ''Dimension out of range'')
      else
        let c = shape x ! dm; r = prod_list (drop (Suc dm) (shape x));
            outer = prod_list (take dm (shape x)) in
        if c < k then Inl (RuntimeError ''selected index k out of range'')
        else
          let slice = (\<lambda>f j. data x ! ((f div (k * r)) * (c * r) + j * r + f mod r));
              idx = (\<lambda>f. take k (sort_key (\<lambda>j. - slice f j) [0..<c]) ! ((f div r) mod k))
          in Inr (\<lparr>dtype = dtype x, shape = (shape x)[dm := k],
                   data = map (\<lambda>f. slice f (idx f)) [0..<outer * k * r],
                   requires_grad = requires_grad x\<rparr>,
                  \<lparr>dtype = LongTensor, shape = (shape x)[dm := k],
                   data = map (\<lambda>f. real (idx f)) [0..<outer * k * r],
                   requires_grad = False\<rparr>))"

text \<open>
  \<open>a == b\<close> broadcasts: the shapes are aligned at their last dimension, sizes must agree or
  one of them be 1, and the result has the larger size everywhere. Its element type is
  uint8, a \<open>ByteTensor\<close>, as the saved output of cell 10 prints (\<open>dtype=torch.uint8\<close>).
\<close>

fun broadcast_rev :: "nat list \<Rightarrow> nat list \<Rightarrow> error + nat list" where
  "broadcast_rev [] ys = Inr ys"
| "broadcast_rev (x # xs) [] = Inr (x # xs)"
| "broadcast_rev (x # xs) (y # ys) =
     (if x = y \<or> y = 1 then ebind (broadcast_rev xs ys) (\<lambda>zs. Inr (x # zs))
      else if x = 1 then ebind (broadcast_rev xs ys) (\<lambda>zs. Inr (y # zs))
      else Inl (RuntimeError ''The size of tensor a must match the size of tensor b at non-singleton dimension''))"

definition broadcast_shapes :: "nat list \<Rightarrow> nat list \<Rightarrow> error + nat list" where
  "broadcast_shapes a b = ebind (broadcast_rev (rev a) (rev b)) (\<lambda>zs. Inr (rev zs))"

fun unravel :: "nat list \<Rightarrow> nat \<Rightarrow> nat list" where
  "unravel [] f = []"
| "unravel (d # ds) f = (f div prod_list ds) # unravel ds (f mod prod_list ds)"

fun ravel :: "nat list \<Rightarrow> nat list \<Rightarrow> nat" where
  "ravel (d # ds) (i # is) = i * prod_list ds + ravel ds is"
| "ravel _ _ = 0"

text \<open>The position in an operand of shape \<open>s\<close> of the element used at index \<open>idx\<close> of the result.\<close>

definition broadcast_index :: "nat list \<Rightarrow> nat list \<Rightarrow> nat" where
  "broadcast_index s idx =
     ravel s (map2 (\<lambda>d i. if d = 1 then 0 else i) s (drop (length idx - length s) idx))"

text \<open>
  Modelled from the spec: the element type of the result of \<open>==\<close>, a function of the external
  framework that the notebook calls and does not contain, is uint8, which makes the result a
  \<open>ByteTensor\<close>.
\<close>

definition tensor_eq :: "tensor \<Rightarrow> tensor \<Rightarrow> error + tensor" where
  "tensor_eq a b =
     ebind (broadcast_shapes (shape a) (shape b)) (\<lambda>s.
       Inr \<lparr>dtype = ByteTensor, shape = s,
            data = map (\<lambda>f. let idx = unravel s f in
                         if data a ! broadcast_index (shape a) idx
                            = data b ! broadcast_index (shape b) idx
                         then 1 else 0) [0..<prod_list s],
            requires_grad = False\<rparr>)"

text \<open>\<open>t.type(torch.FloatTensor)\<close>: the same elements as floats.\<close>

definition type_FloatTensor :: "tensor \<Rightarrow> tensor" where
  "type_FloatTensor x = x\<lparr>dtype := FloatTensor\<rparr>"

text \<open>
  Modelled from the spec: \<open>torch.mean\<close> is a function of the external framework, which the
  notebook calls and does not contain. Averaging a tensor of an incompatible type is the
  framework's error: on a \<open>ByteTensor\<close> it is the error that the text of cell 11 quotes,
  \<open>RuntimeError: mean is not implemented for type torch.ByteTensor\<close>, and likewise on a
  \<open>LongTensor\<close>. On a float tensor it is the mean of the elements, which is \<open>nan\<close> when
  there are none.
\<close>

definition torch_mean :: "tensor \<Rightarrow> error + tensor" where
  "torch_mean x =
     (if dtype x = ByteTensor
        then Inl (RuntimeError ''mean is not implemented for type torch.ByteTensor'')
      else if dtype x = LongTensor
        then Inl (RuntimeError ''mean is not implemented for type torch.LongTensor'')
      else if data x = [] then Inl (NotRepresentable ''nan'')
      else Inr \<lparr>dtype = FloatTensor, shape = [],
                data = [sum_list (data x) / real (length (data x))],
                requires_grad = requires_grad x\<rparr>)"

text \<open>
  \<open>t.item()\<close>. The running sums \<open>test_loss\<close> and \<open>accuracy\<close> of the notebook are 0-dim tensors
  after their first addition; the model keeps their value, read with \<open>item\<close>.
\<close>

definition item :: "tensor \<Rightarrow> error + real" where
  "item x =
     (case data x of
        [v] \<Rightarrow> Inr v
      | _ \<Rightarrow> Inl (ValueError ''only one element tensors can be converted to Python scalars''))"

text \<open>
  \<open>nn.NLLLoss()\<close> on an input of shape \<open>(n, c)\<close> and a target of shape \<open>(n)\<close>: the mean,
  over the targets that are not \<open>ignore_index = -100\<close>, of minus the input at the target
  class. Inputs of another rank are outside the model.
\<close>

definition NLLLoss_forward :: "tensor \<Rightarrow> tensor \<Rightarrow> error + tensor" where
  "NLLLoss_forward input target =
     (if dtype input \<noteq> FloatTensor \<or> dtype target \<noteq> LongTensor
        then Inl (RuntimeError ''expected a Float input and a Long target'')
      else case shape input of
        [n, c] \<Rightarrow>
          if shape target \<noteq> [n]
            then Inl (ValueError ''Expected input batch_size to match target batch_size'')
          else if list_ex (\<lambda>t. t \<noteq> - 100 \<and> (t < 0 \<or> real c \<le> t)) (data target)
            then Inl (IndexError ''Target is out of bounds'')
          else
            let counted = filter (\<lambda>i. data target ! i \<noteq> - 100) [0..<n] in
            if counted = [] then Inl (NotRepresentable ''nan'')
            else Inr \<lparr>dtype = FloatTensor, shape = [],
                      data = [- (\<Sum>i\<leftarrow>counted. data input ! (i * c + nat \<lfloor>data target ! i\<rfloor>))
                                / real (length counted)],
                      requires_grad = requires_grad input\<rparr>
      | _ \<Rightarrow> Inl (NotRepresentable ''input rank''))"

text \<open>\<open>images[0]\<close>: the first entry along dimension 0.\<close>

definition select0 :: "tensor \<Rightarrow> error + tensor" where
  "select0 x =
     (case shape x of
        [] \<Rightarrow> Inl (IndexError ''invalid index of a 0-dim tensor'')
      | n # rest \<Rightarrow>
          if n = 0 then Inl (IndexError ''index 0 is out of bounds for dimension 0 with size 0'')
          else Inr (x\<lparr>shape := rest, data := take (prod_list rest) (data x)\<rparr>))"

text \<open>
  The accuracy of one batch, as cells 7 to 12 compute it and the validation loops of cells 14
  and 18 repeat it:
  \<^verbatim>\<open>
  ps = torch.exp(log_ps)
  top_p, top_class = ps.topk(1, dim=1)
  equals = top_class == labels.view(*top_class.shape)
  accuracy += torch.mean(equals.type(torch.FloatTensor))
  \<close>
\<close>

definition batch_equals :: "tensor \<Rightarrow> tensor \<Rightarrow> error + tensor" where
  "batch_equals log_ps labels =
     ebind (torch_exp log_ps) (\<lambda>ps.
     ebind (topk ps 1 1) (\<lambda>(top_p, top_class).
     ebind (view labels (map int (shape top_class))) (\<lambda>labels'.
     tensor_eq top_class labels')))"

definition batch_accuracy :: "tensor \<Rightarrow> tensor \<Rightarrow> error + real" where
  "batch_accuracy log_ps labels =
     ebind (batch_equals log_ps labels) (\<lambda>equals.
     ebind (torch_mean (type_FloatTensor equals)) item)"

text \<open>
  The same four lines with the framework's comparison and mean as parameters, to tell what
  the lines do from what the two framework functions do.
\<close>

definition accuracy_with ::
  "(tensor \<Rightarrow> tensor \<Rightarrow> error + tensor) \<Rightarrow> (tensor \<Rightarrow> error + tensor)
     \<Rightarrow> tensor \<Rightarrow> tensor \<Rightarrow> error + real" where
  "accuracy_with eq mean log_ps labels =
     ebind (torch_exp log_ps) (\<lambda>ps.
     ebind (topk ps 1 1) (\<lambda>(top_p, top_class).
     ebind (view labels (map int (shape top_class))) (\<lambda>labels'.
     ebind (eq top_class labels') (\<lambda>equals.
     ebind (mean (type_FloatTensor equals)) item))))"

section \<open>Data loaders (cell 1)\<close>

text \<open>
  A dataset is a list of samples, an image tensor and its class. Iterating a loader draws a
  permutation when \<open>shuffle\<close> is set, cuts the samples into runs of \<open>batch_size\<close> (the last
  may be shorter) and stacks each run into a batch when the loop reaches it.
\<close>

type_synonym sample = "tensor \<times> int"

record DataLoader =
  dataset :: "sample list"
  batch_size :: nat
  shuffle :: bool

definition DataLoader_len :: "DataLoader \<Rightarrow> nat" where
  "DataLoader_len dl = (length (dataset dl) + batch_size dl - 1) div batch_size dl"

definition DataLoader_iter ::
  "(nat \<Rightarrow> nat \<Rightarrow> real) \<Rightarrow> DataLoader \<Rightarrow> nat \<Rightarrow> sample list list \<times> nat" where
  "DataLoader_iter rnd dl k =
     (let n = length (dataset dl);
          order = (if shuffle dl then sort_key (rnd k) [0..<n] else [0..<n]);
          samples = map (\<lambda>i. dataset dl ! i) order
      in (map (\<lambda>b. take (batch_size dl) (drop (b * batch_size dl) samples))
              [0..<DataLoader_len dl],
          if shuffle dl then Suc k else k))"

definition collate :: "sample list \<Rightarrow> error + tensor \<times> tensor" where
  "collate ss =
     (case ss of
        [] \<Rightarrow> Inl (IndexError ''list index out of range'')
      | (x0, _) # _ \<Rightarrow>
          if list_ex (\<lambda>s. shape (fst s) \<noteq> shape x0) ss
            then Inl (RuntimeError ''stack expects each tensor to be equal size'')
          else Inr (\<lparr>dtype = dtype x0, shape = length ss # shape x0,
                     data = concat (map (\<lambda>s. data (fst s)) ss), requires_grad = False\<rparr>,
                    \<lparr>dtype = LongTensor, shape = [length ss],
                     data = map (\<lambda>s. real_of_int (snd s)) ss, requires_grad = False\<rparr>))"

text \<open>
  Cell 1. The two datasets are inputs (the transformed Fashion-MNIST training and test sets);
  a loader's batch size is positive, here 64.
\<close>

definition cell1 :: "sample list \<Rightarrow> sample list \<Rightarrow> DataLoader \<times> DataLoader" where
  "cell1 trainset testset =
     (\<lparr>dataset = trainset, batch_size = 64, shuffle = True\<rparr>,
      \<lparr>dataset = testset, batch_size = 64, shuffle = True\<rparr>)"

text \<open>
  Cells 5 to 12: a new model, the first test batch, the comparison of its predicted classes
  with its labels and the accuracy of the batch. The result is \<open>equals\<close>, the accuracy and
  the draw counter.
\<close>

definition cells5to12 ::
  "(nat \<Rightarrow> nat \<Rightarrow> real) \<Rightarrow> DataLoader \<Rightarrow> nat \<Rightarrow> error + tensor \<times> real \<times> nat" where
  "cells5to12 rnd testloader k =
     (let (m, k) = Classifier_init rnd k;
          (it, k) = DataLoader_iter rnd testloader k in
      case it of
        [] \<Rightarrow> Inl StopIteration
      | b # _ \<Rightarrow>
          ebind (collate b) (\<lambda>(images, labels).
          ebind (Classifier_forward True m images) (\<lambda>log_ps.
          ebind (batch_equals log_ps labels) (\<lambda>equals.
          ebind (torch_mean (type_FloatTensor equals)) (\<lambda>accuracy.
          ebind (item accuracy) (\<lambda>a.
          Inr (equals, a, k)))))))"

section \<open>Autograd, the optimizer and the state of the script\<close>

text \<open>
  The values of the eight parameter tensors of a classifier, and of their gradients.
\<close>

type_synonym lvals = "(nat \<Rightarrow> nat \<Rightarrow> real) \<times> (nat \<Rightarrow> real)"
type_synonym pvals = "lvals \<times> lvals \<times> lvals \<times> lvals"

definition parameters :: "'a Classifier_scheme \<Rightarrow> pvals" where
  "parameters m =
     ((weight (fc1 m), bias (fc1 m)), (weight (fc2 m), bias (fc2 m)),
      (weight (fc3 m), bias (fc3 m)), (weight (fc4 m), bias (fc4 m)))"

definition write_Linear :: "lvals \<Rightarrow> Linear \<Rightarrow> Linear" where
  "write_Linear v l = l\<lparr>weight := fst v, bias := snd v\<rparr>"

definition write_parameters :: "pvals \<Rightarrow> 'a Classifier_scheme \<Rightarrow> 'a Classifier_scheme" where
  "write_parameters v m =
     (case v of (v1, v2, v3, v4) \<Rightarrow>
        m\<lparr>fc1 := write_Linear v1 (fc1 m), fc2 := write_Linear v2 (fc2 m),
          fc3 := write_Linear v3 (fc3 m), fc4 := write_Linear v4 (fc4 m)\<rparr>)"

definition lvals_add :: "lvals \<Rightarrow> lvals \<Rightarrow> lvals" where
  "lvals_add a b = ((\<lambda>i j. fst a i j + fst b i j), (\<lambda>i. snd a i + snd b i))"

definition pvals_add :: "pvals \<Rightarrow> pvals \<Rightarrow> pvals" where
  "pvals_add a b =
     (case a of (a1, a2, a3, a4) \<Rightarrow> case b of (b1, b2, b3, b4) \<Rightarrow>
        (lvals_add a1 b1, lvals_add a2 b2, lvals_add a3 b3, lvals_add a4 b4))"

definition pvals_zero :: pvals where
  "pvals_zero =
     (let z = ((\<lambda>i j. 0), (\<lambda>i. 0)) in (z, z, z, z))"

text \<open>
  The numeric core of the framework is a parameter of the script:
  \<^item> \<open>draw\<close>, the random generator;
  \<^item> \<open>autograd\<close>, the gradient of the loss of one forward pass with respect to the
    parameters, from the model's mode and parameter values, the draw counter before the
    forward pass, the images and the labels;
  \<^item> \<open>adam\<close>, one update of Adam from the learning rate, the optimizer's state, the
    parameter values and their gradients, and \<open>adam_init\<close>, the optimizer's first state.
\<close>

record 'o framework =
  draw :: "nat \<Rightarrow> nat \<Rightarrow> real"
  autograd :: "bool \<Rightarrow> pvals \<Rightarrow> nat \<Rightarrow> tensor \<Rightarrow> tensor \<Rightarrow> pvals"
  adam :: "real \<Rightarrow> 'o \<Rightarrow> pvals \<Rightarrow> pvals \<Rightarrow> pvals \<times> 'o"
  adam_init :: 'o

text \<open>
  The calls the script makes on the model, the criterion, the optimizer, the grad mode, the
  standard output and the helper module, in order. \<open>Forward\<close> records the images, the model's
  mode and the grad mode at the call; \<open>Criterion\<close> the labels and the loss. \<open>Save\<close> and
  \<open>Load\<close> stand for the framework's calls that write parameters to storage and read them
  back.
\<close>

datatype event =
    Zero_grad
  | Forward tensor bool bool
  | Criterion tensor tensor
  | Backward
  | Step
  | No_grad_enter
  | No_grad_exit
  | Eval
  | Train
  | Print nat nat real real real
  | View_classify tensor tensor string
  | Save
  | Load

record ('m, 'o) state =
  model :: 'm
  grads :: "pvals option"
  opt_state :: 'o
  lr :: real
  grad_enabled :: bool
  rng :: nat
  calls :: "event list"
  train_losses :: "real list"
  test_losses :: "real list"

text \<open>How \<open>model(images)\<close> runs: grad mode, model, draw counter and input to output and counter.\<close>

type_synonym 'm forward_fn = "bool \<Rightarrow> 'm \<Rightarrow> nat \<Rightarrow> tensor \<Rightarrow> error + tensor \<times> nat"

definition Classifier_call :: "Classifier forward_fn" where
  "Classifier_call grad_mode self k x =
     ebind (Classifier_forward grad_mode self x) (\<lambda>y. Inr (y, k))"

definition ClassifierDropout_call :: "'o framework \<Rightarrow> ClassifierDropout forward_fn" where
  "ClassifierDropout_call fw grad_mode self k x =
     ClassifierDropout_forward (draw fw) grad_mode self k x"

definition model_call ::
  "('a Classifier_scheme) forward_fn \<Rightarrow> tensor \<Rightarrow> ('a Classifier_scheme, 'o) state
     \<Rightarrow> error + tensor \<times> ('a Classifier_scheme, 'o) state" where
  "model_call fwd images s =
     ebind (fwd (grad_enabled s) (model s) (rng s) images) (\<lambda>(y, k).
       Inr (y, s\<lparr>rng := k,
                 calls := calls s @ [Forward images (training (model s)) (grad_enabled s)]\<rparr>))"

definition criterion ::
  "tensor \<Rightarrow> tensor \<Rightarrow> ('m, 'o) state \<Rightarrow> error + tensor \<times> ('m, 'o) state" where
  "criterion log_ps labels s =
     ebind (NLLLoss_forward log_ps labels) (\<lambda>loss.
       Inr (loss, s\<lparr>calls := calls s @ [Criterion labels loss]\<rparr>))"

text \<open>\<open>optimizer.zero_grad()\<close> zeroes the gradients that exist.\<close>

definition optimizer_zero_grad :: "('m, 'o) state \<Rightarrow> ('m, 'o) state" where
  "optimizer_zero_grad s =
     s\<lparr>grads := map_option (\<lambda>_. pvals_zero) (grads s), calls := calls s @ [Zero_grad]\<rparr>"

text \<open>
  \<open>loss.backward()\<close> raises on a loss outside the autograd graph and otherwise adds the
  gradient of the loss to the stored gradients. The graph of the loss is given by the draw
  counter before its forward pass, the images and the labels.
\<close>

definition loss_backward ::
  "'o framework \<Rightarrow> tensor \<Rightarrow> nat \<times> tensor \<times> tensor \<Rightarrow> ('a Classifier_scheme, 'o) state
     \<Rightarrow> error + ('a Classifier_scheme, 'o) state" where
  "loss_backward fw loss graph s =
     (if \<not> requires_grad loss
        then Inl (RuntimeError ''element 0 of tensors does not require grad and does not have a grad_fn'')
      else
        case graph of (k, images, labels) \<Rightarrow>
        let g = autograd fw (training (model s)) (parameters (model s)) k images labels in
        Inr (s\<lparr>grads := Some (case grads s of None \<Rightarrow> g | Some a \<Rightarrow> pvals_add a g),
               calls := calls s @ [Backward]\<rparr>))"

text \<open>\<open>optimizer.step()\<close> writes the updated values into the parameters that have a gradient.\<close>

definition optimizer_step ::
  "'o framework \<Rightarrow> ('a Classifier_scheme, 'o) state \<Rightarrow> ('a Classifier_scheme, 'o) state" where
  "optimizer_step fw s =
     (case grads s of
        None \<Rightarrow> s\<lparr>calls := calls s @ [Step]\<rparr>
      | Some g \<Rightarrow>
          let (v, os) = adam fw (lr s) (opt_state s) (parameters (model s)) g in
          s\<lparr>model := write_parameters v (model s), opt_state := os,
            calls := calls s @ [Step]\<rparr>)"

definition model_eval :: "('a Classifier_scheme, 'o) state \<Rightarrow> ('a Classifier_scheme, 'o) state" where
  "model_eval s = s\<lparr>model := (model s)\<lparr>training := False\<rparr>, calls := calls s @ [Eval]\<rparr>"

definition model_train :: "('a Classifier_scheme, 'o) state \<Rightarrow> ('a Classifier_scheme, 'o) state" where
  "model_train s = s\<lparr>model := (model s)\<lparr>training := True\<rparr>, calls := calls s @ [Train]\<rparr>"

text \<open>\<open>with torch.no_grad():\<close> turns the grad mode off for its body and restores it after.\<close>

definition with_no_grad ::
  "(('m, 'o) state \<Rightarrow> error + 'r \<times> ('m, 'o) state) \<Rightarrow> ('m, 'o) state
     \<Rightarrow> error + 'r \<times> ('m, 'o) state" where
  "with_no_grad body s =
     (let prev = grad_enabled s in
      ebind (body (s\<lparr>grad_enabled := False, calls := calls s @ [No_grad_enter]\<rparr>)) (\<lambda>(r, s').
        Inr (r, s'\<lparr>grad_enabled := prev, calls := calls s' @ [No_grad_exit]\<rparr>)))"

text \<open>Python's \<open>a / n\<close> for a count \<open>n\<close>.\<close>

definition py_div :: "real \<Rightarrow> nat \<Rightarrow> error + real" where
  "py_div a n = (if n = 0 then Inl ZeroDivisionError else Inr (a / real n))"

section \<open>The training loops (cells 14 and 18) and the inference cell (cell 20)\<close>

text \<open>
  The loop over the training batches, the same text in both cells:
  \<^verbatim>\<open>
  for images, labels in trainloader:
      optimizer.zero_grad()
      log_ps = model(images)
      loss = criterion(log_ps, labels)
      loss.backward()
      optimizer.step()
      running_loss += loss.item()
  \<close>
  \<open>train_step\<close> is its body, from fetching the batch to the value of \<open>loss.item()\<close>.
\<close>

definition train_step ::
  "'o framework \<Rightarrow> ('a Classifier_scheme) forward_fn \<Rightarrow> sample list
     \<Rightarrow> ('a Classifier_scheme, 'o) state \<Rightarrow> error + real \<times> ('a Classifier_scheme, 'o) state" where
  "train_step fw fwd b s =
     ebind (collate b) (\<lambda>(images, labels).
     let s = optimizer_zero_grad s; k = rng s in
     ebind (model_call fwd images s) (\<lambda>(log_ps, s).
     ebind (criterion log_ps labels s) (\<lambda>(loss, s).
     ebind (loss_backward fw loss (k, images, labels) s) (\<lambda>s.
     let s = optimizer_step fw s in
     ebind (item loss) (\<lambda>v. Inr (v, s))))))"

fun train_batches ::
  "'o framework \<Rightarrow> ('a Classifier_scheme) forward_fn \<Rightarrow> sample list list
     \<Rightarrow> real \<times> ('a Classifier_scheme, 'o) state
     \<Rightarrow> error + real \<times> ('a Classifier_scheme, 'o) state" where
  "train_batches fw fwd [] (running_loss, s) = Inr (running_loss, s)"
| "train_batches fw fwd (b # bs) (running_loss, s) =
     ebind (train_step fw fwd b s) (\<lambda>(v, s).
     train_batches fw fwd bs (running_loss + v, s))"

text \<open>
  The body of the loop over the test batches in cell 14, from fetching the batch to the two
  values added to \<open>test_loss\<close> and \<open>accuracy\<close>:
  \<^verbatim>\<open>
  for images, labels in testloader:
      log_ps = model(images)
      test_loss += criterion(log_ps, labels)
      ps = torch.exp(log_ps)
      top_p, top_class = ps.topk(1, dim=1)
      equals = top_class == labels.view(*top_class.shape)
      accuracy += torch.mean(equals.type(torch.FloatTensor))
  \<close>
\<close>

definition validate_step ::
  "('a Classifier_scheme) forward_fn \<Rightarrow> sample list \<Rightarrow> ('a Classifier_scheme, 'o) state
     \<Rightarrow> error + (real \<times> real) \<times> ('a Classifier_scheme, 'o) state" where
  "validate_step fwd b s =
     ebind (collate b) (\<lambda>(images, labels).
     ebind (model_call fwd images s) (\<lambda>(log_ps, s).
     ebind (criterion log_ps labels s) (\<lambda>(loss, s).
     ebind (item loss) (\<lambda>v.
     ebind (batch_accuracy log_ps labels) (\<lambda>a.
     Inr ((v, a), s))))))"

fun validate_batches ::
  "('a Classifier_scheme) forward_fn \<Rightarrow> sample list list
     \<Rightarrow> (real \<times> real) \<times> ('a Classifier_scheme, 'o) state
     \<Rightarrow> error + (real \<times> real) \<times> ('a Classifier_scheme, 'o) state" where
  "validate_batches fwd [] ((test_loss, accuracy), s) = Inr ((test_loss, accuracy), s)"
| "validate_batches fwd (b # bs) ((test_loss, accuracy), s) =
     ebind (validate_step fwd b s) (\<lambda>((v, a), s).
     validate_batches fwd bs ((test_loss + v, accuracy + a), s))"

text \<open>The same loop in cell 18, whose body starts with \<open>model.eval()\<close>.\<close>

definition validate_step_eval ::
  "('a Classifier_scheme) forward_fn \<Rightarrow> sample list \<Rightarrow> ('a Classifier_scheme, 'o) state
     \<Rightarrow> error + (real \<times> real) \<times> ('a Classifier_scheme, 'o) state" where
  "validate_step_eval fwd b s =
     ebind (collate b) (\<lambda>(images, labels).
     let s = model_eval s in
     ebind (model_call fwd images s) (\<lambda>(log_ps, s).
     ebind (criterion log_ps labels s) (\<lambda>(loss, s).
     ebind (item loss) (\<lambda>v.
     ebind (batch_accuracy log_ps labels) (\<lambda>a.
     Inr ((v, a), s))))))"

fun validate_batches_eval ::
  "('a Classifier_scheme) forward_fn \<Rightarrow> sample list list
     \<Rightarrow> (real \<times> real) \<times> ('a Classifier_scheme, 'o) state
     \<Rightarrow> error + (real \<times> real) \<times> ('a Classifier_scheme, 'o) state" where
  "validate_batches_eval fwd [] ((test_loss, accuracy), s) = Inr ((test_loss, accuracy), s)"
| "validate_batches_eval fwd (b # bs) ((test_loss, accuracy), s) =
     ebind (validate_step_eval fwd b s) (\<lambda>((v, a), s).
     validate_batches_eval fwd bs ((test_loss + v, accuracy + a), s))"

text \<open>
  One pass of \<open>for e in range(epochs)\<close> in cell 14. The \<open>else\<close> of the inner \<open>for\<close> runs when
  the loop ends without \<open>break\<close>, and the loop has none.
\<close>

definition epoch14 ::
  "'o framework \<Rightarrow> DataLoader \<Rightarrow> DataLoader \<Rightarrow> nat \<Rightarrow> nat \<Rightarrow> (Classifier, 'o) state
     \<Rightarrow> error + (Classifier, 'o) state" where
  "epoch14 fw trainloader testloader epochs e s =
     (let (train_it, k) = DataLoader_iter (draw fw) trainloader (rng s); s = s\<lparr>rng := k\<rparr> in
      ebind (train_batches fw Classifier_call train_it (0, s)) (\<lambda>(running_loss, s).
      ebind (with_no_grad (\<lambda>s.
               let (test_it, k) = DataLoader_iter (draw fw) testloader (rng s); s = s\<lparr>rng := k\<rparr> in
               validate_batches Classifier_call test_it ((0, 0), s)) s)
        (\<lambda>((test_loss, accuracy), s).
      ebind (py_div running_loss (DataLoader_len trainloader)) (\<lambda>train_avg.
      let s = s\<lparr>train_losses := train_losses s @ [train_avg]\<rparr> in
      ebind (py_div test_loss (DataLoader_len testloader)) (\<lambda>test_avg.
      let s = s\<lparr>test_losses := test_losses s @ [test_avg]\<rparr> in
      ebind (py_div running_loss (DataLoader_len trainloader)) (\<lambda>p1.
      ebind (py_div test_loss (DataLoader_len testloader)) (\<lambda>p2.
      ebind (py_div accuracy (DataLoader_len testloader)) (\<lambda>p3.
      Inr (s\<lparr>calls := calls s @ [Print (e + 1) epochs p1 p2 p3]\<rparr>)))))))))"

text \<open>One pass of the epoch loop in cell 18.\<close>

definition epoch18 ::
  "'o framework \<Rightarrow> DataLoader \<Rightarrow> DataLoader \<Rightarrow> nat \<Rightarrow> nat \<Rightarrow> (ClassifierDropout, 'o) state
     \<Rightarrow> error + (ClassifierDropout, 'o) state" where
  "epoch18 fw trainloader testloader epochs e s =
     (let (train_it, k) = DataLoader_iter (draw fw) trainloader (rng s); s = s\<lparr>rng := k\<rparr> in
      ebind (train_batches fw (ClassifierDropout_call fw) train_it (0, s)) (\<lambda>(running_loss, s).
      ebind (with_no_grad (\<lambda>s.
               let s = model_eval s;
                   (test_it, k) = DataLoader_iter (draw fw) testloader (rng s); s = s\<lparr>rng := k\<rparr> in
               validate_batches_eval (ClassifierDropout_call fw) test_it ((0, 0), s)) s)
        (\<lambda>((test_loss, accuracy), s).
      ebind (py_div running_loss (DataLoader_len trainloader)) (\<lambda>train_avg.
      let s = s\<lparr>train_losses := train_losses s @ [train_avg]\<rparr> in
      ebind (py_div test_loss (DataLoader_len testloader)) (\<lambda>test_avg.
      let s = s\<lparr>test_losses := test_losses s @ [test_avg]\<rparr> in
      let s = model_train s in
      ebind (py_div running_loss (DataLoader_len trainloader)) (\<lambda>p1.
      ebind (py_div test_loss (DataLoader_len testloader)) (\<lambda>p2.
      ebind (py_div accuracy (DataLoader_len testloader)) (\<lambda>p3.
      Inr (s\<lparr>calls := calls s @ [Print (e + 1) epochs p1 p2 p3]\<rparr>)))))))))"

text \<open>\<open>for e in range(epochs)\<close>.\<close>

fun for_epochs ::
  "(nat \<Rightarrow> 's \<Rightarrow> error + 's) \<Rightarrow> nat list \<Rightarrow> 's \<Rightarrow> error + 's" where
  "for_epochs body [] s = Inr s"
| "for_epochs body (e # es) s = ebind (body e s) (for_epochs body es)"

text \<open>
  Cells 14 and 18 from their first line: a new model, the criterion, Adam with learning rate
  0.003, 30 epochs. The cells start from the draw counter, the grad mode and the calls made
  so far.
\<close>

definition cell14 ::
  "'o framework \<Rightarrow> DataLoader \<Rightarrow> DataLoader \<Rightarrow> nat \<Rightarrow> bool \<Rightarrow> event list
     \<Rightarrow> error + (Classifier, 'o) state" where
  "cell14 fw trainloader testloader k grad_mode evs =
     (let (m, k) = Classifier_init (draw fw) k;
          epochs = 30;
          s = \<lparr>model = m, grads = None, opt_state = adam_init fw, lr = 3 / 1000,
               grad_enabled = grad_mode, rng = k, calls = evs,
               train_losses = [], test_losses = []\<rparr>
      in for_epochs (epoch14 fw trainloader testloader epochs) [0..<epochs] s)"

definition cell18 ::
  "'o framework \<Rightarrow> DataLoader \<Rightarrow> DataLoader \<Rightarrow> nat \<Rightarrow> bool \<Rightarrow> event list
     \<Rightarrow> error + (ClassifierDropout, 'o) state" where
  "cell18 fw trainloader testloader k grad_mode evs =
     (let (m, k) = ClassifierDropout_init (draw fw) k;
          epochs = 30;
          s = \<lparr>model = m, grads = None, opt_state = adam_init fw, lr = 3 / 1000,
               grad_enabled = grad_mode, rng = k, calls = evs,
               train_losses = [], test_losses = []\<rparr>
      in for_epochs (epoch18 fw trainloader testloader epochs) [0..<epochs] s)"

text \<open>
  Cell 20: the model in evaluation mode, the first image of the first test batch as a
  \<open>(1, 784)\<close> tensor, its class probabilities under \<open>no_grad\<close>, and the helper's plot.
\<close>

definition cell20 ::
  "'o framework \<Rightarrow> DataLoader \<Rightarrow> (ClassifierDropout, 'o) state
     \<Rightarrow> error + (ClassifierDropout, 'o) state" where
  "cell20 fw testloader s =
     (let s = model_eval s;
          (dataiter, k) = DataLoader_iter (draw fw) testloader (rng s); s = s\<lparr>rng := k\<rparr> in
      case dataiter of
        [] \<Rightarrow> Inl StopIteration
      | b # _ \<Rightarrow>
          ebind (collate b) (\<lambda>(images, labels).
          ebind (select0 images) (\<lambda>img.
          ebind (view img [1, 784]) (\<lambda>img.
          ebind (with_no_grad (model_call (ClassifierDropout_call fw) img) s) (\<lambda>(output, s).
          ebind (torch_exp output) (\<lambda>ps.
          ebind (view img [1, 28, 28]) (\<lambda>img'.
          Inr (s\<lparr>calls := calls s @ [View_classify img' ps ''Fashion'']\<rparr>))))))))"

text \<open>The notebook's training and inference in cell order, from a fresh interpreter.\<close>

definition notebook ::
  "'o framework \<Rightarrow> sample list \<Rightarrow> sample list \<Rightarrow> nat
     \<Rightarrow> error + (Classifier, 'o) state \<times> (ClassifierDropout, 'o) state" where
  "notebook fw trainset testset k =
     (let (trainloader, testloader) = cell1 trainset testset in
      ebind (cells5to12 (draw fw) testloader k) (\<lambda>(equals, accuracy, k).
      ebind (cell14 fw trainloader testloader k True []) (\<lambda>s14.
      ebind (cell18 fw trainloader testloader (rng s14) (grad_enabled s14) (calls s14)) (\<lambda>s18.
      ebind (cell20 fw testloader s18) (\<lambda>s20.
      Inr (s14, s20))))))"

section \<open>What a run is compared with\<close>

text \<open>
  The entry of \<open>top_class\<close> for row \<open>i\<close> of a tensor with rows of length \<open>c\<close>: the first
  index of the row in the order that \<open>topk\<close> uses.
\<close>

definition row_argmax :: "real list \<Rightarrow> nat \<Rightarrow> nat \<Rightarrow> nat" where
  "row_argmax xs c i = hd (sort_key (\<lambda>j. - xs ! (i * c + j)) [0..<c])"

text \<open>The number of rows of a batch whose predicted class is the label.\<close>

definition batch_correct :: "tensor \<Rightarrow> tensor \<Rightarrow> nat" where
  "batch_correct log_ps labels =
     length (filter (\<lambda>i. real (row_argmax (map exp (data log_ps)) (shape log_ps ! 1) i) = data labels ! i)
               [0..<hd (shape log_ps)])"

text \<open>A sample of the dataset after the transform of cell 1: a \<open>1 x 28 x 28\<close> float image and a class.\<close>

definition fashion_sample :: "sample \<Rightarrow> bool" where
  "fashion_sample s =
     (dtype (fst s) = FloatTensor \<and> shape (fst s) = [1, 28, 28] \<and> wf_tensor (fst s)
      \<and> 0 \<le> snd s \<and> snd s < 10)"

text \<open>
  What one pass of a loop body saw and computed: the batch, the output of the model, the
  loss and its value; for a validation batch also the accuracy.
\<close>

record batch_run =
  b_images :: tensor
  b_labels :: tensor
  b_log_ps :: tensor
  b_loss :: tensor
  b_value :: real

record val_run = batch_run +
  b_accuracy :: real

text \<open>
  The validation of one batch as a value: the batch is fetched, the model runs on it, and
  the loss and the accuracy are computed as in the loop body, under a given grad mode, model
  and draw counter.
\<close>

definition validate_run :: "'m forward_fn \<Rightarrow> bool \<Rightarrow> 'm \<Rightarrow> nat \<Rightarrow> sample list \<Rightarrow> error + val_run" where
  "validate_run fwd gm m k b =
     ebind (collate b) (\<lambda>(images, labels).
     ebind (fwd gm m k images) (\<lambda>(log_ps, _).
     ebind (NLLLoss_forward log_ps labels) (\<lambda>loss.
     ebind (item loss) (\<lambda>v.
     ebind (batch_accuracy log_ps labels) (\<lambda>a.
     Inr \<lparr>b_images = images, b_labels = labels, b_log_ps = log_ps, b_loss = loss,
          b_value = v, b_accuracy = a\<rparr>)))))"

text \<open>
  What relates a batch of the training loader to the record of its pass through the loop body:
  the batch was stacked, a model with the declared layer sizes, in training mode and with
  the grad mode on, produced the output, and the criterion produced the loss, whose value was
  read.
\<close>

abbreviation declared_sizes :: "(nat \<times> nat) list" where
  "declared_sizes \<equiv> [(784, 256), (256, 128), (128, 64), (64, 10)]"

abbreviation train_pass ::
  "('a Classifier_scheme) forward_fn \<Rightarrow> sample list \<Rightarrow> batch_run \<Rightarrow> bool" where
  "train_pass fwd b r \<equiv>
     collate b = Inr (b_images r, b_labels r) \<and>
     (\<exists>m k k'. layer_sizes m = declared_sizes \<and> training m \<and>
        fwd True m k (b_images r) = Inr (b_log_ps r, k')) \<and>
     NLLLoss_forward (b_log_ps r) (b_labels r) = Inr (b_loss r) \<and>
     item (b_loss r) = Inr (b_value r)"

text \<open>The calls of the training loop, of the two validation loops and of whole epochs.\<close>

definition train_events :: "bool \<Rightarrow> bool \<Rightarrow> 'a batch_run_scheme list \<Rightarrow> event list" where
  "train_events mode gm rs =
     concat (map (\<lambda>r. [Zero_grad, Forward (b_images r) mode gm, Criterion (b_labels r) (b_loss r),
                       Backward, Step]) rs)"

definition validate_events :: "bool \<Rightarrow> bool \<Rightarrow> 'a batch_run_scheme list \<Rightarrow> event list" where
  "validate_events mode gm rs =
     concat (map (\<lambda>r. [Forward (b_images r) mode gm, Criterion (b_labels r) (b_loss r)]) rs)"

definition validate_events_eval :: "bool \<Rightarrow> 'a batch_run_scheme list \<Rightarrow> event list" where
  "validate_events_eval gm rs =
     concat (map (\<lambda>r. [Eval, Forward (b_images r) False gm, Criterion (b_labels r) (b_loss r)]) rs)"

definition epoch_print :: "nat \<Rightarrow> nat \<Rightarrow> nat \<Rightarrow> nat \<Rightarrow> batch_run list \<Rightarrow> val_run list \<Rightarrow> event" where
  "epoch_print e epochs ntrain ntest T V =
     Print (e + 1) epochs (sum_list (map b_value T) / real ntrain)
       (sum_list (map b_value V) / real ntest) (sum_list (map b_accuracy V) / real ntest)"

definition epoch14_events ::
  "nat \<Rightarrow> nat \<Rightarrow> nat \<Rightarrow> nat \<Rightarrow> batch_run list \<Rightarrow> val_run list \<Rightarrow> event list" where
  "epoch14_events e epochs ntrain ntest T V =
     train_events True True T @ [No_grad_enter] @ validate_events True False V
       @ [No_grad_exit, epoch_print e epochs ntrain ntest T V]"

definition epoch18_events ::
  "nat \<Rightarrow> nat \<Rightarrow> nat \<Rightarrow> nat \<Rightarrow> batch_run list \<Rightarrow> val_run list \<Rightarrow> event list" where
  "epoch18_events e epochs ntrain ntest T V =
     train_events True True T @ [No_grad_enter, Eval] @ validate_events_eval False V
       @ [No_grad_exit, Train, epoch_print e epochs ntrain ntest T V]"

text \<open>
  The accuracy over all the samples of a list of validated batches: the rows whose predicted
  class is the label, over all the rows.
\<close>

definition dataset_accuracy :: "val_run list \<Rightarrow> real" where
  "dataset_accuracy V =
     real (sum_list (map (\<lambda>r. batch_correct (b_log_ps r) (b_labels r)) V))
       / real (sum_list (map (\<lambda>r. hd (shape (b_labels r))) V))"

text \<open>
  Small inputs for instances of the theorems: a blank image, an image of 5 by 5 pixels,
  which the classifier cannot take, a loader of cell 1 over a dataset
  of one sample, a numeric core whose draws and gradients are zero and whose optimizer
  leaves the parameters as they are, and a classifier that predicts class 0 for every image
  (its weights are zero and the bias of its last layer is largest at class 0) in a state of
  the validation loop.
\<close>

abbreviation blank_image :: tensor where
  "blank_image \<equiv>
     \<lparr>dtype = FloatTensor, shape = [1, 28, 28], data = replicate 784 0, requires_grad = False\<rparr>"

abbreviation small_image :: tensor where
  "small_image \<equiv>
     \<lparr>dtype = FloatTensor, shape = [1, 5, 5], data = replicate 25 0, requires_grad = False\<rparr>"

abbreviation one_sample_loader :: DataLoader where
  "one_sample_loader \<equiv> \<lparr>dataset = [(blank_image, 0)], batch_size = 64, shuffle = True\<rparr>"

abbreviation inert_framework :: "unit framework" where
  "inert_framework \<equiv>
     \<lparr>draw = (\<lambda>k i. 0), autograd = (\<lambda>mode v k images labels. pvals_zero),
      adam = (\<lambda>rate os v g. (v, os)), adam_init = ()\<rparr>"

definition class0_Classifier :: Classifier where
  "class0_Classifier =
     \<lparr>fc1 = \<lparr>in_features = 784, out_features = 256, weight = (\<lambda>r c. 0), bias = (\<lambda>i. 0)\<rparr>,
      fc2 = \<lparr>in_features = 256, out_features = 128, weight = (\<lambda>r c. 0), bias = (\<lambda>i. 0)\<rparr>,
      fc3 = \<lparr>in_features = 128, out_features = 64, weight = (\<lambda>r c. 0), bias = (\<lambda>i. 0)\<rparr>,
      fc4 = \<lparr>in_features = 64, out_features = 10, weight = (\<lambda>r c. 0),
             bias = (\<lambda>i. if i = 0 then 1 else 0)\<rparr>,
      training = True\<rparr>"

abbreviation class0_state :: "(Classifier, unit) state" where
  "class0_state \<equiv>
     \<lparr>model = class0_Classifier, grads = None, opt_state = (), lr = 3 / 1000,
      grad_enabled = False, rng = 0, calls = [], train_losses = [], test_losses = []\<rparr>"

lemma ebind_simps [simp]: "ebind (Inl e) f = Inl e" "ebind (Inr x) f = f x"
  by (simp_all add: ebind_def)

lemma ebind_Inr_iff: "ebind r f = Inr y \<longleftrightarrow> (\<exists>x. r = Inr x \<and> f x = Inr y)"
  by (cases r) simp_all

lemma ebind_Inl_iff: "ebind r f = Inl e \<longleftrightarrow> r = Inl e \<or> (\<exists>x. r = Inr x \<and> f x = Inl e)"
  by (cases r) simp_all

lemma zero_grad_simps [simp]:
  "model (optimizer_zero_grad s) = model s"
  "opt_state (optimizer_zero_grad s) = opt_state s"
  "lr (optimizer_zero_grad s) = lr s"
  "grad_enabled (optimizer_zero_grad s) = grad_enabled s"
  "rng (optimizer_zero_grad s) = rng s"
  "calls (optimizer_zero_grad s) = calls s @ [Zero_grad]"
  "train_losses (optimizer_zero_grad s) = train_losses s"
  "test_losses (optimizer_zero_grad s) = test_losses s"
  by (simp_all add: optimizer_zero_grad_def)

lemma write_parameters_simps [simp]:
  "training (write_parameters v m) = training m"
  "in_features (fc1 (write_parameters v m)) = in_features (fc1 m)"
  "in_features (fc2 (write_parameters v m)) = in_features (fc2 m)"
  "in_features (fc3 (write_parameters v m)) = in_features (fc3 m)"
  "in_features (fc4 (write_parameters v m)) = in_features (fc4 m)"
  "out_features (fc1 (write_parameters v m)) = out_features (fc1 m)"
  "out_features (fc2 (write_parameters v m)) = out_features (fc2 m)"
  "out_features (fc3 (write_parameters v m)) = out_features (fc3 m)"
  "out_features (fc4 (write_parameters v m)) = out_features (fc4 m)"
  "Classifier.more (write_parameters v m) = Classifier.more m"
  by (simp_all add: write_parameters_def write_Linear_def split: prod.splits)

lemma step_simps [simp]:
  "lr (optimizer_step fw s) = lr s"
  "grad_enabled (optimizer_step fw s) = grad_enabled s"
  "rng (optimizer_step fw s) = rng s"
  "calls (optimizer_step fw s) = calls s @ [Step]"
  "train_losses (optimizer_step fw s) = train_losses s"
  "test_losses (optimizer_step fw s) = test_losses s"
  "grads (optimizer_step fw s) = grads s"
  by (simp_all add: optimizer_step_def split: option.splits prod.splits)

lemma step_model_simps [simp]:
  "training (model (optimizer_step fw s)) = training (model s)"
  "in_features (fc1 (model (optimizer_step fw s))) = in_features (fc1 (model s))"
  "in_features (fc2 (model (optimizer_step fw s))) = in_features (fc2 (model s))"
  "in_features (fc3 (model (optimizer_step fw s))) = in_features (fc3 (model s))"
  "in_features (fc4 (model (optimizer_step fw s))) = in_features (fc4 (model s))"
  "out_features (fc1 (model (optimizer_step fw s))) = out_features (fc1 (model s))"
  "out_features (fc2 (model (optimizer_step fw s))) = out_features (fc2 (model s))"
  "out_features (fc3 (model (optimizer_step fw s))) = out_features (fc3 (model s))"
  "out_features (fc4 (model (optimizer_step fw s))) = out_features (fc4 (model s))"
  "Classifier.more (model (optimizer_step fw s)) = Classifier.more (model s)"
  by (simp_all add: optimizer_step_def split: option.splits prod.splits)

lemma model_eval_simps [simp]:
  "training (model (model_eval s)) = False"
  "fc1 (model (model_eval s)) = fc1 (model s)"
  "fc2 (model (model_eval s)) = fc2 (model s)"
  "fc3 (model (model_eval s)) = fc3 (model s)"
  "fc4 (model (model_eval s)) = fc4 (model s)"
  "Classifier.more (model (model_eval s)) = Classifier.more (model s)"
  "grads (model_eval s) = grads s"
  "opt_state (model_eval s) = opt_state s"
  "lr (model_eval s) = lr s"
  "grad_enabled (model_eval s) = grad_enabled s"
  "rng (model_eval s) = rng s"
  "calls (model_eval s) = calls s @ [Eval]"
  "train_losses (model_eval s) = train_losses s"
  "test_losses (model_eval s) = test_losses s"
  by (simp_all add: model_eval_def)

lemma model_train_simps [simp]:
  "training (model (model_train s)) = True"
  "fc1 (model (model_train s)) = fc1 (model s)"
  "fc2 (model (model_train s)) = fc2 (model s)"
  "fc3 (model (model_train s)) = fc3 (model s)"
  "fc4 (model (model_train s)) = fc4 (model s)"
  "Classifier.more (model (model_train s)) = Classifier.more (model s)"
  "grads (model_train s) = grads s"
  "opt_state (model_train s) = opt_state s"
  "lr (model_train s) = lr s"
  "grad_enabled (model_train s) = grad_enabled s"
  "rng (model_train s) = rng s"
  "calls (model_train s) = calls s @ [Train]"
  "train_losses (model_train s) = train_losses s"
  "test_losses (model_train s) = test_losses s"
  by (simp_all add: model_train_def)

lemma model_call_Inr:
  "model_call fwd images s = Inr (y, s') \<longleftrightarrow>
     (\<exists>k. fwd (grad_enabled s) (model s) (rng s) images = Inr (y, k) \<and>
          s' = s\<lparr>rng := k, calls := calls s @ [Forward images (training (model s)) (grad_enabled s)]\<rparr>)"
  by (auto simp: model_call_def ebind_Inr_iff)

lemma criterion_Inr:
  "criterion log_ps labels s = Inr (l, s') \<longleftrightarrow>
     NLLLoss_forward log_ps labels = Inr l \<and> s' = s\<lparr>calls := calls s @ [Criterion labels l]\<rparr>"
  by (auto simp: criterion_def ebind_Inr_iff)

lemma loss_backward_Inr:
  "loss_backward fw loss (k, images, labels) s = Inr s' \<longleftrightarrow>
     requires_grad loss \<and>
     s' = s\<lparr>grads := Some (case grads s of None \<Rightarrow> autograd fw (training (model s)) (parameters (model s)) k images labels
                | Some a \<Rightarrow> pvals_add a (autograd fw (training (model s)) (parameters (model s)) k images labels)),
            calls := calls s @ [Backward]\<rparr>"
  by (auto simp: loss_backward_def Let_def)

text \<open>one training step\<close>

lemma train_step_Inr:
  assumes "train_step fw fwd b s = Inr (v, s')"
  shows "\<exists>images labels log_ps k loss.
        collate b = Inr (images, labels) \<and>
        fwd (grad_enabled s) (model s) (rng s) images = Inr (log_ps, k) \<and>
        NLLLoss_forward log_ps labels = Inr loss \<and> requires_grad loss \<and> item loss = Inr v \<and>
        calls s' = calls s @ [Zero_grad, Forward images (training (model s)) (grad_enabled s),
                                    Criterion labels loss, Backward, Step] \<and>
        rng s' = k \<and> grad_enabled s' = grad_enabled s \<and> lr s' = lr s \<and>
        train_losses s' = train_losses s \<and> test_losses s' = test_losses s \<and>
        training (model s') = training (model s) \<and> Classifier.more (model s') = Classifier.more (model s) \<and>
        map in_features [fc1 (model s'), fc2 (model s'), fc3 (model s'), fc4 (model s')]
          = map in_features [fc1 (model s), fc2 (model s), fc3 (model s), fc4 (model s)] \<and>
        map out_features [fc1 (model s'), fc2 (model s'), fc3 (model s'), fc4 (model s')]
          = map out_features [fc1 (model s), fc2 (model s), fc3 (model s), fc4 (model s)]"
  using assms
  by (auto simp: train_step_def ebind_Inr_iff Let_def model_call_Inr criterion_Inr loss_backward_Inr)

lemma infer_size_flatten:
  "0 < n \<Longrightarrow> infer_size [int n, - 1] (n * m) = Inr [n, m]"
  by (simp add: infer_size_def)

lemma flatten_input_ok:
  assumes "shape x = n # rest" "0 < n"
  shows "flatten_input x = Inr (x\<lparr>shape := [n, prod_list rest]\<rparr>)"
  using assms by (simp add: flatten_input_def view_def numel_def infer_size_flatten)

lemma Linear_forward_ok:
  assumes "dtype x = FloatTensor" "shape x = s @ [in_features l]"
  shows "\<exists>y. Linear_forward g l x = Inr y \<and> dtype y = FloatTensor
           \<and> shape y = s @ [out_features l] \<and> wf_tensor y \<and> requires_grad y = g"
  using assms by (simp add: Linear_forward_def wf_tensor_def numel_def Let_def)

lemma F_relu_simps [simp]:
  "dtype (F_relu x) = dtype x" "shape (F_relu x) = shape x"
  "requires_grad (F_relu x) = requires_grad x" "length (data (F_relu x)) = length (data x)"
  by (simp_all add: F_relu_def)

lemma wf_F_relu [simp]: "wf_tensor (F_relu x) = wf_tensor x"
  by (simp add: wf_tensor_def numel_def)

lemma F_log_softmax_ok:
  assumes "dtype x = FloatTensor" "d < length (shape x)"
  shows "\<exists>y. F_log_softmax x d = Inr y \<and> dtype y = FloatTensor \<and> shape y = shape x
           \<and> wf_tensor y = wf_tensor x \<and> requires_grad y = requires_grad x"
  using assms by (simp add: F_log_softmax_def wf_tensor_def numel_def Let_def)

lemma layer_sizes_init:
  "layer_sizes (fst (Classifier_init rnd k)) = [(784, 256), (256, 128), (128, 64), (64, 10)]"
  by (simp add: Classifier_init_def nn_Linear_def layer_sizes_def)

lemma layer_sizes_init_dropout:
  "layer_sizes (fst (ClassifierDropout_init rnd k)) = [(784, 256), (256, 128), (128, 64), (64, 10)]"
  by (simp add: ClassifierDropout_init_def nn_Linear_def layer_sizes_def)

lemma layer_sizes_D:
  assumes "layer_sizes m = [(784, 256), (256, 128), (128, 64), (64, 10)]"
  shows "in_features (fc1 m) = 784" "out_features (fc1 m) = 256"
        "in_features (fc2 m) = 256" "out_features (fc2 m) = 128"
        "in_features (fc3 m) = 128" "out_features (fc3 m) = 64"
        "in_features (fc4 m) = 64" "out_features (fc4 m) = 10"
  using assms by (simp_all add: layer_sizes_def)

lemma Linear_step:
  assumes "dtype x = FloatTensor" "shape x = [n, i]" "in_features l = i" "out_features l = o'"
  shows "\<exists>y. Linear_forward g l x = Inr y \<and> dtype y = FloatTensor
           \<and> shape y = [n, o'] \<and> wf_tensor y \<and> requires_grad y = g"
  using Linear_forward_ok [of x "[n]" l g] assms by simp

lemma forward_chain:
  assumes sz: "layer_sizes self = [(784, 256), (256, 128), (128, 64), (64, 10)]"
      and x: "dtype x = FloatTensor" "shape x = n # rest" "0 < n" "prod_list rest = 784"
  shows "\<exists>h1 h2 h3 h4 y.
      flatten_input x = Inr (x\<lparr>shape := [n, 784]\<rparr>) \<and>
      Linear_forward g (fc1 self) (x\<lparr>shape := [n, 784]\<rparr>) = Inr h1 \<and> shape h1 = [n, 256] \<and>
      Linear_forward g (fc2 self) (F_relu h1) = Inr h2 \<and> shape h2 = [n, 128] \<and>
      Linear_forward g (fc3 self) (F_relu h2) = Inr h3 \<and> shape h3 = [n, 64] \<and>
      Linear_forward g (fc4 self) (F_relu h3) = Inr h4 \<and> shape h4 = [n, 10] \<and>
      dtype h1 = FloatTensor \<and> dtype h2 = FloatTensor \<and> dtype h3 = FloatTensor \<and>
      dtype h4 = FloatTensor \<and> wf_tensor h4 \<and> requires_grad h4 = g \<and>
      F_log_softmax h4 1 = Inr y \<and> shape y = [n, 10] \<and> dtype y = FloatTensor \<and>
      wf_tensor y \<and> requires_grad y = g"
proof -
  note d = layer_sizes_D [OF sz]
  have f: "flatten_input x = Inr (x\<lparr>shape := [n, 784]\<rparr>)"
    using flatten_input_ok [OF x(2,3)] x(4) by simp
  obtain h1 where h1: "Linear_forward g (fc1 self) (x\<lparr>shape := [n, 784]\<rparr>) = Inr h1"
      "dtype h1 = FloatTensor" "shape h1 = [n, 256]"
    using Linear_step [of "x\<lparr>shape := [n, 784]\<rparr>" n 784 "fc1 self" 256 g] x(1) d by auto
  obtain h2 where h2: "Linear_forward g (fc2 self) (F_relu h1) = Inr h2"
      "dtype h2 = FloatTensor" "shape h2 = [n, 128]"
    using Linear_step [of "F_relu h1" n 256 "fc2 self" 128 g] h1 d by auto
  obtain h3 where h3: "Linear_forward g (fc3 self) (F_relu h2) = Inr h3"
      "dtype h3 = FloatTensor" "shape h3 = [n, 64]"
    using Linear_step [of "F_relu h2" n 128 "fc3 self" 64 g] h2 d by auto
  obtain h4 where h4: "Linear_forward g (fc4 self) (F_relu h3) = Inr h4"
      "dtype h4 = FloatTensor" "shape h4 = [n, 10]" "wf_tensor h4" "requires_grad h4 = g"
    using Linear_step [of "F_relu h3" n 64 "fc4 self" 10 g] h3 d by auto
  obtain y where y: "F_log_softmax h4 1 = Inr y" "dtype y = FloatTensor" "shape y = shape h4"
      "wf_tensor y = wf_tensor h4" "requires_grad y = requires_grad h4"
    using F_log_softmax_ok [of h4 1] h4 by auto
  show ?thesis
    using f h1 h2 h3 h4 y by simp
qed

lemma Classifier_forward_ok:
  assumes sz: "layer_sizes self = [(784, 256), (256, 128), (128, 64), (64, 10)]"
      and x: "dtype x = FloatTensor" "shape x = n # rest" "0 < n" "prod_list rest = 784"
  shows "\<exists>y. Classifier_forward g self x = Inr y \<and> shape y = [n, 10] \<and> dtype y = FloatTensor \<and>
      wf_tensor y \<and> requires_grad y = g"
proof -
  from forward_chain [OF assms, of g] obtain h1 h2 h3 h4 y where
    "flatten_input x = Inr (x\<lparr>shape := [n, 784]\<rparr>)"
    "Linear_forward g (fc1 self) (x\<lparr>shape := [n, 784]\<rparr>) = Inr h1"
    "Linear_forward g (fc2 self) (F_relu h1) = Inr h2"
    "Linear_forward g (fc3 self) (F_relu h2) = Inr h3"
    "Linear_forward g (fc4 self) (F_relu h3) = Inr h4"
    "F_log_softmax h4 1 = Inr y" "shape y = [n, 10]" "dtype y = FloatTensor"
    "wf_tensor y" "requires_grad y = g"
    by blast
  then show ?thesis by (simp add: Classifier_forward_def)
qed

text \<open>rows of a log-softmax are normalised\<close>

lemma log_softmax_row:
  assumes "F_log_softmax x 1 = Inr y" "shape x = [n, c]" "length (data x) = n * c" "i < n" "j < c"
  shows "data y ! (i * c + j) = data x ! (i * c + j) - ln (\<Sum>j'\<leftarrow>[0..<c]. exp (data x ! (i * c + j')))"
proof -
  have lt: "i * c + j < n * c"
  proof -
    have "i * c + j < i * c + c" using assms(5) by simp
    also have "\<dots> = Suc i * c" by simp
    also have "\<dots> \<le> n * c" using assms(4) by (intro mult_le_mono1) simp
    finally show ?thesis .
  qed
  have dv: "(i * c + j) div c = i" using assms(5) by simp
  show ?thesis
    using assms(1,2,3) lt dv
    by (auto simp: F_log_softmax_def Let_def split: if_splits)
qed

lemma sum_list_exp_nonneg: "0 \<le> (\<Sum>x\<leftarrow>xs. exp (f x :: real))"
  by (induction xs) auto

lemma sum_list_exp_pos: "xs \<noteq> [] \<Longrightarrow> 0 < (\<Sum>x\<leftarrow>xs. exp (f x :: real))"
  by (cases xs) (auto intro: add_pos_nonneg sum_list_exp_nonneg)

lemma sum_list_divide_const: "(\<Sum>x\<leftarrow>xs. f x / (c::real)) = (\<Sum>x\<leftarrow>xs. f x) / c"
  by (induction xs) (auto simp: add_divide_distrib)

lemma log_softmax_normalised:
  assumes "F_log_softmax x 1 = Inr y" "shape x = [n, c]" "length (data x) = n * c" "i < n" "0 < c"
  shows "(\<Sum>j\<leftarrow>[0..<c]. exp (data y ! (i * c + j))) = 1"
proof -
  let ?S = "\<Sum>j'\<leftarrow>[0..<c]. exp (data x ! (i * c + j'))"
  have S: "0 < ?S" using assms(5) by (intro sum_list_exp_pos) simp
  have "(\<Sum>j\<leftarrow>[0..<c]. exp (data y ! (i * c + j)))
      = (\<Sum>j\<leftarrow>[0..<c]. exp (data x ! (i * c + j)) / ?S)"
  proof (rule arg_cong [where f = sum_list], rule map_cong [OF refl])
    fix j assume "j \<in> set [0..<c]"
    then have j: "j < c" by simp
    show "exp (data y ! (i * c + j)) = exp (data x ! (i * c + j)) / ?S"
      using log_softmax_row [OF assms(1,2,3,4) j] S by (simp add: exp_diff)
  qed
  also have "\<dots> = ?S / ?S"
    by (simp add: sum_list_divide_const)
  also have "\<dots> = 1" using S by simp
  finally show ?thesis .
qed

lemma Dropout_forward_simps:
  "dtype (fst (Dropout_forward rnd d t (x, k))) = dtype x"
  "shape (fst (Dropout_forward rnd d t (x, k))) = shape x"
  "requires_grad (fst (Dropout_forward rnd d t (x, k))) = requires_grad x"
  "length (data (fst (Dropout_forward rnd d t (x, k)))) = length (data x)"
  "snd (Dropout_forward rnd d t (x, k)) = (if t then Suc k else k)"
  by (simp_all add: Dropout_forward_def)

lemma Dropout_forward_eval [simp]: "Dropout_forward rnd d False xk = xk"
  by (cases xk) (simp add: Dropout_forward_def)

lemma Dropout_forward_train:
  "Dropout_forward rnd d True (x, k) =
     (x\<lparr>data := map (\<lambda>i. if p_drop d \<le> rnd k i then data x ! i / (1 - p_drop d) else 0)
                       [0..<length (data x)]\<rparr>, Suc k)"
  by (simp add: Dropout_forward_def)

lemma dropout_eval_is_plain:
  "\<not> training self \<Longrightarrow>
   ClassifierDropout_forward rnd g self k x = ebind (Classifier_forward g self x) (\<lambda>y. Inr (y, k))"
  by (simp add: ClassifierDropout_forward_def Classifier_forward_def ebind_def Let_def
           split: sum.splits)

lemma dropout_forward_chain:
  assumes sz: "layer_sizes self = [(784, 256), (256, 128), (128, 64), (64, 10)]"
      and x: "dtype x = FloatTensor" "shape x = n # rest" "0 < n" "prod_list rest = 784"
  shows "\<exists>h1 h2 h3 h4 d1 d2 d3 k1 k2 k3 y.
      flatten_input x = Inr (x\<lparr>shape := [n, 784]\<rparr>) \<and>
      Linear_forward g (fc1 self) (x\<lparr>shape := [n, 784]\<rparr>) = Inr h1 \<and> shape h1 = [n, 256] \<and>
      Dropout_forward rnd (dropout self) (training self) (F_relu h1, k) = (d1, k1) \<and>
      Linear_forward g (fc2 self) d1 = Inr h2 \<and> shape h2 = [n, 128] \<and>
      Dropout_forward rnd (dropout self) (training self) (F_relu h2, k1) = (d2, k2) \<and>
      Linear_forward g (fc3 self) d2 = Inr h3 \<and> shape h3 = [n, 64] \<and>
      Dropout_forward rnd (dropout self) (training self) (F_relu h3, k2) = (d3, k3) \<and>
      Linear_forward g (fc4 self) d3 = Inr h4 \<and> shape h4 = [n, 10] \<and>
      wf_tensor h4 \<and> requires_grad h4 = g \<and> dtype h4 = FloatTensor \<and>
      F_log_softmax h4 1 = Inr y \<and> shape y = [n, 10] \<and> dtype y = FloatTensor \<and>
      wf_tensor y \<and> requires_grad y = g \<and>
      k3 = (if training self then k + 3 else k)"
proof -
  note d = layer_sizes_D [OF sz]
  let ?D = "\<lambda>h k. Dropout_forward rnd (dropout self) (training self) (F_relu h, k)"
  have f: "flatten_input x = Inr (x\<lparr>shape := [n, 784]\<rparr>)"
    using flatten_input_ok [OF x(2,3)] x(4) by simp
  obtain h1 where h1: "Linear_forward g (fc1 self) (x\<lparr>shape := [n, 784]\<rparr>) = Inr h1"
      "dtype h1 = FloatTensor" "shape h1 = [n, 256]"
    using Linear_step [of "x\<lparr>shape := [n, 784]\<rparr>" n 784 "fc1 self" 256 g] x(1) d by auto
  obtain d1 k1 where d1: "?D h1 k = (d1, k1)" by (cases "?D h1 k")
  have d1p: "dtype d1 = FloatTensor" "shape d1 = [n, 256]" "k1 = (if training self then Suc k else k)"
    using Dropout_forward_simps [of rnd "dropout self" "training self" "F_relu h1" k] d1 h1
    by simp_all
  obtain h2 where h2: "Linear_forward g (fc2 self) d1 = Inr h2"
      "dtype h2 = FloatTensor" "shape h2 = [n, 128]"
    using Linear_step [of d1 n 256 "fc2 self" 128 g] d1p d by auto
  obtain d2 k2 where d2: "?D h2 k1 = (d2, k2)" by (cases "?D h2 k1")
  have d2p: "dtype d2 = FloatTensor" "shape d2 = [n, 128]" "k2 = (if training self then Suc k1 else k1)"
    using Dropout_forward_simps [of rnd "dropout self" "training self" "F_relu h2" k1] d2 h2
    by simp_all
  obtain h3 where h3: "Linear_forward g (fc3 self) d2 = Inr h3"
      "dtype h3 = FloatTensor" "shape h3 = [n, 64]"
    using Linear_step [of d2 n 128 "fc3 self" 64 g] d2p d by auto
  obtain d3 k3 where d3: "?D h3 k2 = (d3, k3)" by (cases "?D h3 k2")
  have d3p: "dtype d3 = FloatTensor" "shape d3 = [n, 64]" "k3 = (if training self then Suc k2 else k2)"
    using Dropout_forward_simps [of rnd "dropout self" "training self" "F_relu h3" k2] d3 h3
    by simp_all
  obtain h4 where h4: "Linear_forward g (fc4 self) d3 = Inr h4"
      "dtype h4 = FloatTensor" "shape h4 = [n, 10]" "wf_tensor h4" "requires_grad h4 = g"
    using Linear_step [of d3 n 64 "fc4 self" 10 g] d3p d by auto
  obtain y where y: "F_log_softmax h4 1 = Inr y" "dtype y = FloatTensor" "shape y = shape h4"
      "wf_tensor y = wf_tensor h4" "requires_grad y = requires_grad h4"
    using F_log_softmax_ok [of h4 1] h4 by auto
  have k3: "k3 = (if training self then k + 3 else k)"
    using d1p(3) d2p(3) d3p(3) by simp
  show ?thesis
    apply (rule exI [of _ h1], rule exI [of _ h2], rule exI [of _ h3], rule exI [of _ h4])
    apply (rule exI [of _ d1], rule exI [of _ d2], rule exI [of _ d3])
    apply (rule exI [of _ k1], rule exI [of _ k2], rule exI [of _ k3], rule exI [of _ y])
    using f h1 d1 h2 d2 h3 d3 h4 y k3 by simp
qed

lemma ClassifierDropout_forward_ok:
  assumes sz: "layer_sizes self = [(784, 256), (256, 128), (128, 64), (64, 10)]"
      and x: "dtype x = FloatTensor" "shape x = n # rest" "0 < n" "prod_list rest = 784"
  shows "\<exists>y. ClassifierDropout_forward rnd g self k x
                = Inr (y, if training self then k + 3 else k) \<and>
      shape y = [n, 10] \<and> dtype y = FloatTensor \<and> wf_tensor y \<and> requires_grad y = g"
proof -
  from dropout_forward_chain [OF assms, of g rnd k] obtain h1 h2 h3 h4 d1 d2 d3 k1 k2 k3 y where
    "flatten_input x = Inr (x\<lparr>shape := [n, 784]\<rparr>)"
    "Linear_forward g (fc1 self) (x\<lparr>shape := [n, 784]\<rparr>) = Inr h1"
    "Dropout_forward rnd (dropout self) (training self) (F_relu h1, k) = (d1, k1)"
    "Linear_forward g (fc2 self) d1 = Inr h2"
    "Dropout_forward rnd (dropout self) (training self) (F_relu h2, k1) = (d2, k2)"
    "Linear_forward g (fc3 self) d2 = Inr h3"
    "Dropout_forward rnd (dropout self) (training self) (F_relu h3, k2) = (d3, k3)"
    "Linear_forward g (fc4 self) d3 = Inr h4"
    "F_log_softmax h4 1 = Inr y" "shape y = [n, 10]" "dtype y = FloatTensor"
    "wf_tensor y" "requires_grad y = g" "k3 = (if training self then k + 3 else k)"
    by blast
  then show ?thesis by (simp add: ClassifierDropout_forward_def)
qed

lemma hd_sort_key_min:
  assumes "xs \<noteq> []"
  shows "hd (sort_key f xs) \<in> set xs \<and> (\<forall>x\<in>set xs. f (hd (sort_key f xs)) \<le> f x)"
proof -
  let ?ys = "sort_key f xs"
  have ne: "?ys \<noteq> []" using assms by (metis length_0_conv length_sort)
  then obtain y ys where ys: "?ys = y # ys" by (cases ?ys) auto
  have "sorted (map f ?ys)" by simp
  then have "\<forall>z\<in>set ys. f y \<le> f z" unfolding ys by simp
  moreover have "set ?ys = set xs" by simp
  ultimately show ?thesis unfolding ys by (metis list.sel(1) list.set_intros(1) order_refl set_ConsD ys)
qed

lemma row_argmax_props:
  assumes "0 < c"
  shows "row_argmax xs c i < c" "\<And>j. j < c \<Longrightarrow> xs ! (i * c + j) \<le> xs ! (i * c + row_argmax xs c i)"
proof -
  have ne: "[0..<c] \<noteq> []" using assms by simp
  from hd_sort_key_min [OF ne, of "\<lambda>j. - xs ! (i * c + j)"]
  show "row_argmax xs c i < c" "\<And>j. j < c \<Longrightarrow> xs ! (i * c + j) \<le> xs ! (i * c + row_argmax xs c i)"
    by (auto simp: row_argmax_def)
qed

lemma take1_nth0: "xs \<noteq> [] \<Longrightarrow> take (Suc 0) xs ! 0 = hd xs"
  by (cases xs) simp_all

lemma torch_exp_ok:
  "dtype x = FloatTensor \<Longrightarrow> torch_exp x = Inr (x\<lparr>data := map exp (data x)\<rparr>)"
  by (simp add: torch_exp_def)

lemma topk_2d:
  assumes "shape x = [n, c]" "0 < c"
  shows "topk x (Suc 0) (Suc 0) =
     Inr (\<lparr>dtype = dtype x, shape = [n, Suc 0],
           data = map (\<lambda>i. data x ! (i * c + row_argmax (data x) c i)) [0..<n],
           requires_grad = requires_grad x\<rparr>,
          \<lparr>dtype = LongTensor, shape = [n, Suc 0],
           data = map (\<lambda>i. real (row_argmax (data x) c i)) [0..<n], requires_grad = False\<rparr>)"
proof -
  have ne: "\<And>g. sort_key g [0..<c] \<noteq> []"
    using assms(2) by (metis length_sort length_upt less_numeral_extra(3) list.size(3) minus_nat.diff_0)
  show ?thesis
    using assms by (simp add: topk_def Let_def row_argmax_def take1_nth0 [OF ne])
qed

lemma view_labels:
  assumes "shape labels = [n]"
  shows "view labels [int n, 1] = Inr (labels\<lparr>shape := [n, Suc 0]\<rparr>)"
  using assms by (simp add: view_def infer_size_def numel_def)

lemma broadcast_same: "broadcast_shapes [n, Suc 0] [n, Suc 0] = Inr [n, Suc 0]"
  by (simp add: broadcast_shapes_def)

lemma broadcast_col_row: "broadcast_shapes [n, Suc 0] [n] = Inr [n, n]"
  by (simp add: broadcast_shapes_def)

lemma tensor_eq_col:
  assumes "shape a = [n, Suc 0]" "shape b = [n, Suc 0]"
  shows "tensor_eq a b =
     Inr \<lparr>dtype = ByteTensor, shape = [n, Suc 0],
          data = map (\<lambda>i. if data a ! i = data b ! i then 1 else 0) [0..<n],
          requires_grad = False\<rparr>"
proof -
  have "\<And>f. f < n \<Longrightarrow> broadcast_index [n, Suc 0] (unravel [n, Suc 0] f) = f"
    by (auto simp: broadcast_index_def)
  then show ?thesis
    using assms by (simp add: tensor_eq_def broadcast_same Let_def cong: map_cong)
qed

lemma tensor_eq_col_row_shape:
  assumes "shape a = [n, 1]" "shape b = [n]"
  shows "\<exists>e. tensor_eq a b = Inr e \<and> shape e = [n, n] \<and> length (data e) = n * n"
  using assms by (simp add: tensor_eq_def broadcast_col_row)

text \<open>entries of the broadcast comparison: row i, column j compares prediction i with label j\<close>

lemma tensor_eq_col_row_data:
  assumes "shape a = [n, 1]" "shape b = [n]" "tensor_eq a b = Inr e" "i < n" "j < n"
  shows "data e ! (i * n + j) = (if data a ! i = data b ! j then 1 else 0)"
proof -
  have lt: "i * n + j < n * n"
  proof -
    have "i * n + j < i * n + n" using assms(5) by simp
    also have "\<dots> = Suc i * n" by simp
    also have "\<dots> \<le> n * n" using assms(4) by (intro mult_le_mono1) simp
    finally show ?thesis .
  qed
  have u: "unravel [n, n] (i * n + j) = [i, j]" using assms(5) by simp
  have ia: "broadcast_index [n, 1] [i, j] = i" using assms(4) by (auto simp: broadcast_index_def)
  have ib: "broadcast_index [n] [i, j] = j" using assms(5) by (auto simp: broadcast_index_def)
  have "data e = map (\<lambda>f. let idx = unravel [n, n] f in
                         if data a ! broadcast_index [n, 1] idx = data b ! broadcast_index [n] idx
                         then 1 else 0) [0..<n * n]"
    using assms(1,2,3) by (auto simp: tensor_eq_def broadcast_col_row)
  then show ?thesis using lt u ia ib by simp
qed

lemma batch_equals_ok:
  assumes "dtype lp = FloatTensor" "shape lp = [n, c]" "0 < c" "shape lb = [n]"
  shows "batch_equals lp lb =
     Inr \<lparr>dtype = ByteTensor, shape = [n, 1],
          data = map (\<lambda>i. if real (row_argmax (map exp (data lp)) c i) = data lb ! i then 1 else 0) [0..<n],
          requires_grad = False\<rparr>"
proof -
  let ?ps = "lp\<lparr>data := map exp (data lp)\<rparr>"
  have e: "torch_exp lp = Inr ?ps" using assms(1) by (rule torch_exp_ok)
  have t: "topk ?ps (Suc 0) (Suc 0) =
     Inr (\<lparr>dtype = dtype ?ps, shape = [n, Suc 0],
           data = map (\<lambda>i. data ?ps ! (i * c + row_argmax (data ?ps) c i)) [0..<n],
           requires_grad = requires_grad ?ps\<rparr>,
          \<lparr>dtype = LongTensor, shape = [n, Suc 0],
           data = map (\<lambda>i. real (row_argmax (data ?ps) c i)) [0..<n], requires_grad = False\<rparr>)"
    using assms(2,3) by (intro topk_2d) simp_all
  have v: "view lb [int n, 1] = Inr (lb\<lparr>shape := [n, Suc 0]\<rparr>)"
    using assms(4) by (rule view_labels)
  show ?thesis
    by (simp add: batch_equals_def e t v tensor_eq_col cong: map_cong)
qed

lemma sum_list_indicator:
  "(\<Sum>i\<leftarrow>xs. if P i then (1::real) else 0) = real (length (filter P xs))"
  by (induction xs) simp_all

lemma batch_accuracy_ok:
  assumes "dtype lp = FloatTensor" "shape lp = [n, c]" "0 < c" "shape lb = [n]" "0 < n"
  shows "batch_accuracy lp lb =
     Inr (real (length (filter (\<lambda>i. real (row_argmax (map exp (data lp)) c i) = data lb ! i) [0..<n]))
          / real n)"
  using assms(5)
  by (simp add: batch_accuracy_def batch_equals_ok [OF assms(1-4)] type_FloatTensor_def
        torch_mean_def item_def sum_list_indicator)

lemma batch_accuracy_range:
  assumes "dtype lp = FloatTensor" "shape lp = [n, c]" "0 < c" "shape lb = [n]" "0 < n"
  shows "\<exists>a. batch_accuracy lp lb = Inr a \<and> 0 \<le> a \<and> a \<le> 1"
proof -
  let ?k = "length (filter (\<lambda>i. real (row_argmax (map exp (data lp)) c i) = data lb ! i) [0..<n])"
  have "?k \<le> n" using length_filter_le [of _ "[0..<n]"] by simp
  then have "real ?k / real n \<le> 1" using assms(5) by simp
  then show ?thesis using batch_accuracy_ok [OF assms] by simp
qed

lemma NLLLoss_ok:
  assumes "dtype lp = FloatTensor" "shape lp = [n, c]" "dtype lb = LongTensor" "shape lb = [n]"
      and "0 < n" "length (data lb) = n" "\<forall>t\<in>set (data lb). 0 \<le> t \<and> t < real c"
  shows "\<exists>loss v. NLLLoss_forward lp lb = Inr loss \<and> data loss = [v] \<and> item loss = Inr v
            \<and> requires_grad loss = requires_grad lp"
proof -
  have a: "\<not> list_ex (\<lambda>t. t \<noteq> - 100 \<and> (t < 0 \<or> real c \<le> t)) (data lb)"
    using assms(7) by (auto simp: list_ex_iff)
  have "filter (\<lambda>i. data lb ! i \<noteq> - 100) [0..<n] = [0..<n]"
    using assms(6,7) by (auto simp: filter_id_conv) (metis nth_mem not_numeral_le_zero neg_numeral_le_zero dual_order.trans le_minus_one_simps(3) neg_0_le_iff_le zero_le_numeral)
  then show ?thesis
    using assms(1-5) a by (simp add: NLLLoss_forward_def item_def)
qed

lemma batch_correct_acc:
  assumes "dtype lp = FloatTensor" "shape lp = [n, c]" "0 < c" "shape lb = [n]" "0 < n"
  shows "batch_accuracy lp lb = Inr (real (batch_correct lp lb) / real n)"
  using batch_accuracy_ok [OF assms] assms(2) by (simp add: batch_correct_def)

lemma batch_correct_le:
  assumes "shape lp = [n, c]"
  shows "batch_correct lp lb \<le> n"
  using length_filter_le [of _ "[0..<n]"] assms by (simp add: batch_correct_def)

subsection \<open>collate and loaders\<close>

lemma collate_ok:
  assumes "b \<noteq> []" "list_all fashion_sample b"
  shows "\<exists>im lb. collate b = Inr (im, lb) \<and> dtype im = FloatTensor
          \<and> shape im = [length b, 1, 28, 28] \<and> \<not> requires_grad im
          \<and> dtype lb = LongTensor \<and> shape lb = [length b] \<and> length (data lb) = length b
          \<and> data lb = map (\<lambda>s. real_of_int (snd s)) b
          \<and> (\<forall>t\<in>set (data lb). 0 \<le> t \<and> t < 10)"
proof -
  obtain x0 l0 b' where b: "b = (x0, l0) # b'" using assms(1) by (cases b) auto
  have all: "\<forall>s\<in>set b. dtype (fst s) = FloatTensor \<and> shape (fst s) = [1, 28, 28] \<and> 0 \<le> snd s \<and> snd s < 10"
    using assms(2) by (auto simp: list_all_iff fashion_sample_def)
  then have x0: "dtype x0 = FloatTensor" "shape x0 = [1, 28, 28]" unfolding b by auto
  have nex: "\<not> list_ex (\<lambda>s. shape (fst s) \<noteq> shape x0) b"
    using all x0 by (auto simp: list_ex_iff)
  have c: "collate b = Inr (\<lparr>dtype = dtype x0, shape = length b # shape x0,
                     data = concat (map (\<lambda>s. data (fst s)) b), requires_grad = False\<rparr>,
                    \<lparr>dtype = LongTensor, shape = [length b],
                     data = map (\<lambda>s. real_of_int (snd s)) b, requires_grad = False\<rparr>)"
    using nex unfolding collate_def b by simp
  show ?thesis unfolding c using x0 all by auto
qed

lemma DataLoader_iter_length:
  "length (fst (DataLoader_iter rnd dl k)) = DataLoader_len dl"
  by (simp add: DataLoader_iter_def Let_def)

lemma DataLoader_iter_snd:
  "snd (DataLoader_iter rnd dl k) = (if shuffle dl then Suc k else k)"
  by (simp add: DataLoader_iter_def Let_def)

lemma chunk_bound:
  assumes "0 < (bs::nat)" "b < (n + bs - 1) div bs"
  shows "b * bs < n"
proof -
  have "Suc b \<le> (n + bs - 1) div bs" using assms(2) by simp
  then have "Suc b * bs \<le> n + bs - 1"
    using assms(1) by (simp add: less_eq_div_iff_mult_less_eq)
  then show ?thesis using assms(1) by simp
qed

lemma DataLoader_iter_batches:
  assumes "0 < batch_size dl" "b \<in> set (fst (DataLoader_iter rnd dl k))"
  shows "b \<noteq> [] \<and> set b \<subseteq> set (dataset dl) \<and> length b \<le> batch_size dl"
proof -
  let ?n = "length (dataset dl)"
  let ?order = "if shuffle dl then sort_key (rnd k) [0..<?n] else [0..<?n]"
  let ?samples = "map (\<lambda>i. dataset dl ! i) ?order"
  have so: "set ?order = {0..<?n}" by simp
  have ls: "length ?samples = ?n" by simp
  have ss: "set ?samples \<subseteq> set (dataset dl)" using so by auto
  from assms(2) obtain j where j: "j < DataLoader_len dl"
      "b = take (batch_size dl) (drop (j * batch_size dl) ?samples)"
    by (auto simp: DataLoader_iter_def Let_def)
  have "j * batch_size dl < ?n"
    using chunk_bound [OF assms(1)] j(1) by (simp add: DataLoader_len_def)
  then have "drop (j * batch_size dl) ?samples \<noteq> []" using ls by simp
  then have "b \<noteq> []" using assms(1) j(2) by simp
  moreover have "set b \<subseteq> set ?samples"
    unfolding j(2) by (meson set_take_subset set_drop_subset subset_trans)
  moreover have "length b \<le> batch_size dl" unfolding j(2) by simp
  ultimately show ?thesis using ss by blast
qed

lemma DataLoader_len_pos:
  "0 < batch_size dl \<Longrightarrow> dataset dl \<noteq> [] \<Longrightarrow> 0 < DataLoader_len dl"
  by (cases "dataset dl") (simp_all add: DataLoader_len_def div_greater_zero_iff)

lemma DataLoader_iter_fashion:
  assumes "0 < batch_size dl" "list_all fashion_sample (dataset dl)"
  shows "list_all (\<lambda>b. b \<noteq> [] \<and> list_all fashion_sample b) (fst (DataLoader_iter rnd dl k))"
  using DataLoader_iter_batches [OF assms(1)] assms(2)
  by (fastforce simp: list_all_iff)

lemma Classifier_call_ok:
  assumes "layer_sizes m = [(784, 256), (256, 128), (128, 64), (64, 10)]"
      and "dtype x = FloatTensor" "shape x = n # rest" "0 < n" "prod_list rest = 784"
  shows "\<exists>y. Classifier_call g m k x = Inr (y, k) \<and> shape y = [n, 10] \<and> dtype y = FloatTensor
           \<and> requires_grad y = g"
  using Classifier_forward_ok [OF assms, of g] by (auto simp: Classifier_call_def)

lemma Classifier_call_stable: "Classifier_call g m k x = Inr (y, k') \<Longrightarrow> k' = k"
  by (auto simp: Classifier_call_def ebind_Inr_iff)

lemma ClassifierDropout_call_ok:
  assumes "layer_sizes m = [(784, 256), (256, 128), (128, 64), (64, 10)]"
      and "dtype x = FloatTensor" "shape x = n # rest" "0 < n" "prod_list rest = 784"
  shows "\<exists>y. ClassifierDropout_call fw g m k x = Inr (y, if training m then k + 3 else k)
           \<and> shape y = [n, 10] \<and> dtype y = FloatTensor \<and> requires_grad y = g"
  using ClassifierDropout_forward_ok [OF assms, of "draw fw" g k]
  by (auto simp: ClassifierDropout_call_def)

lemma ClassifierDropout_call_stable:
  "\<not> training m \<Longrightarrow> ClassifierDropout_call fw g m k x = Inr (y, k') \<Longrightarrow> k' = k"
  by (auto simp: ClassifierDropout_call_def dropout_eval_is_plain ebind_Inr_iff)

lemma layer_sizes_step [simp]:
  "layer_sizes (model (optimizer_step fw s)) = layer_sizes (model s)"
  by (simp add: layer_sizes_def)

lemma layer_sizes_eval [simp]:
  "layer_sizes (model (model_eval s)) = layer_sizes (model s)"
  "layer_sizes (model (model_train s)) = layer_sizes (model s)"
  by (simp_all add: layer_sizes_def)

lemma train_events_simps [simp]:
  "train_events mode gm [] = []"
  "train_events mode gm (r # rs) =
     [Zero_grad, Forward (b_images r) mode gm, Criterion (b_labels r) (b_loss r), Backward, Step]
       @ train_events mode gm rs"
  "train_events mode gm (rs @ rs') = train_events mode gm rs @ train_events mode gm rs'"
  by (simp_all add: train_events_def)

lemma validate_events_simps [simp]:
  "validate_events mode gm [] = []"
  "validate_events mode gm (r # rs) =
     [Forward (b_images r) mode gm, Criterion (b_labels r) (b_loss r)] @ validate_events mode gm rs"
  by (simp_all add: validate_events_def)

lemma validate_events_eval_simps [simp]:
  "validate_events_eval gm [] = []"
  "validate_events_eval gm (r # rs) =
     [Eval, Forward (b_images r) False gm, Criterion (b_labels r) (b_loss r)]
       @ validate_events_eval gm rs"
  by (simp_all add: validate_events_eval_def)

text \<open>what a successful training step did\<close>

lemma train_step_run:
  assumes "train_step fw fwd b s = Inr (v, s')"
  shows "\<exists>r k. collate b = Inr (b_images r, b_labels r) \<and>
        fwd (grad_enabled s) (model s) (rng s) (b_images r) = Inr (b_log_ps r, k) \<and>
        NLLLoss_forward (b_log_ps r) (b_labels r) = Inr (b_loss r) \<and>
        item (b_loss r) = Inr (b_value r) \<and> v = b_value r \<and>
        calls s' = calls s @ train_events (training (model s)) (grad_enabled s) [r::batch_run] \<and>
        grad_enabled s' = grad_enabled s \<and> lr s' = lr s \<and>
        train_losses s' = train_losses s \<and> test_losses s' = test_losses s \<and>
        training (model s') = training (model s) \<and>
        Classifier.more (model s') = Classifier.more (model s) \<and>
        layer_sizes (model s') = layer_sizes (model s)"
proof -
  from assms obtain images labels log_ps k loss where
    c: "collate b = Inr (images, labels)" and
    f: "fwd (grad_enabled s) (model s) (rng s) images = Inr (log_ps, k)" and
    n: "NLLLoss_forward log_ps labels = Inr loss" and
    i: "item loss = Inr v" and
    rest: "calls s' = calls s @ [Zero_grad, Forward images (training (model s)) (grad_enabled s),
                                    Criterion labels loss, Backward, Step]"
      "grad_enabled s' = grad_enabled s" "lr s' = lr s"
      "train_losses s' = train_losses s" "test_losses s' = test_losses s"
      "training (model s') = training (model s)"
      "Classifier.more (model s') = Classifier.more (model s)"
      "layer_sizes (model s') = layer_sizes (model s)"
    by (auto simp: train_step_def ebind_Inr_iff Let_def model_call_Inr criterion_Inr
          loss_backward_Inr)
  let ?r = "\<lparr>b_images = images, b_labels = labels, b_log_ps = log_ps, b_loss = loss, b_value = v\<rparr>"
  show ?thesis
    apply (rule exI [of _ ?r], rule exI [of _ k])
    using c f n i rest by simp
qed

lemma train_step_total:
  assumes fwd: "\<And>x n rest. dtype x = FloatTensor \<Longrightarrow> shape x = n # rest \<Longrightarrow> 0 < n
           \<Longrightarrow> prod_list rest = 784
           \<Longrightarrow> \<exists>y k'. fwd (grad_enabled s) (model s) (rng s) x = Inr (y, k') \<and> shape y = [n, 10]
                  \<and> dtype y = FloatTensor \<and> requires_grad y = grad_enabled s"
      and g: "grad_enabled s" and b: "b \<noteq> []" "list_all fashion_sample b"
  shows "\<exists>v s'. train_step fw fwd b s = Inr (v, s')"
proof -
  from collate_ok [OF b] obtain im lb where
    c: "collate b = Inr (im, lb)" "dtype im = FloatTensor" "shape im = [length b, 1, 28, 28]"
       "dtype lb = LongTensor" "shape lb = [length b]" "length (data lb) = length b"
       "\<forall>t\<in>set (data lb). 0 \<le> t \<and> t < 10"
    by blast
  have n0: "0 < length b" using b(1) by simp
  from fwd [OF c(2,3) n0] obtain y k' where
    y: "fwd (grad_enabled s) (model s) (rng s) im = Inr (y, k')" "shape y = [length b, 10]"
       "dtype y = FloatTensor" "requires_grad y = grad_enabled s"
    by auto
  from NLLLoss_ok [OF y(3,2) c(4,5) n0 c(6)] c(7) obtain loss v where
    l: "NLLLoss_forward y lb = Inr loss" "item loss = Inr v" "requires_grad loss = requires_grad y"
    by auto
  show ?thesis
    using c(1) y(1,4) l g
    by (simp add: train_step_def Let_def model_call_def criterion_def loss_backward_def)
qed

lemma train_batches_run:
  assumes "train_batches fw fwd bs (r0, s) = Inr (r1, s')"
  shows "\<exists>T::batch_run list.
      list_all2 (\<lambda>b r. collate b = Inr (b_images r, b_labels r) \<and>
          (\<exists>m k k'. layer_sizes m = layer_sizes (model s) \<and> training m = training (model s) \<and>
             fwd (grad_enabled s) m k (b_images r) = Inr (b_log_ps r, k')) \<and>
          NLLLoss_forward (b_log_ps r) (b_labels r) = Inr (b_loss r) \<and>
          item (b_loss r) = Inr (b_value r)) bs T \<and>
      calls s' = calls s @ train_events (training (model s)) (grad_enabled s) T \<and>
      r1 = r0 + sum_list (map b_value T) \<and>
      grad_enabled s' = grad_enabled s \<and> lr s' = lr s \<and>
      train_losses s' = train_losses s \<and> test_losses s' = test_losses s \<and>
      training (model s') = training (model s) \<and>
      Classifier.more (model s') = Classifier.more (model s) \<and>
      layer_sizes (model s') = layer_sizes (model s)"
  using assms
proof (induction bs arbitrary: r0 s)
  case Nil
  then show ?case by (intro exI [of _ "[]"]) simp
next
  case (Cons b bs)
  from Cons.prems obtain v s1 where
    st: "train_step fw fwd b s = Inr (v, s1)" and
    tl: "train_batches fw fwd bs (r0 + v, s1) = Inr (r1, s')"
    by (auto simp: ebind_Inr_iff)
  from train_step_run [OF st] obtain r :: batch_run and k where r:
    "collate b = Inr (b_images r, b_labels r)"
    "fwd (grad_enabled s) (model s) (rng s) (b_images r) = Inr (b_log_ps r, k)"
    "NLLLoss_forward (b_log_ps r) (b_labels r) = Inr (b_loss r)"
    "item (b_loss r) = Inr (b_value r)" "v = b_value r"
    "calls s1 = calls s @ train_events (training (model s)) (grad_enabled s) [r]"
    "grad_enabled s1 = grad_enabled s" "lr s1 = lr s"
    "train_losses s1 = train_losses s" "test_losses s1 = test_losses s"
    "training (model s1) = training (model s)"
    "Classifier.more (model s1) = Classifier.more (model s)"
    "layer_sizes (model s1) = layer_sizes (model s)"
    by blast
  from Cons.IH [OF tl] obtain T :: "batch_run list" where T:
    "list_all2 (\<lambda>b r. collate b = Inr (b_images r, b_labels r) \<and>
          (\<exists>m k k'. layer_sizes m = layer_sizes (model s1) \<and> training m = training (model s1) \<and>
             fwd (grad_enabled s1) m k (b_images r) = Inr (b_log_ps r, k')) \<and>
          NLLLoss_forward (b_log_ps r) (b_labels r) = Inr (b_loss r) \<and>
          item (b_loss r) = Inr (b_value r)) bs T"
    "calls s' = calls s1 @ train_events (training (model s1)) (grad_enabled s1) T"
    "r1 = r0 + v + sum_list (map b_value T)"
    "grad_enabled s' = grad_enabled s1" "lr s' = lr s1"
    "train_losses s' = train_losses s1" "test_losses s' = test_losses s1"
    "training (model s') = training (model s1)"
    "Classifier.more (model s') = Classifier.more (model s1)"
    "layer_sizes (model s') = layer_sizes (model s1)"
    by blast
  have hd: "\<exists>m k k'. layer_sizes m = layer_sizes (model s) \<and> training m = training (model s) \<and>
             fwd (grad_enabled s) m k (b_images r) = Inr (b_log_ps r, k')"
    using r(2) by blast
  show ?case
    apply (rule exI [of _ "r # T"])
    using r(1,3,4,5) hd T r(6-13) by simp
qed

lemma train_batches_total:
  assumes fwd: "\<And>g m k x n rest. layer_sizes m = [(784, 256), (256, 128), (128, 64), (64, 10)]
           \<Longrightarrow> dtype x = FloatTensor \<Longrightarrow> shape x = n # rest \<Longrightarrow> 0 < n \<Longrightarrow> prod_list rest = 784
           \<Longrightarrow> \<exists>y k'. fwd g m k x = Inr (y, k') \<and> shape y = [n, 10]
                  \<and> dtype y = FloatTensor \<and> requires_grad y = g"
      and "layer_sizes (model s) = [(784, 256), (256, 128), (128, 64), (64, 10)]"
      and "grad_enabled s" and "list_all (\<lambda>b. b \<noteq> [] \<and> list_all fashion_sample b) bs"
  shows "\<exists>r1 s'. train_batches fw fwd bs (r0, s) = Inr (r1, s')"
  using assms(2-)
proof (induction bs arbitrary: r0 s)
  case Nil
  then show ?case by simp
next
  case (Cons b bs)
  have b: "b \<noteq> []" "list_all fashion_sample b" using Cons.prems(3) by simp_all
  have "\<exists>v s1. train_step fw fwd b s = Inr (v, s1)"
    by (rule train_step_total [OF _ Cons.prems(2) b]) (rule fwd [OF Cons.prems(1)])
  then obtain v s1 where st: "train_step fw fwd b s = Inr (v, s1)" by blast
  from train_step_run [OF st] have
    "grad_enabled s1 = grad_enabled s" "layer_sizes (model s1) = layer_sizes (model s)"
    by blast+
  then have "\<exists>r1 s'. train_batches fw fwd bs (r0 + v, s1) = Inr (r1, s')"
    using Cons.IH [of s1 "r0 + v"] Cons.prems by simp
  then show ?case using st by simp
qed

subsection \<open>validation\<close>

lemma validate_step_run:
  assumes "\<And>x y k'. fwd (grad_enabled s) (model s) (rng s) x = Inr (y, k') \<Longrightarrow> k' = rng s"
  shows "validate_step fwd b s =
     ebind (validate_run fwd (grad_enabled s) (model s) (rng s) b) (\<lambda>r.
       Inr ((b_value r, b_accuracy r),
            s\<lparr>calls := calls s @ validate_events (training (model s)) (grad_enabled s) [r]\<rparr>))"
proof (cases "collate b")
  case (Inl e)
  then show ?thesis by (simp add: validate_step_def validate_run_def)
next
  case (Inr p)
  obtain im lb where p: "p = (im, lb)" by (cases p)
  show ?thesis
  proof (cases "fwd (grad_enabled s) (model s) (rng s) im")
    case (Inl e)
    then show ?thesis using Inr p by (simp add: validate_step_def validate_run_def model_call_def)
  next
    case f: (Inr q)
    obtain y k' where q: "q = (y, k')" by (cases q)
    have k': "k' = rng s" using assms f q by simp
    have s: "s\<lparr>rng := rng s, calls := calls s @ [Forward im (training (model s)) (grad_enabled s)]\<rparr>
        = s\<lparr>calls := calls s @ [Forward im (training (model s)) (grad_enabled s)]\<rparr>"
      by simp
    show ?thesis
      using Inr p f q k'
      by (simp add: validate_step_def validate_run_def model_call_def criterion_def ebind_def s
            split: sum.splits)
  qed
qed

lemma validate_batches_run:
  assumes "\<And>x y k'. fwd (grad_enabled s) (model s) (rng s) x = Inr (y, k') \<Longrightarrow> k' = rng s"
  shows "validate_batches fwd bs ((t0, a0), s) = Inr (res, s') \<longleftrightarrow>
     (\<exists>V. map (validate_run fwd (grad_enabled s) (model s) (rng s)) bs = map Inr V \<and>
          res = (t0 + sum_list (map b_value V), a0 + sum_list (map b_accuracy V)) \<and>
          s' = s\<lparr>calls := calls s @ validate_events (training (model s)) (grad_enabled s) V\<rparr>)"
  using assms
proof (induction bs arbitrary: t0 a0 s)
  case Nil
  then show ?case by auto
next
  case (Cons b bs)
  let ?g = "grad_enabled s" and ?m = "model s" and ?k = "rng s"
  note step = validate_step_run [of fwd s b, OF Cons.prems]
  show ?case
  proof (cases "validate_run fwd ?g ?m ?k b")
    case (Inl e)
    then show ?thesis by (auto simp: step)
  next
    case (Inr r)
    let ?s1 = "s\<lparr>calls := calls s @ validate_events (training ?m) ?g [r]\<rparr>"
    have st: "\<And>x y k'. fwd (grad_enabled ?s1) (model ?s1) (rng ?s1) x = Inr (y, k') \<Longrightarrow> k' = rng ?s1"
      using Cons.prems by simp
    have "validate_batches fwd (b # bs) ((t0, a0), s) = Inr (res, s') \<longleftrightarrow>
          validate_batches fwd bs ((t0 + b_value r, a0 + b_accuracy r), ?s1) = Inr (res, s')"
      by (simp add: step Inr)
    also have "\<dots> \<longleftrightarrow> (\<exists>V. map (validate_run fwd ?g ?m ?k) bs = map Inr V \<and>
          res = (t0 + b_value r + sum_list (map b_value V), a0 + b_accuracy r + sum_list (map b_accuracy V)) \<and>
          s' = ?s1\<lparr>calls := calls ?s1 @ validate_events (training ?m) ?g V\<rparr>)"
      using Cons.IH [of ?s1 "t0 + b_value r" "a0 + b_accuracy r", OF st] by simp
    also have "\<dots> \<longleftrightarrow> (\<exists>V. map (validate_run fwd ?g ?m ?k) (b # bs) = map Inr V \<and>
          res = (t0 + sum_list (map b_value V), a0 + sum_list (map b_accuracy V)) \<and>
          s' = s\<lparr>calls := calls s @ validate_events (training ?m) ?g V\<rparr>)"
      (is "?L \<longleftrightarrow> ?R")
    proof
      assume ?L
      then obtain V where V: "map (validate_run fwd ?g ?m ?k) bs = map Inr V"
          "res = (t0 + b_value r + sum_list (map b_value V), a0 + b_accuracy r + sum_list (map b_accuracy V))"
          "s' = ?s1\<lparr>calls := calls ?s1 @ validate_events (training ?m) ?g V\<rparr>"
        by blast
      show ?R
        apply (rule exI [of _ "r # V"])
        using V Inr by (simp add: add.assoc)
    next
      assume ?R
      then obtain V where V: "map (validate_run fwd ?g ?m ?k) (b # bs) = map Inr V"
          "res = (t0 + sum_list (map b_value V), a0 + sum_list (map b_accuracy V))"
          "s' = s\<lparr>calls := calls s @ validate_events (training ?m) ?g V\<rparr>"
        by blast
      from V(1) Inr obtain V' where V': "V = r # V'" by (cases V) auto
      show ?L
        apply (rule exI [of _ V'])
        using V V' by (simp add: add.assoc)
    qed
    finally show ?thesis .
  qed
qed

lemma model_eval_idle:
  "\<not> training (model s) \<Longrightarrow> model_eval s = s\<lparr>calls := calls s @ [Eval]\<rparr>"
  by (simp add: model_eval_def)

lemma validate_step_eval_run:
  assumes "\<not> training (model s)"
      and "\<And>x y k'. fwd (grad_enabled s) (model s) (rng s) x = Inr (y, k') \<Longrightarrow> k' = rng s"
  shows "validate_step_eval fwd b s =
     ebind (validate_run fwd (grad_enabled s) (model s) (rng s) b) (\<lambda>r.
       Inr ((b_value r, b_accuracy r),
            s\<lparr>calls := calls s @ validate_events_eval (grad_enabled s) [r]\<rparr>))"
proof (cases "collate b")
  case (Inl e)
  then show ?thesis by (simp add: validate_step_eval_def validate_run_def)
next
  case (Inr p)
  obtain im lb where p: "p = (im, lb)" by (cases p)
  show ?thesis
  proof (cases "fwd (grad_enabled s) (model s) (rng s) im")
    case (Inl e)
    then show ?thesis
      using Inr p assms(1)
      by (simp add: validate_step_eval_def validate_run_def model_call_def model_eval_idle)
  next
    case f: (Inr q)
    obtain y k' where q: "q = (y, k')" by (cases q)
    have k': "k' = rng s" using assms(2) f q by simp
    show ?thesis
      using Inr p f q k' assms(1)
      by (simp add: validate_step_eval_def validate_run_def model_call_def criterion_def ebind_def
            model_eval_idle split: sum.splits)
  qed
qed

lemma validate_batches_eval_run:
  assumes "\<not> training (model s)"
      and "\<And>x y k'. fwd (grad_enabled s) (model s) (rng s) x = Inr (y, k') \<Longrightarrow> k' = rng s"
  shows "validate_batches_eval fwd bs ((t0, a0), s) = Inr (res, s') \<longleftrightarrow>
     (\<exists>V. map (validate_run fwd (grad_enabled s) (model s) (rng s)) bs = map Inr V \<and>
          res = (t0 + sum_list (map b_value V), a0 + sum_list (map b_accuracy V)) \<and>
          s' = s\<lparr>calls := calls s @ validate_events_eval (grad_enabled s) V\<rparr>)"
  using assms
proof (induction bs arbitrary: t0 a0 s)
  case Nil
  then show ?case by auto
next
  case (Cons b bs)
  let ?g = "grad_enabled s" and ?m = "model s" and ?k = "rng s"
  note step = validate_step_eval_run [of s fwd b, OF Cons.prems]
  show ?case
  proof (cases "validate_run fwd ?g ?m ?k b")
    case (Inl e)
    then show ?thesis by (auto simp: step)
  next
    case (Inr r)
    let ?s1 = "s\<lparr>calls := calls s @ validate_events_eval ?g [r]\<rparr>"
    have st: "\<And>x y k'. fwd (grad_enabled ?s1) (model ?s1) (rng ?s1) x = Inr (y, k') \<Longrightarrow> k' = rng ?s1"
      using Cons.prems(2) by simp
    have nt: "\<not> training (model ?s1)" using Cons.prems(1) by simp
    have "validate_batches_eval fwd (b # bs) ((t0, a0), s) = Inr (res, s') \<longleftrightarrow>
          validate_batches_eval fwd bs ((t0 + b_value r, a0 + b_accuracy r), ?s1) = Inr (res, s')"
      by (simp add: step Inr)
    also have "\<dots> \<longleftrightarrow> (\<exists>V. map (validate_run fwd ?g ?m ?k) bs = map Inr V \<and>
          res = (t0 + b_value r + sum_list (map b_value V), a0 + b_accuracy r + sum_list (map b_accuracy V)) \<and>
          s' = ?s1\<lparr>calls := calls ?s1 @ validate_events_eval ?g V\<rparr>)"
      using Cons.IH [of ?s1 "t0 + b_value r" "a0 + b_accuracy r", OF nt st] by simp
    also have "\<dots> \<longleftrightarrow> (\<exists>V. map (validate_run fwd ?g ?m ?k) (b # bs) = map Inr V \<and>
          res = (t0 + sum_list (map b_value V), a0 + sum_list (map b_accuracy V)) \<and>
          s' = s\<lparr>calls := calls s @ validate_events_eval ?g V\<rparr>)"
      (is "?L \<longleftrightarrow> ?R")
    proof
      assume ?L
      then obtain V where V: "map (validate_run fwd ?g ?m ?k) bs = map Inr V"
          "res = (t0 + b_value r + sum_list (map b_value V), a0 + b_accuracy r + sum_list (map b_accuracy V))"
          "s' = ?s1\<lparr>calls := calls ?s1 @ validate_events_eval ?g V\<rparr>"
        by blast
      show ?R
        apply (rule exI [of _ "r # V"])
        using V Inr by (simp add: add.assoc)
    next
      assume ?R
      then obtain V where V: "map (validate_run fwd ?g ?m ?k) (b # bs) = map Inr V"
          "res = (t0 + sum_list (map b_value V), a0 + sum_list (map b_accuracy V))"
          "s' = s\<lparr>calls := calls s @ validate_events_eval ?g V\<rparr>"
        by blast
      from V(1) Inr obtain V' where V': "V = r # V'" by (cases V) auto
      show ?L
        apply (rule exI [of _ V'])
        using V V' by (simp add: add.assoc)
    qed
    finally show ?thesis .
  qed
qed

lemma with_no_grad_Inr:
  "with_no_grad body s = Inr (r, s2) \<longleftrightarrow>
     (\<exists>s1. body (s\<lparr>grad_enabled := False, calls := calls s @ [No_grad_enter]\<rparr>) = Inr (r, s1) \<and>
           s2 = s1\<lparr>grad_enabled := grad_enabled s, calls := calls s1 @ [No_grad_exit]\<rparr>)"
  by (auto simp: with_no_grad_def Let_def ebind_Inr_iff)

lemma py_div_Inr: "py_div a n = Inr q \<longleftrightarrow> n \<noteq> 0 \<and> q = a / real n"
  by (auto simp: py_div_def)

lemma epoch14_Inr:
  "epoch14 fw trainloader testloader n e s = Inr s' \<longleftrightarrow>
   (\<exists>r sT V.
      train_batches fw Classifier_call (fst (DataLoader_iter (draw fw) trainloader (rng s)))
        (0, s\<lparr>rng := snd (DataLoader_iter (draw fw) trainloader (rng s))\<rparr>) = Inr (r, sT) \<and>
      map (validate_run Classifier_call False (model sT)
             (snd (DataLoader_iter (draw fw) testloader (rng sT))))
          (fst (DataLoader_iter (draw fw) testloader (rng sT))) = map Inr V \<and>
      DataLoader_len trainloader \<noteq> 0 \<and> DataLoader_len testloader \<noteq> 0 \<and>
      s' = sT\<lparr>rng := snd (DataLoader_iter (draw fw) testloader (rng sT)),
              calls := calls sT @ [No_grad_enter] @ validate_events (training (model sT)) False V
                 @ [No_grad_exit,
                    Print (e + 1) n (r / real (DataLoader_len trainloader))
                      (sum_list (map b_value V) / real (DataLoader_len testloader))
                      (sum_list (map b_accuracy V) / real (DataLoader_len testloader))],
              train_losses := train_losses sT @ [r / real (DataLoader_len trainloader)],
              test_losses := test_losses sT
                 @ [sum_list (map b_value V) / real (DataLoader_len testloader)]\<rparr>)"
proof -
  have vb: "\<And>sT res s1.
     validate_batches Classifier_call (fst (DataLoader_iter (draw fw) testloader (rng sT)))
       ((0, 0), sT\<lparr>grad_enabled := False, calls := calls sT @ [No_grad_enter],
                  rng := snd (DataLoader_iter (draw fw) testloader (rng sT))\<rparr>) = Inr (res, s1) \<longleftrightarrow>
     (\<exists>V. map (validate_run Classifier_call False (model sT)
             (snd (DataLoader_iter (draw fw) testloader (rng sT))))
          (fst (DataLoader_iter (draw fw) testloader (rng sT))) = map Inr V \<and>
          res = (sum_list (map b_value V), sum_list (map b_accuracy V)) \<and>
          s1 = sT\<lparr>grad_enabled := False,
                  rng := snd (DataLoader_iter (draw fw) testloader (rng sT)),
                  calls := calls sT @ [No_grad_enter] @ validate_events (training (model sT)) False V\<rparr>)"
    by (subst validate_batches_run) (auto dest: Classifier_call_stable)
  show ?thesis
    unfolding epoch14_def
    apply (simp add: Let_def split_beta ebind_Inr_iff with_no_grad_Inr py_div_Inr split_paired_Ex vb)
    apply (rule iffI)
     apply (elim exE conjE)
     apply hypsubst
     apply (intro exI conjI; assumption?; (rule state.equality; simp)?)
    apply (elim exE conjE)
    apply hypsubst
    apply (intro exI conjI; (assumption | rule refl)?; (rule state.equality; simp)?)
    done
qed

lemma epoch18_Inr:
  "epoch18 fw trainloader testloader n e s = Inr s' \<longleftrightarrow>
   (\<exists>r sT V.
      train_batches fw (ClassifierDropout_call fw)
        (fst (DataLoader_iter (draw fw) trainloader (rng s)))
        (0, s\<lparr>rng := snd (DataLoader_iter (draw fw) trainloader (rng s))\<rparr>) = Inr (r, sT) \<and>
      map (validate_run (ClassifierDropout_call fw) False ((model sT)\<lparr>training := False\<rparr>)
             (snd (DataLoader_iter (draw fw) testloader (rng sT))))
          (fst (DataLoader_iter (draw fw) testloader (rng sT))) = map Inr V \<and>
      DataLoader_len trainloader \<noteq> 0 \<and> DataLoader_len testloader \<noteq> 0 \<and>
      s' = sT\<lparr>model := (model sT)\<lparr>training := True\<rparr>,
              rng := snd (DataLoader_iter (draw fw) testloader (rng sT)),
              calls := calls sT @ [No_grad_enter, Eval] @ validate_events_eval False V
                 @ [No_grad_exit, Train,
                    Print (e + 1) n (r / real (DataLoader_len trainloader))
                      (sum_list (map b_value V) / real (DataLoader_len testloader))
                      (sum_list (map b_accuracy V) / real (DataLoader_len testloader))],
              train_losses := train_losses sT @ [r / real (DataLoader_len trainloader)],
              test_losses := test_losses sT
                 @ [sum_list (map b_value V) / real (DataLoader_len testloader)]\<rparr>)"
proof -
  have vb: "\<And>sT res s1.
     validate_batches_eval (ClassifierDropout_call fw)
       (fst (DataLoader_iter (draw fw) testloader (rng sT)))
       ((0, 0), (model_eval (sT\<lparr>grad_enabled := False, calls := calls sT @ [No_grad_enter]\<rparr>))
                  \<lparr>rng := snd (DataLoader_iter (draw fw) testloader (rng sT))\<rparr>) = Inr (res, s1) \<longleftrightarrow>
     (\<exists>V. map (validate_run (ClassifierDropout_call fw) False ((model sT)\<lparr>training := False\<rparr>)
             (snd (DataLoader_iter (draw fw) testloader (rng sT))))
          (fst (DataLoader_iter (draw fw) testloader (rng sT))) = map Inr V \<and>
          res = (sum_list (map b_value V), sum_list (map b_accuracy V)) \<and>
          s1 = sT\<lparr>model := (model sT)\<lparr>training := False\<rparr>, grad_enabled := False,
                  rng := snd (DataLoader_iter (draw fw) testloader (rng sT)),
                  calls := calls sT @ [No_grad_enter, Eval] @ validate_events_eval False V\<rparr>)"
    apply (subst validate_batches_eval_run)
      apply simp
     apply (erule ClassifierDropout_call_stable [rotated])
     apply simp
    apply (simp add: model_eval_def)
    apply (rule iffI)
     apply (elim exE conjE)
     apply hypsubst
     apply (intro exI conjI; (assumption | rule refl)?; (rule state.equality; simp)?)
    apply (elim exE conjE)
    apply hypsubst
    apply (intro exI conjI; (assumption | rule refl)?; (rule state.equality; simp)?)
    done
  show ?thesis
    unfolding epoch18_def
    apply (simp add: Let_def split_beta ebind_Inr_iff with_no_grad_Inr py_div_Inr split_paired_Ex vb)
    apply (rule iffI)
     apply (elim exE conjE)
     apply hypsubst
     apply (intro exI conjI; assumption?; (rule state.equality; simp add: model_train_def)?)
    apply (elim exE conjE)
    apply hypsubst
    apply (intro exI conjI; (assumption | rule refl)?; (rule state.equality; simp add: model_train_def)?)
    done
qed

lemma map_Inr_ex:
  "(\<And>b. b \<in> set bs \<Longrightarrow> \<exists>r. f b = Inr r) \<Longrightarrow> \<exists>V. map f bs = map Inr V"
proof (induction bs)
  case Nil
  then show ?case by simp
next
  case (Cons b bs)
  then obtain r V where "f b = Inr r" "map f bs = map Inr V" by (metis list.set_intros)
  then have "map f (b # bs) = map Inr (r # V)" by simp
  then show ?case by blast
qed

lemma map_Inr_nth:
  assumes "map f bs = map Inr V" "i < length bs"
  shows "f (bs ! i) = Inr (V ! i)" "length V = length bs"
proof -
  show l: "length V = length bs" using assms(1) by (metis length_map)
  have "map f bs ! i = map Inr V ! i" using assms(1) by simp
  then show "f (bs ! i) = Inr (V ! i)" using assms(2) l by simp
qed

lemma validate_run_Inr:
  assumes "validate_run fwd gm m k b = Inr r"
  shows "\<exists>k'. collate b = Inr (b_images r, b_labels r) \<and>
          fwd gm m k (b_images r) = Inr (b_log_ps r, k') \<and>
          NLLLoss_forward (b_log_ps r) (b_labels r) = Inr (b_loss r) \<and>
          item (b_loss r) = Inr (b_value r) \<and>
          batch_accuracy (b_log_ps r) (b_labels r) = Inr (b_accuracy r)"
  using assms by (auto simp: validate_run_def ebind_Inr_iff)

lemma validate_run_ok:
  assumes fwd: "\<And>x n rest. dtype x = FloatTensor \<Longrightarrow> shape x = n # rest \<Longrightarrow> 0 < n
           \<Longrightarrow> prod_list rest = 784
           \<Longrightarrow> \<exists>y k'. fwd gm m k x = Inr (y, k') \<and> shape y = [n, 10]
                  \<and> dtype y = FloatTensor \<and> requires_grad y = gm"
      and b: "b \<noteq> []" "list_all fashion_sample b"
  shows "\<exists>r. validate_run fwd gm m k b = Inr r \<and>
           shape (b_images r) = [length b, 1, 28, 28] \<and>
           shape (b_log_ps r) = [length b, 10] \<and> dtype (b_log_ps r) = FloatTensor \<and>
           shape (b_labels r) = [length b] \<and>
           b_accuracy r = real (batch_correct (b_log_ps r) (b_labels r)) / real (length b) \<and>
           0 \<le> b_accuracy r \<and> b_accuracy r \<le> 1"
proof -
  from collate_ok [OF b] obtain im lb where
    c: "collate b = Inr (im, lb)" "dtype im = FloatTensor" "shape im = [length b, 1, 28, 28]"
       "dtype lb = LongTensor" "shape lb = [length b]" "length (data lb) = length b"
       "\<forall>t\<in>set (data lb). 0 \<le> t \<and> t < 10"
    by blast
  have n0: "0 < length b" using b(1) by simp
  from fwd [OF c(2,3) n0] obtain y k' where
    y: "fwd gm m k im = Inr (y, k')" "shape y = [length b, 10]"
       "dtype y = FloatTensor" "requires_grad y = gm"
    by auto
  from NLLLoss_ok [OF y(3,2) c(4,5) n0 c(6)] c(7) obtain loss v where
    l: "NLLLoss_forward y lb = Inr loss" "item loss = Inr v"
    by auto
  have a: "batch_accuracy y lb = Inr (real (batch_correct y lb) / real (length b))"
    by (rule batch_correct_acc [OF y(3,2) _ c(5) n0]) simp
  have le: "batch_correct y lb \<le> length b" by (rule batch_correct_le [OF y(2)])
  have rg: "0 \<le> real (batch_correct y lb) / real (length b)"
      "real (batch_correct y lb) / real (length b) \<le> 1"
    using le n0 by simp_all
  let ?r = "\<lparr>b_images = im, b_labels = lb, b_log_ps = y, b_loss = loss,
          b_value = v, b_accuracy = real (batch_correct y lb) / real (length b)\<rparr>"
  have "validate_run fwd gm m k b = Inr ?r"
    using c(1) y(1) l a by (simp add: validate_run_def)
  then show ?thesis using c(3,5) y(2,3) rg by (intro exI [of _ ?r]) simp
qed

lemma epoch_events_calls:
  "epoch14_events e n a b T V =
     train_events True True T @ [No_grad_enter] @ validate_events True False V
       @ [No_grad_exit, Print (e + 1) n (sum_list (map b_value T) / real a)
            (sum_list (map b_value V) / real b) (sum_list (map b_accuracy V) / real b)]"
  "epoch18_events e n a b T V =
     train_events True True T @ [No_grad_enter, Eval] @ validate_events_eval False V
       @ [No_grad_exit, Train, Print (e + 1) n (sum_list (map b_value T) / real a)
            (sum_list (map b_value V) / real b) (sum_list (map b_accuracy V) / real b)]"
  by (simp_all add: epoch14_events_def epoch18_events_def epoch_print_def)

lemma train_pass_list:
  assumes "list_all2 (\<lambda>b r. collate b = Inr (b_images r, b_labels r) \<and>
          (\<exists>m k k'. layer_sizes m = layer_sizes (model s) \<and> training m = training (model s) \<and>
             fwd (grad_enabled s) m k (b_images r) = Inr (b_log_ps r, k')) \<and>
          NLLLoss_forward (b_log_ps r) (b_labels r) = Inr (b_loss r) \<and>
          item (b_loss r) = Inr (b_value r)) bs T"
      and "grad_enabled s" "training (model s)" "layer_sizes (model s) = declared_sizes"
  shows "list_all2 (train_pass fwd) bs T"
  using assms(1) unfolding assms(4) using assms(2,3)
  by (auto elim!: list_all2_mono)

lemma epoch14_total:
  assumes tl: "0 < batch_size trainloader" "dataset trainloader \<noteq> []"
              "list_all fashion_sample (dataset trainloader)"
      and vl: "0 < batch_size testloader" "dataset testloader \<noteq> []"
              "list_all fashion_sample (dataset testloader)"
      and I: "grad_enabled s" "training (model s)" "layer_sizes (model s) = declared_sizes"
  shows "\<exists>s' T V. epoch14 fw trainloader testloader n e s = Inr s' \<and>
     (grad_enabled s' \<and> training (model s') \<and> layer_sizes (model s') = declared_sizes) \<and>
     calls s' = calls s @ epoch14_events e n (DataLoader_len trainloader) (DataLoader_len testloader) T V \<and>
     ((\<exists>k. list_all2 (train_pass Classifier_call) (fst (DataLoader_iter (draw fw) trainloader k)) T) \<and>
      (\<exists>m k k'. layer_sizes m = declared_sizes \<and>
         map (validate_run Classifier_call False m k) (fst (DataLoader_iter (draw fw) testloader k'))
           = map Inr V)) \<and>
     train_losses s' = train_losses s @ [sum_list (map b_value T) / real (DataLoader_len trainloader)] \<and>
     test_losses s' = test_losses s @ [sum_list (map b_value V) / real (DataLoader_len testloader)]"
proof -
  let ?bs = "fst (DataLoader_iter (draw fw) trainloader (rng s))"
  let ?s0 = "s\<lparr>rng := snd (DataLoader_iter (draw fw) trainloader (rng s))\<rparr>"
  have fwd: "\<And>g (m::Classifier) k x n rest. layer_sizes m = declared_sizes
           \<Longrightarrow> dtype x = FloatTensor \<Longrightarrow> shape x = n # rest \<Longrightarrow> 0 < n \<Longrightarrow> prod_list rest = 784
           \<Longrightarrow> \<exists>y k'. Classifier_call g m k x = Inr (y, k') \<and> shape y = [n, 10]
                  \<and> dtype y = FloatTensor \<and> requires_grad y = g"
    using Classifier_call_ok by blast
  have "\<exists>r1 sT. train_batches fw Classifier_call ?bs (0, ?s0) = Inr (r1, sT)"
    by (rule train_batches_total [OF fwd]) (use I DataLoader_iter_fashion [OF tl(1,3)] in simp_all)
  then obtain r sT where tb: "train_batches fw Classifier_call ?bs (0, ?s0) = Inr (r, sT)" by blast
  from train_batches_run [OF tb] obtain T :: "batch_run list" where T:
    "list_all2 (\<lambda>b r. collate b = Inr (b_images r, b_labels r) \<and>
          (\<exists>m k k'. layer_sizes m = layer_sizes (model ?s0) \<and> training m = training (model ?s0) \<and>
             Classifier_call (grad_enabled ?s0) m k (b_images r) = Inr (b_log_ps r, k')) \<and>
          NLLLoss_forward (b_log_ps r) (b_labels r) = Inr (b_loss r) \<and>
          item (b_loss r) = Inr (b_value r)) ?bs T"
    "calls sT = calls ?s0 @ train_events (training (model ?s0)) (grad_enabled ?s0) T"
    "r = 0 + sum_list (map b_value T)"
    "grad_enabled sT = grad_enabled ?s0" "train_losses sT = train_losses ?s0"
    "test_losses sT = test_losses ?s0" "training (model sT) = training (model ?s0)"
    "layer_sizes (model sT) = layer_sizes (model ?s0)"
    by blast
  have IT: "grad_enabled sT" "training (model sT)" "layer_sizes (model sT) = declared_sizes"
    using T(4,7,8) I by simp_all
  have tp: "list_all2 (train_pass Classifier_call) ?bs T"
    by (rule train_pass_list [where s = ?s0 and fwd = Classifier_call, OF T(1)]) (use I in simp_all)
  let ?kv = "snd (DataLoader_iter (draw fw) testloader (rng sT))"
  let ?vs = "fst (DataLoader_iter (draw fw) testloader (rng sT))"
  have "\<exists>V. map (validate_run Classifier_call False (model sT) ?kv) ?vs = map Inr V"
  proof (rule map_Inr_ex)
    fix b assume "b \<in> set ?vs"
    then have b: "b \<noteq> []" "list_all fashion_sample b"
      using DataLoader_iter_fashion [OF vl(1,3), of "draw fw" "rng sT"] by (auto simp: list_all_iff)
    have "\<exists>r. validate_run Classifier_call False (model sT) ?kv b = Inr r \<and>
           shape (b_images r) = [length b, 1, 28, 28] \<and>
           shape (b_log_ps r) = [length b, 10] \<and> dtype (b_log_ps r) = FloatTensor \<and>
           shape (b_labels r) = [length b] \<and>
           b_accuracy r = real (batch_correct (b_log_ps r) (b_labels r)) / real (length b) \<and>
           0 \<le> b_accuracy r \<and> b_accuracy r \<le> 1"
      by (rule validate_run_ok [where fwd = Classifier_call and gm = False and m = "model sT"
            and k = ?kv, OF _ b]) (rule fwd [OF IT(3)])
    then show "\<exists>r. validate_run Classifier_call False (model sT) ?kv b = Inr r" by blast
  qed
  then obtain V where V: "map (validate_run Classifier_call False (model sT) ?kv) ?vs = map Inr V"
    by blast
  have len: "DataLoader_len trainloader \<noteq> 0" "DataLoader_len testloader \<noteq> 0"
    using DataLoader_len_pos [OF tl(1,2)] DataLoader_len_pos [OF vl(1,2)] by simp_all
  let ?s' = "sT\<lparr>rng := ?kv,
              calls := calls sT @ [No_grad_enter] @ validate_events (training (model sT)) False V
                 @ [No_grad_exit,
                    Print (e + 1) n (r / real (DataLoader_len trainloader))
                      (sum_list (map b_value V) / real (DataLoader_len testloader))
                      (sum_list (map b_accuracy V) / real (DataLoader_len testloader))],
              train_losses := train_losses sT @ [r / real (DataLoader_len trainloader)],
              test_losses := test_losses sT
                 @ [sum_list (map b_value V) / real (DataLoader_len testloader)]\<rparr>"
  have ep: "epoch14 fw trainloader testloader n e s = Inr ?s'"
    unfolding epoch14_Inr using tb V len by blast
  have calls: "calls ?s' = calls s @ epoch14_events e n (DataLoader_len trainloader) (DataLoader_len testloader) T V"
    using T(2,3) I IT by (simp add: epoch_events_calls)
  show ?thesis
    apply (rule exI [of _ ?s'], rule exI [of _ T], rule exI [of _ V])
    apply (intro conjI)
            apply (rule ep)
    using IT apply simp
    using IT apply simp
    using IT apply simp
        apply (rule calls)
       apply (rule exI [of _ "rng s"], rule tp)
      apply (rule exI [of _ "model sT"], rule exI [of _ ?kv], rule exI [of _ "rng sT"])
    using IT(3) V apply simp
    using T(3,5) apply simp
    using T(6) apply simp
    done
qed

lemma layer_sizes_training [simp]:
  "layer_sizes (m\<lparr>training := t\<rparr>) = layer_sizes m"
  by (simp add: layer_sizes_def)

lemma epoch18_total:
  assumes tl: "0 < batch_size trainloader" "dataset trainloader \<noteq> []"
              "list_all fashion_sample (dataset trainloader)"
      and vl: "0 < batch_size testloader" "dataset testloader \<noteq> []"
              "list_all fashion_sample (dataset testloader)"
      and I: "grad_enabled s" "training (model s)" "layer_sizes (model s) = declared_sizes"
  shows "\<exists>s' T V. epoch18 fw trainloader testloader n e s = Inr s' \<and>
     (grad_enabled s' \<and> training (model s') \<and> layer_sizes (model s') = declared_sizes) \<and>
     calls s' = calls s @ epoch18_events e n (DataLoader_len trainloader) (DataLoader_len testloader) T V \<and>
     ((\<exists>k. list_all2 (train_pass (ClassifierDropout_call fw))
              (fst (DataLoader_iter (draw fw) trainloader k)) T) \<and>
      (\<exists>m k k'. layer_sizes m = declared_sizes \<and> \<not> training m \<and>
         map (validate_run (ClassifierDropout_call fw) False m k)
             (fst (DataLoader_iter (draw fw) testloader k')) = map Inr V)) \<and>
     train_losses s' = train_losses s @ [sum_list (map b_value T) / real (DataLoader_len trainloader)] \<and>
     test_losses s' = test_losses s @ [sum_list (map b_value V) / real (DataLoader_len testloader)]"
proof -
  let ?fwd = "ClassifierDropout_call fw"
  let ?bs = "fst (DataLoader_iter (draw fw) trainloader (rng s))"
  let ?s0 = "s\<lparr>rng := snd (DataLoader_iter (draw fw) trainloader (rng s))\<rparr>"
  have fwd: "\<And>g (m::ClassifierDropout) k x n rest. layer_sizes m = declared_sizes
           \<Longrightarrow> dtype x = FloatTensor \<Longrightarrow> shape x = n # rest \<Longrightarrow> 0 < n \<Longrightarrow> prod_list rest = 784
           \<Longrightarrow> \<exists>y k'. ?fwd g m k x = Inr (y, k') \<and> shape y = [n, 10]
                  \<and> dtype y = FloatTensor \<and> requires_grad y = g"
    using ClassifierDropout_call_ok by blast
  have "\<exists>r1 sT. train_batches fw ?fwd ?bs (0, ?s0) = Inr (r1, sT)"
    by (rule train_batches_total [OF fwd]) (use I DataLoader_iter_fashion [OF tl(1,3)] in simp_all)
  then obtain r sT where tb: "train_batches fw ?fwd ?bs (0, ?s0) = Inr (r, sT)" by blast
  from train_batches_run [OF tb] obtain T :: "batch_run list" where T:
    "list_all2 (\<lambda>b r. collate b = Inr (b_images r, b_labels r) \<and>
          (\<exists>m k k'. layer_sizes m = layer_sizes (model ?s0) \<and> training m = training (model ?s0) \<and>
             ?fwd (grad_enabled ?s0) m k (b_images r) = Inr (b_log_ps r, k')) \<and>
          NLLLoss_forward (b_log_ps r) (b_labels r) = Inr (b_loss r) \<and>
          item (b_loss r) = Inr (b_value r)) ?bs T"
    "calls sT = calls ?s0 @ train_events (training (model ?s0)) (grad_enabled ?s0) T"
    "r = 0 + sum_list (map b_value T)"
    "grad_enabled sT = grad_enabled ?s0" "train_losses sT = train_losses ?s0"
    "test_losses sT = test_losses ?s0" "training (model sT) = training (model ?s0)"
    "layer_sizes (model sT) = layer_sizes (model ?s0)"
    by blast
  have IT: "grad_enabled sT" "training (model sT)" "layer_sizes (model sT) = declared_sizes"
    using T(4,7,8) I by simp_all
  have tp: "list_all2 (train_pass ?fwd) ?bs T"
    by (rule train_pass_list [where s = ?s0 and fwd = ?fwd, OF T(1)]) (use I in simp_all)
  let ?kv = "snd (DataLoader_iter (draw fw) testloader (rng sT))"
  let ?vs = "fst (DataLoader_iter (draw fw) testloader (rng sT))"
  let ?m = "(model sT)\<lparr>training := False\<rparr>"
  have szm: "layer_sizes ?m = declared_sizes" using IT(3) by simp
  have "\<exists>V. map (validate_run ?fwd False ?m ?kv) ?vs = map Inr V"
  proof (rule map_Inr_ex)
    fix b assume "b \<in> set ?vs"
    then have b: "b \<noteq> []" "list_all fashion_sample b"
      using DataLoader_iter_fashion [OF vl(1,3), of "draw fw" "rng sT"] by (auto simp: list_all_iff)
    have "\<exists>r. validate_run ?fwd False ?m ?kv b = Inr r \<and>
           shape (b_images r) = [length b, 1, 28, 28] \<and>
           shape (b_log_ps r) = [length b, 10] \<and> dtype (b_log_ps r) = FloatTensor \<and>
           shape (b_labels r) = [length b] \<and>
           b_accuracy r = real (batch_correct (b_log_ps r) (b_labels r)) / real (length b) \<and>
           0 \<le> b_accuracy r \<and> b_accuracy r \<le> 1"
      by (rule validate_run_ok [where fwd = ?fwd and gm = False and m = ?m
            and k = ?kv, OF _ b]) (rule fwd [OF szm])
    then show "\<exists>r. validate_run ?fwd False ?m ?kv b = Inr r" by blast
  qed
  then obtain V where V: "map (validate_run ?fwd False ?m ?kv) ?vs = map Inr V"
    by blast
  have len: "DataLoader_len trainloader \<noteq> 0" "DataLoader_len testloader \<noteq> 0"
    using DataLoader_len_pos [OF tl(1,2)] DataLoader_len_pos [OF vl(1,2)] by simp_all
  let ?s' = "sT\<lparr>model := (model sT)\<lparr>training := True\<rparr>, rng := ?kv,
              calls := calls sT @ [No_grad_enter, Eval] @ validate_events_eval False V
                 @ [No_grad_exit, Train,
                    Print (e + 1) n (r / real (DataLoader_len trainloader))
                      (sum_list (map b_value V) / real (DataLoader_len testloader))
                      (sum_list (map b_accuracy V) / real (DataLoader_len testloader))],
              train_losses := train_losses sT @ [r / real (DataLoader_len trainloader)],
              test_losses := test_losses sT
                 @ [sum_list (map b_value V) / real (DataLoader_len testloader)]\<rparr>"
  have ep: "epoch18 fw trainloader testloader n e s = Inr ?s'"
    unfolding epoch18_Inr using tb V len by blast
  have calls: "calls ?s' = calls s @ epoch18_events e n (DataLoader_len trainloader) (DataLoader_len testloader) T V"
    using T(2,3) I IT by (simp add: epoch_events_calls)
  show ?thesis
    apply (rule exI [of _ ?s'], rule exI [of _ T], rule exI [of _ V])
    apply (intro conjI)
            apply (rule ep)
    using IT apply simp
    using IT apply simp
    using IT apply simp
        apply (rule calls)
       apply (rule exI [of _ "rng s"], rule tp)
      apply (rule exI [of _ ?m], rule exI [of _ ?kv], rule exI [of _ "rng sT"])
    using IT(3) V apply simp
    using T(3,5) apply simp
    using T(6) apply simp
    done
qed

text \<open>the loop over the epochs\<close>

lemma for_epochs_runs:
  fixes body :: "nat \<Rightarrow> ('m, 'o) state \<Rightarrow> error + ('m, 'o) state"
  assumes step: "\<And>e s. I s \<Longrightarrow> \<exists>s' x. body e s = Inr s' \<and> I s' \<and> calls s' = calls s @ ev e x
                     \<and> Q x \<and> train_losses s' = train_losses s @ [f x]
                     \<and> test_losses s' = test_losses s @ [g x]"
      and "I s"
  shows "\<exists>s' xs. for_epochs body es s = Inr s' \<and> I s' \<and> length xs = length es \<and>
           calls s' = calls s @ concat (map2 ev es xs) \<and> list_all Q xs \<and>
           train_losses s' = train_losses s @ map f xs \<and>
           test_losses s' = test_losses s @ map g xs"
  using assms(2)
proof (induction es arbitrary: s)
  case Nil
  show ?case by (rule exI [of _ s], rule exI [of _ "[]"]) (use Nil in simp)
next
  case (Cons e es)
  from step [OF Cons.prems, of e] obtain s1 x where s1:
    "body e s = Inr s1" "I s1" "calls s1 = calls s @ ev e x" "Q x"
    "train_losses s1 = train_losses s @ [f x]" "test_losses s1 = test_losses s @ [g x]"
    by blast
  from Cons.IH [OF s1(2)] obtain s' xs where xs:
    "for_epochs body es s1 = Inr s'" "I s'" "length xs = length es"
    "calls s' = calls s1 @ concat (map2 ev es xs)" "list_all Q xs"
    "train_losses s' = train_losses s1 @ map f xs" "test_losses s' = test_losses s1 @ map g xs"
    by blast
  show ?case
    apply (rule exI [of _ s'], rule exI [of _ "x # xs"])
    using s1 xs by simp
qed

lemma Classifier_init_props:
  "training (fst (Classifier_init rnd k))"
  "snd (Classifier_init rnd k) = k + 8"
  by (simp_all add: Classifier_init_def nn_Linear_def)

lemma ClassifierDropout_init_props:
  "training (fst (ClassifierDropout_init rnd k))"
  "snd (ClassifierDropout_init rnd k) = k + 8"
  by (simp_all add: ClassifierDropout_init_def nn_Linear_def)

lemma cell14_master:
  assumes tl: "0 < batch_size trainloader" "dataset trainloader \<noteq> []"
              "list_all fashion_sample (dataset trainloader)"
      and vl: "0 < batch_size testloader" "dataset testloader \<noteq> []"
              "list_all fashion_sample (dataset testloader)"
  shows "\<exists>s' runs. cell14 fw trainloader testloader k True evs = Inr s' \<and>
     (grad_enabled s' \<and> training (model s') \<and> layer_sizes (model s') = declared_sizes) \<and>
     length runs = 30 \<and>
     calls s' = evs @ concat (map2 (\<lambda>e (T, V). epoch14_events e 30 (DataLoader_len trainloader)
                                  (DataLoader_len testloader) T V) [0..<30] runs) \<and>
     list_all (\<lambda>(T, V).
        (\<exists>k. list_all2 (train_pass Classifier_call) (fst (DataLoader_iter (draw fw) trainloader k)) T) \<and>
        (\<exists>m k k'. layer_sizes m = declared_sizes \<and>
           map (validate_run Classifier_call False m k) (fst (DataLoader_iter (draw fw) testloader k'))
             = map Inr V)) runs \<and>
     train_losses s' = map (\<lambda>(T, V). sum_list (map b_value T) / real (DataLoader_len trainloader)) runs \<and>
     test_losses s' = map (\<lambda>(T, V). sum_list (map b_value V) / real (DataLoader_len testloader)) runs"
proof -
  let ?I = "\<lambda>s :: (Classifier, 'a) state.
              grad_enabled s \<and> training (model s) \<and> layer_sizes (model s) = declared_sizes"
  let ?s0 = "\<lparr>model = fst (Classifier_init (draw fw) k), grads = None, opt_state = adam_init fw,
               lr = 3 / 1000, grad_enabled = True, rng = snd (Classifier_init (draw fw) k),
               calls = evs, train_losses = [], test_losses = []\<rparr>"
  have step: "\<And>e s. ?I s \<Longrightarrow> \<exists>s' x. epoch14 fw trainloader testloader 30 e s = Inr s' \<and> ?I s' \<and>
       calls s' = calls s @ (\<lambda>e (T, V). epoch14_events e 30 (DataLoader_len trainloader)
                                  (DataLoader_len testloader) T V) e x \<and>
       (\<lambda>(T, V).
        (\<exists>k. list_all2 (train_pass Classifier_call) (fst (DataLoader_iter (draw fw) trainloader k)) T) \<and>
        (\<exists>m k k'. layer_sizes m = declared_sizes \<and>
           map (validate_run Classifier_call False m k) (fst (DataLoader_iter (draw fw) testloader k'))
             = map Inr V)) x \<and>
       train_losses s' = train_losses s @ [(\<lambda>(T, V). sum_list (map b_value T) / real (DataLoader_len trainloader)) x] \<and>
       test_losses s' = test_losses s @ [(\<lambda>(T, V). sum_list (map b_value V) / real (DataLoader_len testloader)) x]"
  proof -
    fix e and s :: "(Classifier, 'a) state"
    assume "?I s"
    then have I: "grad_enabled s" "training (model s)" "layer_sizes (model s) = declared_sizes"
      by simp_all
    from epoch14_total [OF tl vl I, of fw 30 e] obtain s' T V where
      "epoch14 fw trainloader testloader 30 e s = Inr s'"
      "grad_enabled s' \<and> training (model s') \<and> layer_sizes (model s') = declared_sizes"
      "calls s' = calls s @ epoch14_events e 30 (DataLoader_len trainloader) (DataLoader_len testloader) T V"
      "(\<exists>k. list_all2 (train_pass Classifier_call) (fst (DataLoader_iter (draw fw) trainloader k)) T) \<and>
       (\<exists>m k k'. layer_sizes m = declared_sizes \<and>
         map (validate_run Classifier_call False m k) (fst (DataLoader_iter (draw fw) testloader k'))
           = map Inr V)"
      "train_losses s' = train_losses s @ [sum_list (map b_value T) / real (DataLoader_len trainloader)]"
      "test_losses s' = test_losses s @ [sum_list (map b_value V) / real (DataLoader_len testloader)]"
      by blast
    then show "\<exists>s' x. epoch14 fw trainloader testloader 30 e s = Inr s' \<and> ?I s' \<and>
       calls s' = calls s @ (\<lambda>e (T, V). epoch14_events e 30 (DataLoader_len trainloader)
                                  (DataLoader_len testloader) T V) e x \<and>
       (\<lambda>(T, V).
        (\<exists>k. list_all2 (train_pass Classifier_call) (fst (DataLoader_iter (draw fw) trainloader k)) T) \<and>
        (\<exists>m k k'. layer_sizes m = declared_sizes \<and>
           map (validate_run Classifier_call False m k) (fst (DataLoader_iter (draw fw) testloader k'))
             = map Inr V)) x \<and>
       train_losses s' = train_losses s @ [(\<lambda>(T, V). sum_list (map b_value T) / real (DataLoader_len trainloader)) x] \<and>
       test_losses s' = test_losses s @ [(\<lambda>(T, V). sum_list (map b_value V) / real (DataLoader_len testloader)) x]"
      by (intro exI [of _ s'] exI [of _ "(T, V)"]) simp
  qed
  have I0: "?I ?s0" by (simp add: Classifier_init_props layer_sizes_init)
  have c: "cell14 fw trainloader testloader k True evs
            = for_epochs (epoch14 fw trainloader testloader 30) [0..<30] ?s0"
    by (simp add: cell14_def Let_def split_beta)
  from for_epochs_runs [of ?I "epoch14 fw trainloader testloader 30", OF step I0, of "[0..<30]"]
  show ?thesis unfolding c by simp
qed

lemma cell18_master:
  assumes tl: "0 < batch_size trainloader" "dataset trainloader \<noteq> []"
              "list_all fashion_sample (dataset trainloader)"
      and vl: "0 < batch_size testloader" "dataset testloader \<noteq> []"
              "list_all fashion_sample (dataset testloader)"
  shows "\<exists>s' runs. cell18 fw trainloader testloader k True evs = Inr s' \<and>
     (grad_enabled s' \<and> training (model s') \<and> layer_sizes (model s') = declared_sizes) \<and>
     length runs = 30 \<and>
     calls s' = evs @ concat (map2 (\<lambda>e (T, V). epoch18_events e 30 (DataLoader_len trainloader)
                                  (DataLoader_len testloader) T V) [0..<30] runs) \<and>
     list_all (\<lambda>(T, V).
        (\<exists>k. list_all2 (train_pass (ClassifierDropout_call fw)) (fst (DataLoader_iter (draw fw) trainloader k)) T) \<and>
        (\<exists>m k k'. layer_sizes m = declared_sizes \<and> \<not> training m \<and>
           map (validate_run (ClassifierDropout_call fw) False m k) (fst (DataLoader_iter (draw fw) testloader k'))
             = map Inr V)) runs \<and>
     train_losses s' = map (\<lambda>(T, V). sum_list (map b_value T) / real (DataLoader_len trainloader)) runs \<and>
     test_losses s' = map (\<lambda>(T, V). sum_list (map b_value V) / real (DataLoader_len testloader)) runs"
proof -
  let ?I = "\<lambda>s :: (ClassifierDropout, 'a) state.
              grad_enabled s \<and> training (model s) \<and> layer_sizes (model s) = declared_sizes"
  let ?s0 = "\<lparr>model = fst (ClassifierDropout_init (draw fw) k), grads = None, opt_state = adam_init fw,
               lr = 3 / 1000, grad_enabled = True, rng = snd (ClassifierDropout_init (draw fw) k),
               calls = evs, train_losses = [], test_losses = []\<rparr>"
  have step: "\<And>e s. ?I s \<Longrightarrow> \<exists>s' x. epoch18 fw trainloader testloader 30 e s = Inr s' \<and> ?I s' \<and>
       calls s' = calls s @ (\<lambda>e (T, V). epoch18_events e 30 (DataLoader_len trainloader)
                                  (DataLoader_len testloader) T V) e x \<and>
       (\<lambda>(T, V).
        (\<exists>k. list_all2 (train_pass (ClassifierDropout_call fw)) (fst (DataLoader_iter (draw fw) trainloader k)) T) \<and>
        (\<exists>m k k'. layer_sizes m = declared_sizes \<and> \<not> training m \<and>
           map (validate_run (ClassifierDropout_call fw) False m k) (fst (DataLoader_iter (draw fw) testloader k'))
             = map Inr V)) x \<and>
       train_losses s' = train_losses s @ [(\<lambda>(T, V). sum_list (map b_value T) / real (DataLoader_len trainloader)) x] \<and>
       test_losses s' = test_losses s @ [(\<lambda>(T, V). sum_list (map b_value V) / real (DataLoader_len testloader)) x]"
  proof -
    fix e and s :: "(ClassifierDropout, 'a) state"
    assume "?I s"
    then have I: "grad_enabled s" "training (model s)" "layer_sizes (model s) = declared_sizes"
      by simp_all
    from epoch18_total [OF tl vl I, of fw 30 e] obtain s' T V where
      "epoch18 fw trainloader testloader 30 e s = Inr s'"
      "grad_enabled s' \<and> training (model s') \<and> layer_sizes (model s') = declared_sizes"
      "calls s' = calls s @ epoch18_events e 30 (DataLoader_len trainloader) (DataLoader_len testloader) T V"
      "(\<exists>k. list_all2 (train_pass (ClassifierDropout_call fw)) (fst (DataLoader_iter (draw fw) trainloader k)) T) \<and>
       (\<exists>m k k'. layer_sizes m = declared_sizes \<and> \<not> training m \<and>
         map (validate_run (ClassifierDropout_call fw) False m k) (fst (DataLoader_iter (draw fw) testloader k'))
           = map Inr V)"
      "train_losses s' = train_losses s @ [sum_list (map b_value T) / real (DataLoader_len trainloader)]"
      "test_losses s' = test_losses s @ [sum_list (map b_value V) / real (DataLoader_len testloader)]"
      by blast
    then show "\<exists>s' x. epoch18 fw trainloader testloader 30 e s = Inr s' \<and> ?I s' \<and>
       calls s' = calls s @ (\<lambda>e (T, V). epoch18_events e 30 (DataLoader_len trainloader)
                                  (DataLoader_len testloader) T V) e x \<and>
       (\<lambda>(T, V).
        (\<exists>k. list_all2 (train_pass (ClassifierDropout_call fw)) (fst (DataLoader_iter (draw fw) trainloader k)) T) \<and>
        (\<exists>m k k'. layer_sizes m = declared_sizes \<and> \<not> training m \<and>
           map (validate_run (ClassifierDropout_call fw) False m k) (fst (DataLoader_iter (draw fw) testloader k'))
             = map Inr V)) x \<and>
       train_losses s' = train_losses s @ [(\<lambda>(T, V). sum_list (map b_value T) / real (DataLoader_len trainloader)) x] \<and>
       test_losses s' = test_losses s @ [(\<lambda>(T, V). sum_list (map b_value V) / real (DataLoader_len testloader)) x]"
      by (intro exI [of _ s'] exI [of _ "(T, V)"]) simp
  qed
  have I0: "?I ?s0" by (simp add: ClassifierDropout_init_props layer_sizes_init_dropout)
  have c: "cell18 fw trainloader testloader k True evs
            = for_epochs (epoch18 fw trainloader testloader 30) [0..<30] ?s0"
    by (simp add: cell18_def Let_def split_beta)
  from for_epochs_runs [of ?I "epoch18 fw trainloader testloader 30", OF step I0, of "[0..<30]"]
  show ?thesis unfolding c by simp
qed

lemma collate_data:
  "collate b = Inr (im, lb) \<Longrightarrow> data im = concat (map (\<lambda>s. data (fst s)) b)"
  by (auto simp: collate_def split: list.splits prod.splits if_splits)

lemma first_image_data:
  assumes "b \<noteq> []" "list_all fashion_sample b" "collate b = Inr (im, lb)"
  shows "take 784 (data im) = data (fst (hd b))"
proof -
  obtain s0 b' where b: "b = s0 # b'" using assms(1) by (cases b) auto
  have "length (data (fst s0)) = 784"
    using assms(2) unfolding b by (simp add: fashion_sample_def wf_tensor_def numel_def)
  then show ?thesis using collate_data [OF assms(3)] unfolding b by simp
qed

lemma select0_ok:
  assumes "shape x = n # rest" "0 < n"
  shows "select0 x = Inr (x\<lparr>shape := rest, data := take (prod_list rest) (data x)\<rparr>)"
  using assms by (simp add: select0_def)

lemma view_exact:
  assumes "numel x = prod_list s"
  shows "view x (map int s) = Inr (x\<lparr>shape := s\<rparr>)"
proof -
  have a: "\<not> list_ex (\<lambda>d. d < - 1) (map int s)" by (auto simp: list_ex_iff)
  have b: "filter (\<lambda>d. d = - 1) (map int s) = []" by (auto simp: filter_empty_conv)
  have c: "filter (\<lambda>d. d \<noteq> - 1) (map int s) = map int s" by (auto simp: filter_id_conv)
  have d: "\<not> list_ex (\<lambda>d. d = - 1) (map int s)" by (auto simp: list_ex_iff)
  have e: "map (nat \<circ> int) s = s" by (induction s) simp_all
  show ?thesis
    using assms a d by (simp add: view_def infer_size_def b c e)
qed

lemma cell20_total:
  assumes vl: "0 < batch_size testloader" "dataset testloader \<noteq> []"
              "list_all fashion_sample (dataset testloader)"
      and sz: "layer_sizes (model s) = declared_sizes"
  shows "\<exists>s' b bs images labels x0 outp k'.
     fst (DataLoader_iter (draw fw) testloader (rng s)) = b # bs \<and>
     collate b = Inr (images, labels) \<and> select0 images = Inr x0 \<and>
     shape x0 = [1, 28, 28] \<and> dtype x0 = FloatTensor \<and> data x0 = data (fst (hd b)) \<and>
     fst (hd b) \<in> fst ` set (dataset testloader) \<and>
     ClassifierDropout_call fw False ((model s)\<lparr>training := False\<rparr>)
        (snd (DataLoader_iter (draw fw) testloader (rng s))) (x0\<lparr>shape := [1, 784]\<rparr>)
       = Inr (outp, k') \<and> shape outp = [1, 10] \<and>
     cell20 fw testloader s = Inr s' \<and>
     calls s' = calls s @ [Eval, No_grad_enter, Forward (x0\<lparr>shape := [1, 784]\<rparr>) False False,
                          No_grad_exit,
                          View_classify (x0\<lparr>shape := [1, 28, 28]\<rparr>)
                            (outp\<lparr>data := map exp (data outp)\<rparr>) ''Fashion''] \<and>
     model s' = (model s)\<lparr>training := False\<rparr> \<and> grad_enabled s' = grad_enabled s"
proof -
  let ?it = "fst (DataLoader_iter (draw fw) testloader (rng s))"
  let ?k = "snd (DataLoader_iter (draw fw) testloader (rng s))"
  let ?m = "(model s)\<lparr>training := False\<rparr>"
  have "length ?it = DataLoader_len testloader" by (rule DataLoader_iter_length)
  then have "?it \<noteq> []" using DataLoader_len_pos [OF vl(1,2)] by auto
  then obtain b bs where it: "?it = b # bs" by (cases ?it) auto
  have bin: "b \<in> set ?it" unfolding it by simp
  have b: "b \<noteq> []" "list_all fashion_sample b"
    using DataLoader_iter_fashion [OF vl(1,3), of "draw fw" "rng s"] bin
    by (auto simp: list_all_iff)
  have hin: "fst (hd b) \<in> fst ` set (dataset testloader)"
    using DataLoader_iter_batches [OF vl(1) bin] b(1) by (cases b) auto
  from collate_ok [OF b] obtain im lb where
    c: "collate b = Inr (im, lb)" "dtype im = FloatTensor" "shape im = [length b, 1, 28, 28]"
    by blast
  have n0: "0 < length b" using b(1) by simp
  let ?x0 = "im\<lparr>shape := [1, 28, 28], data := take 784 (data im)\<rparr>"
  have sel: "select0 im = Inr ?x0" using select0_ok [OF c(3) n0] by simp
  have d0: "data ?x0 = data (fst (hd b))" using first_image_data [OF b c(1)] by simp
  have v1: "view ?x0 [1, 784] = Inr (?x0\<lparr>shape := [1, 784]\<rparr>)"
    using view_exact [of ?x0 "[1, 784]"] by (simp add: numel_def)
  let ?img = "?x0\<lparr>shape := [1, 784]\<rparr>"
  have szm: "layer_sizes ?m = declared_sizes" using sz by simp
  from ClassifierDropout_call_ok [OF szm, of ?img 1 "[784]" fw False ?k] c(2)
  obtain y where y: "ClassifierDropout_call fw False ?m ?k ?img = Inr (y, ?k)"
    "shape y = [1, 10]" "dtype y = FloatTensor"
    by auto
  have v2: "view ?img [1, 28, 28] = Inr (?img\<lparr>shape := [1, 28, 28]\<rparr>)"
    using view_exact [of ?img "[1, 28, 28]"] by (simp add: numel_def)
  have ex: "torch_exp y = Inr (y\<lparr>data := map exp (data y)\<rparr>)" by (rule torch_exp_ok [OF y(3)])
  let ?s' = "s\<lparr>model := ?m, rng := ?k,
       calls := calls s @ [Eval, No_grad_enter, Forward ?img False False, No_grad_exit,
                          View_classify (?img\<lparr>shape := [1, 28, 28]\<rparr>)
                            (y\<lparr>data := map exp (data y)\<rparr>) ''Fashion'']\<rparr>"
  have wng: "with_no_grad (model_call (ClassifierDropout_call fw) ?img)
               ((model_eval s)\<lparr>rng := ?k\<rparr>)
     = Inr (y, s\<lparr>model := ?m, rng := ?k,
                 calls := calls s @ [Eval, No_grad_enter, Forward ?img False False, No_grad_exit]\<rparr>)"
    using y(1) by (simp add: with_no_grad_def model_call_def Let_def model_eval_def)
  have run: "cell20 fw testloader s = Inr ?s'"
    unfolding cell20_def
    using it c(1) sel v1 v2 ex wng
    by (simp add: Let_def split_beta)
  show ?thesis
    apply (rule exI [of _ ?s'], rule exI [of _ b], rule exI [of _ bs])
    apply (rule exI [of _ im], rule exI [of _ lb], rule exI [of _ ?x0])
    apply (rule exI [of _ y], rule exI [of _ ?k])
    using it c(1,2) sel d0 hin y(1,2) run by simp
qed

lemma ClassifierDropout_call_rows:
  assumes sz: "layer_sizes self = declared_sizes"
      and x: "dtype x = FloatTensor" "shape x = n # rest" "0 < n" "prod_list rest = 784"
      and run: "ClassifierDropout_call fw g self k x = Inr (y, k')"
  shows "\<forall>i<n. (\<Sum>j\<leftarrow>[0..<10]. exp (data y ! (i * 10 + j))) = 1"
proof -
  from dropout_forward_chain [OF sz x, of g "draw fw" k] obtain h1 h2 h3 h4 d1 d2 d3 k1 k2 k3 y' where c:
    "flatten_input x = Inr (x\<lparr>shape := [n, 784]\<rparr>)"
    "Linear_forward g (fc1 self) (x\<lparr>shape := [n, 784]\<rparr>) = Inr h1"
    "Dropout_forward (draw fw) (dropout self) (training self) (F_relu h1, k) = (d1, k1)"
    "Linear_forward g (fc2 self) d1 = Inr h2"
    "Dropout_forward (draw fw) (dropout self) (training self) (F_relu h2, k1) = (d2, k2)"
    "Linear_forward g (fc3 self) d2 = Inr h3"
    "Dropout_forward (draw fw) (dropout self) (training self) (F_relu h3, k2) = (d3, k3)"
    "Linear_forward g (fc4 self) d3 = Inr h4" "shape h4 = [n, 10]" "wf_tensor h4"
    "F_log_softmax h4 1 = Inr y'" "shape y' = [n, 10]"
    by blast
  have "ClassifierDropout_call fw g self k x = Inr (y', k3)"
    using c by (simp add: ClassifierDropout_call_def ClassifierDropout_forward_def)
  then have y: "y' = y" using run by simp
  have len: "length (data h4) = n * 10" using c(9,10) by (simp add: wf_tensor_def numel_def)
  show ?thesis using log_softmax_normalised [OF c(11) c(9) len] y by simp
qed

lemma cells5to12_total:
  assumes vl: "0 < batch_size testloader" "dataset testloader \<noteq> []"
              "list_all fashion_sample (dataset testloader)"
  shows "\<exists>equals a. cells5to12 rnd testloader k
            = Inr (equals, a, snd (DataLoader_iter rnd testloader (k + 8))) \<and>
           dtype equals = ByteTensor \<and> 0 \<le> a \<and> a \<le> 1"
proof -
  let ?m = "fst (Classifier_init rnd k)"
  let ?it = "fst (DataLoader_iter rnd testloader (k + 8))"
  have "length ?it = DataLoader_len testloader" by (rule DataLoader_iter_length)
  then have "?it \<noteq> []" using DataLoader_len_pos [OF vl(1,2)] by auto
  then obtain b bs where it: "?it = b # bs" by (cases ?it) auto
  have bin: "b \<in> set ?it" unfolding it by simp
  have b: "b \<noteq> []" "list_all fashion_sample b"
    using DataLoader_iter_fashion [OF vl(1,3), of rnd "k + 8"] bin
    by (auto simp: list_all_iff)
  from collate_ok [OF b] obtain im lb where
    c: "collate b = Inr (im, lb)" "dtype im = FloatTensor" "shape im = [length b, 1, 28, 28]"
       "shape lb = [length b]"
    by blast
  have n0: "0 < length b" using b(1) by simp
  from Classifier_forward_ok [where g = True and self = ?m, OF layer_sizes_init c(2,3) n0]
  obtain y where y: "Classifier_forward True ?m im = Inr y" "shape y = [length b, 10]"
    "dtype y = FloatTensor"
    by auto
  let ?e = "\<lparr>dtype = ByteTensor, shape = [length b, 1],
          data = map (\<lambda>i. if real (row_argmax (map exp (data y)) 10 i) = data lb ! i then 1 else 0)
                   [0..<length b],
          requires_grad = False\<rparr>"
  have e: "batch_equals y lb = Inr ?e"
    by (rule batch_equals_ok [OF y(3,2) _ c(4)]) simp
  from batch_accuracy_range [OF y(3,2) _ c(4) n0] obtain a where
    a: "batch_accuracy y lb = Inr a" "0 \<le> a" "a \<le> 1"
    by auto
  from a(1) obtain acc where acc: "torch_mean (type_FloatTensor ?e) = Inr acc" "item acc = Inr a"
    unfolding batch_accuracy_def e by (auto simp: ebind_Inr_iff)
  have "cells5to12 rnd testloader k = Inr (?e, a, snd (DataLoader_iter rnd testloader (k + 8)))"
    unfolding cells5to12_def
    using it c(1) y(1) e acc
    by (simp add: Let_def split_beta Classifier_init_props)
  then show ?thesis using a(2,3) by (intro exI [of _ ?e] exI [of _ a]) simp
qed

lemma cell1_loaders:
  "fst (cell1 trainset testset) = \<lparr>dataset = trainset, batch_size = 64, shuffle = True\<rparr>"
  "snd (cell1 trainset testset) = \<lparr>dataset = testset, batch_size = 64, shuffle = True\<rparr>"
  by (simp_all add: cell1_def)

lemma notebook_total:
  assumes "trainset \<noteq> []" "list_all fashion_sample trainset"
      and "testset \<noteq> []" "list_all fashion_sample testset"
  shows "\<exists>s14 s20 runs14 runs18 x0 x1 outp k1 k2.
     notebook fw trainset testset k = Inr (s14, s20) \<and>
     length runs14 = 30 \<and> length runs18 = 30 \<and>
     calls s20 =
       concat (map2 (\<lambda>e (T, V). epoch14_events e 30
                 (DataLoader_len (fst (cell1 trainset testset)))
                 (DataLoader_len (snd (cell1 trainset testset))) T V) [0..<30] runs14)
       @ concat (map2 (\<lambda>e (T, V). epoch18_events e 30
                 (DataLoader_len (fst (cell1 trainset testset)))
                 (DataLoader_len (snd (cell1 trainset testset))) T V) [0..<30] runs18)
       @ [Eval, No_grad_enter, Forward (x0\<lparr>shape := [1, 784]\<rparr>) False False, No_grad_exit,
          View_classify (x0\<lparr>shape := [1, 28, 28]\<rparr>)
            (outp\<lparr>data := map exp (data outp)\<rparr>) ''Fashion''] \<and>
     list_all (\<lambda>(T, V).
        (\<exists>k. list_all2 (train_pass Classifier_call)
                (fst (DataLoader_iter (draw fw) (fst (cell1 trainset testset)) k)) T) \<and>
        (\<exists>m k k'. layer_sizes m = declared_sizes \<and>
           map (validate_run Classifier_call False m k)
               (fst (DataLoader_iter (draw fw) (snd (cell1 trainset testset)) k')) = map Inr V)) runs14 \<and>
     list_all (\<lambda>(T, V).
        (\<exists>k. list_all2 (train_pass (ClassifierDropout_call fw))
                (fst (DataLoader_iter (draw fw) (fst (cell1 trainset testset)) k)) T) \<and>
        (\<exists>m k k'. layer_sizes m = declared_sizes \<and> \<not> training m \<and>
           map (validate_run (ClassifierDropout_call fw) False m k)
               (fst (DataLoader_iter (draw fw) (snd (cell1 trainset testset)) k')) = map Inr V)) runs18 \<and>
     x1 \<in> fst ` set testset \<and> data x0 = data x1 \<and> shape x0 = [1, 28, 28] \<and>
     ClassifierDropout_call fw False (model s20) k1 (x0\<lparr>shape := [1, 784]\<rparr>) = Inr (outp, k2) \<and>
     \<not> training (model s20) \<and> shape outp = [1, 10] \<and>
     (\<Sum>j\<leftarrow>[0..<10]. exp (data outp ! j)) = 1"
proof -
  let ?tl = "fst (cell1 trainset testset)" and ?vl = "snd (cell1 trainset testset)"
  have tl: "0 < batch_size ?tl" "dataset ?tl \<noteq> []" "list_all fashion_sample (dataset ?tl)"
    using assms(1,2) by (simp_all add: cell1_loaders)
  have vl: "0 < batch_size ?vl" "dataset ?vl \<noteq> []" "list_all fashion_sample (dataset ?vl)"
    using assms(3,4) by (simp_all add: cell1_loaders)
  from cells5to12_total [OF vl, of "draw fw" k] obtain equals a where
    c5: "cells5to12 (draw fw) ?vl k = Inr (equals, a, snd (DataLoader_iter (draw fw) ?vl (k + 8)))"
    by blast
  let ?k14 = "snd (DataLoader_iter (draw fw) ?vl (k + 8))"
  from cell14_master [OF tl vl, of fw ?k14 "[]"] obtain s14 runs14 where r14:
    "cell14 fw ?tl ?vl ?k14 True [] = Inr s14"
    "grad_enabled s14 \<and> training (model s14) \<and> layer_sizes (model s14) = declared_sizes"
    "length runs14 = 30"
    "calls s14 = [] @ concat (map2 (\<lambda>e (T, V). epoch14_events e 30 (DataLoader_len ?tl)
                                  (DataLoader_len ?vl) T V) [0..<30] runs14)"
    "list_all (\<lambda>(T, V).
        (\<exists>k. list_all2 (train_pass Classifier_call) (fst (DataLoader_iter (draw fw) ?tl k)) T) \<and>
        (\<exists>m k k'. layer_sizes m = declared_sizes \<and>
           map (validate_run Classifier_call False m k) (fst (DataLoader_iter (draw fw) ?vl k'))
             = map Inr V)) runs14"
    by blast
  have g14: "grad_enabled s14 = True" using r14(2) by simp
  from cell18_master [OF tl vl, of fw "rng s14" "calls s14"] obtain s18 runs18 where r18:
    "cell18 fw ?tl ?vl (rng s14) True (calls s14) = Inr s18"
    "grad_enabled s18 \<and> training (model s18) \<and> layer_sizes (model s18) = declared_sizes"
    "length runs18 = 30"
    "calls s18 = calls s14 @ concat (map2 (\<lambda>e (T, V). epoch18_events e 30 (DataLoader_len ?tl)
                                  (DataLoader_len ?vl) T V) [0..<30] runs18)"
    "list_all (\<lambda>(T, V).
        (\<exists>k. list_all2 (train_pass (ClassifierDropout_call fw)) (fst (DataLoader_iter (draw fw) ?tl k)) T) \<and>
        (\<exists>m k k'. layer_sizes m = declared_sizes \<and> \<not> training m \<and>
           map (validate_run (ClassifierDropout_call fw) False m k) (fst (DataLoader_iter (draw fw) ?vl k'))
             = map Inr V)) runs18"
    by blast
  have sz18: "layer_sizes (model s18) = declared_sizes" using r18(2) by simp
  from cell20_total [OF vl sz18, of fw] obtain s20 b bs images labels x0 outp k' where r20:
    "fst (DataLoader_iter (draw fw) ?vl (rng s18)) = b # bs"
    "shape x0 = [1, 28, 28]" "data x0 = data (fst (hd b))" "fst (hd b) \<in> fst ` set (dataset ?vl)"
    "ClassifierDropout_call fw False ((model s18)\<lparr>training := False\<rparr>)
        (snd (DataLoader_iter (draw fw) ?vl (rng s18))) (x0\<lparr>shape := [1, 784]\<rparr>)
       = Inr (outp, k')" "shape outp = [1, 10]"
    "cell20 fw ?vl s18 = Inr s20"
    "calls s20 = calls s18 @ [Eval, No_grad_enter, Forward (x0\<lparr>shape := [1, 784]\<rparr>) False False,
                          No_grad_exit,
                          View_classify (x0\<lparr>shape := [1, 28, 28]\<rparr>)
                            (outp\<lparr>data := map exp (data outp)\<rparr>) ''Fashion'']"
    "dtype x0 = FloatTensor" "model s20 = (model s18)\<lparr>training := False\<rparr>"
    by blast
  note m20 = r20(10)
  have x0d: "dtype (x0\<lparr>shape := [1, 784]\<rparr>) = FloatTensor" using r20(9) by simp
  have rows: "\<forall>i<1. (\<Sum>j\<leftarrow>[0..<10]. exp (data outp ! (i * 10 + j))) = 1"
    by (rule ClassifierDropout_call_rows [where n = 1 and rest = "[784]", OF _ x0d _ _ _ r20(5)])
      (use sz18 in simp_all)
  have nb: "notebook fw trainset testset k = Inr (s14, s20)"
    unfolding notebook_def
    using c5 r14(1) r18(1) r20(7) g14
    by (simp add: split_beta Let_def)
  show ?thesis
    apply (rule exI [of _ s14], rule exI [of _ s20], rule exI [of _ runs14], rule exI [of _ runs18])
    apply (rule exI [of _ x0], rule exI [of _ "fst (hd b)"], rule exI [of _ outp])
    apply (rule exI [of _ "snd (DataLoader_iter (draw fw) ?vl (rng s18))"], rule exI [of _ k'])
    apply (intro conjI)
    using nb apply simp
    using r14(3) apply simp
    using r18(3) apply simp
    using r20(8) r18(4) r14(4) apply simp
    using r14(5) apply simp
    using r18(5) apply simp
    using r20(4) apply (simp add: cell1_loaders)
    using r20(3) apply simp
    using r20(2) apply simp
    using r20(5) m20 apply simp
    using m20 apply simp
    using r20(6) apply simp
    using rows apply simp
    done
qed

text \<open>
  Claim C3. A classifier built by \<open>__init__\<close> has layers of sizes 784 to 256, 256 to 128,
  128 to 64 and 64 to 10. On a batch of \<open>n \<ge> 1\<close> float images of 784 elements each,
  \<open>forward\<close> views the batch as \<open>(n, 784)\<close> without touching its elements, applies the four
  layers with \<open>relu\<close> after each of the first three, and returns the log-softmax along
  dimension 1 of the fourth layer's output: a tensor of shape \<open>(n, 10)\<close> whose rows are
  normalised, the exponentials of each row adding up to 1.
\<close>

theorem Classifier_forward_structure:
  "layer_sizes (fst (Classifier_init rnd k0)) = [(784, 256), (256, 128), (128, 64), (64, 10)] \<and>
   (\<forall>(self :: Classifier) x n rest gm.
      layer_sizes self = [(784, 256), (256, 128), (128, 64), (64, 10)] \<and>
      dtype x = FloatTensor \<and> shape x = n # rest \<and> 0 < n \<and> prod_list rest = 784 \<longrightarrow>
      (\<exists>x0 h1 h2 h3 h4 y.
         flatten_input x = Inr x0 \<and> shape x0 = [n, 784] \<and> data x0 = data x \<and>
         Linear_forward gm (fc1 self) x0 = Inr h1 \<and> shape h1 = [n, 256] \<and>
         Linear_forward gm (fc2 self) (F_relu h1) = Inr h2 \<and> shape h2 = [n, 128] \<and>
         Linear_forward gm (fc3 self) (F_relu h2) = Inr h3 \<and> shape h3 = [n, 64] \<and>
         Linear_forward gm (fc4 self) (F_relu h3) = Inr h4 \<and> shape h4 = [n, 10] \<and>
         F_log_softmax h4 1 = Inr y \<and>
         Classifier_forward gm self x = Inr y \<and> shape y = [n, 10] \<and>
         (\<forall>i<n. (\<Sum>j\<leftarrow>[0..<10]. exp (data y ! (i * 10 + j))) = 1)))"
proof (intro conjI allI impI)
  show "layer_sizes (fst (Classifier_init rnd k0)) = [(784, 256), (256, 128), (128, 64), (64, 10)]"
    by (rule layer_sizes_init)
next
  fix self :: Classifier and x :: tensor and n :: nat and rest :: "nat list" and gm :: bool
  assume a: "layer_sizes self = [(784, 256), (256, 128), (128, 64), (64, 10)] \<and>
      dtype x = FloatTensor \<and> shape x = n # rest \<and> 0 < n \<and> prod_list rest = 784"
  then have sz: "layer_sizes self = [(784, 256), (256, 128), (128, 64), (64, 10)]"
    and x: "dtype x = FloatTensor" "shape x = n # rest" "0 < n" "prod_list rest = 784"
    by simp_all
  from forward_chain [OF sz x, of gm] obtain h1 h2 h3 h4 y where c:
    "flatten_input x = Inr (x\<lparr>shape := [n, 784]\<rparr>)"
    "Linear_forward gm (fc1 self) (x\<lparr>shape := [n, 784]\<rparr>) = Inr h1" "shape h1 = [n, 256]"
    "Linear_forward gm (fc2 self) (F_relu h1) = Inr h2" "shape h2 = [n, 128]"
    "Linear_forward gm (fc3 self) (F_relu h2) = Inr h3" "shape h3 = [n, 64]"
    "Linear_forward gm (fc4 self) (F_relu h3) = Inr h4" "shape h4 = [n, 10]"
    "wf_tensor h4" "F_log_softmax h4 1 = Inr y" "shape y = [n, 10]"
    by blast
  have len: "length (data h4) = n * 10" using c(9,10) by (simp add: wf_tensor_def numel_def)
  have norm: "\<forall>i<n. (\<Sum>j\<leftarrow>[0..<10]. exp (data y ! (i * 10 + j))) = 1"
    using log_softmax_normalised [OF c(11) c(9) len] by simp
  have fw: "Classifier_forward gm self x = Inr y"
    using c by (simp add: Classifier_forward_def)
  show "\<exists>x0 h1 h2 h3 h4 y.
         flatten_input x = Inr x0 \<and> shape x0 = [n, 784] \<and> data x0 = data x \<and>
         Linear_forward gm (fc1 self) x0 = Inr h1 \<and> shape h1 = [n, 256] \<and>
         Linear_forward gm (fc2 self) (F_relu h1) = Inr h2 \<and> shape h2 = [n, 128] \<and>
         Linear_forward gm (fc3 self) (F_relu h2) = Inr h3 \<and> shape h3 = [n, 64] \<and>
         Linear_forward gm (fc4 self) (F_relu h3) = Inr h4 \<and> shape h4 = [n, 10] \<and>
         F_log_softmax h4 1 = Inr y \<and>
         Classifier_forward gm self x = Inr y \<and> shape y = [n, 10] \<and>
         (\<forall>i<n. (\<Sum>j\<leftarrow>[0..<10]. exp (data y ! (i * 10 + j))) = 1)"
    apply (rule exI [of _ "x\<lparr>shape := [n, 784]\<rparr>"])
    apply (rule exI [of _ h1], rule exI [of _ h2], rule exI [of _ h3], rule exI [of _ h4])
    apply (rule exI [of _ y])
    using c fw norm by simp
qed

theorem Classifier_forward_structure_witness:
  "\<exists>y. Classifier_forward True (fst (Classifier_init (\<lambda>k i. 0) 0))
          \<lparr>dtype = FloatTensor, shape = [2, 1, 28, 28], data = replicate 1568 0,
           requires_grad = False\<rparr> = Inr y \<and> shape y = [2, 10]
        \<and> (\<Sum>j\<leftarrow>[0..<10]. exp (data y ! (1 * 10 + j))) = 1"
proof -
  let ?m = "fst (Classifier_init (\<lambda>k i. 0) 0)"
  let ?x = "\<lparr>dtype = FloatTensor, shape = [2, 1, 28, 28], data = replicate 1568 (0::real),
           requires_grad = False\<rparr>"
  note t = Classifier_forward_structure [of "\<lambda>k i. 0" 0]
  from t have sz: "layer_sizes ?m = [(784, 256), (256, 128), (128, 64), (64, 10)]" by (rule conjunct1)
  from t have "layer_sizes ?m = [(784, 256), (256, 128), (128, 64), (64, 10)] \<and>
      dtype ?x = FloatTensor \<and> shape ?x = 2 # [1, 28, 28] \<and> 0 < (2::nat) \<and> prod_list [1, 28, 28] = (784::nat) \<longrightarrow>
      (\<exists>x0 h1 h2 h3 h4 y.
         flatten_input ?x = Inr x0 \<and> shape x0 = [2, 784] \<and> data x0 = data ?x \<and>
         Linear_forward True (fc1 ?m) x0 = Inr h1 \<and> shape h1 = [2, 256] \<and>
         Linear_forward True (fc2 ?m) (F_relu h1) = Inr h2 \<and> shape h2 = [2, 128] \<and>
         Linear_forward True (fc3 ?m) (F_relu h2) = Inr h3 \<and> shape h3 = [2, 64] \<and>
         Linear_forward True (fc4 ?m) (F_relu h3) = Inr h4 \<and> shape h4 = [2, 10] \<and>
         F_log_softmax h4 1 = Inr y \<and>
         Classifier_forward True ?m ?x = Inr y \<and> shape y = [2, 10] \<and>
         (\<forall>i<2. (\<Sum>j\<leftarrow>[0..<10]. exp (data y ! (i * 10 + j))) = 1))"
    by blast
  moreover have "dtype ?x = FloatTensor \<and> shape ?x = 2 # [1, 28, 28] \<and> 0 < (2::nat) \<and> prod_list [1, 28, 28] = (784::nat)"
    by simp
  ultimately obtain y where y: "Classifier_forward True ?m ?x = Inr y" "shape y = [2, 10]"
     "\<forall>i<2. (\<Sum>j\<leftarrow>[0..<10]. exp (data y ! (i * 10 + j))) = 1"
    using sz by blast
  from y(3) have "(1::nat) < 2 \<longrightarrow> (\<Sum>j\<leftarrow>[0..<10]. exp (data y ! (1 * 10 + j))) = 1"
    by (rule spec)
  then have "(\<Sum>j\<leftarrow>[0..<10]. exp (data y ! (1 * 10 + j))) = 1" by simp
  with y(1,2) show ?thesis by blast
qed

lemma forward_size_mismatch:
  assumes sz: "layer_sizes self = [(784, 256), (256, 128), (128, 64), (64, 10)]"
      and x: "dtype x = FloatTensor" "shape x = n # rest" "0 < n" "prod_list rest \<noteq> 784"
  shows "Classifier_forward gm self x = Inl (RuntimeError ''size mismatch'')"
proof -
  have f: "flatten_input x = Inr (x\<lparr>shape := [n, prod_list rest]\<rparr>)"
    using flatten_input_ok [OF x(2,3)] .
  have "Linear_forward gm (fc1 self) (x\<lparr>shape := [n, prod_list rest]\<rparr>)
          = Inl (RuntimeError ''size mismatch'')"
    using x(1,4) layer_sizes_D(1) [OF sz] by (simp add: Linear_forward_def)
  then show ?thesis using f by (simp add: Classifier_forward_def)
qed

lemma tensor_eq_dtype: "tensor_eq a b = Inr e \<Longrightarrow> dtype e = ByteTensor"
  by (auto simp: tensor_eq_def ebind_Inr_iff)

lemma batch_equals_dtype: "batch_equals lp lb = Inr e \<Longrightarrow> dtype e = ByteTensor"
  by (auto simp: batch_equals_def ebind_Inr_iff dest: tensor_eq_dtype)

lemma torch_mean_byte:
  "dtype e = ByteTensor \<Longrightarrow>
   torch_mean e = Inl (RuntimeError ''mean is not implemented for type torch.ByteTensor'')"
  by (simp add: torch_mean_def)

lemma torch_mean_float:
  "torch_mean (type_FloatTensor e) \<noteq> Inl (RuntimeError msg)"
  "data e \<noteq> [] \<Longrightarrow> \<exists>a. ebind (torch_mean (type_FloatTensor e)) item = Inr a"
  by (simp_all add: torch_mean_def type_FloatTensor_def item_def)

lemma train_step_surfaces:
  assumes "collate b = Inr (im, lb)"
  shows "fwd (grad_enabled s) (model s) (rng s) im = Inl e \<Longrightarrow> train_step fw fwd b s = Inl e"
    and "fwd (grad_enabled s) (model s) (rng s) im = Inr (lp, k) \<Longrightarrow> NLLLoss_forward lp lb = Inl e
          \<Longrightarrow> train_step fw fwd b s = Inl e"
  using assms by (simp_all add: train_step_def Let_def model_call_def criterion_def)

lemma validate_step_surfaces:
  assumes "collate b = Inr (im, lb)"
  shows "fwd (grad_enabled s) (model s) (rng s) im = Inl e \<Longrightarrow> validate_step fwd b s = Inl e"
    and "fwd (grad_enabled s) (model s) (rng s) im = Inr (lp, k) \<Longrightarrow> NLLLoss_forward lp lb = Inl e
          \<Longrightarrow> validate_step fwd b s = Inl e"
  using assms by (simp_all add: validate_step_def Let_def model_call_def criterion_def)

lemma epoch14_surfaces:
  assumes "train_batches fw Classifier_call (fst (DataLoader_iter (draw fw) trainloader (rng s)))
             (0, s\<lparr>rng := snd (DataLoader_iter (draw fw) trainloader (rng s))\<rparr>) = Inl e"
  shows "epoch14 fw trainloader testloader n e0 s = Inl e"
  using assms by (simp add: epoch14_def Let_def split_beta)

lemma epoch18_surfaces:
  assumes "train_batches fw (ClassifierDropout_call fw) (fst (DataLoader_iter (draw fw) trainloader (rng s)))
             (0, s\<lparr>rng := snd (DataLoader_iter (draw fw) trainloader (rng s))\<rparr>) = Inl e"
  shows "epoch18 fw trainloader testloader n e0 s = Inl e"
  using assms by (simp add: epoch18_def Let_def split_beta)

lemma dropout_p_init: "p_drop (dropout (fst (ClassifierDropout_init rnd k0))) = 2 / 10"
  by (simp add: ClassifierDropout_init_def nn_Linear_def nn_Dropout_def)

lemma Dropout_forward_cases:
  assumes "Dropout_forward rnd d t (x, k) = (y, k')"
  shows "t \<longrightarrow> k' = Suc k \<and> length (data y) = length (data x) \<and>
           (\<forall>i<length (data x). data y ! i = (if p_drop d \<le> rnd k i then data x ! i / (1 - p_drop d) else 0))"
    and "\<not> t \<longrightarrow> k' = k \<and> y = x"
  using assms by (auto simp: Dropout_forward_def split: if_splits)

text \<open>
  Claim C4. The classifier of cell 17 is built with a dropout module of probability 0.2.
  Its forward pass applies that module to the \<open>relu\<close> of each of the three hidden layers and
  feeds the result to the next layer; the fourth layer's output goes to the log-softmax
  directly. In training mode the pass makes exactly three draws, one per hidden layer, and
  each hidden activation is zeroed where its draw is below 0.2 and divided by 0.8 elsewhere;
  in evaluation mode the three applications change nothing. In both modes the rows of the
  output are normalised, so nothing was dropped from the output layer.
\<close>

theorem dropout_on_hidden_layers_only:
  "p_drop (dropout (fst (ClassifierDropout_init rnd k0))) = 2 / 10 \<and>
   (\<forall>self x n rest gm k.
      layer_sizes self = [(784, 256), (256, 128), (128, 64), (64, 10)] \<and>
      p_drop (dropout self) = 2 / 10 \<and>
      dtype x = FloatTensor \<and> shape x = n # rest \<and> 0 < n \<and> prod_list rest = 784 \<longrightarrow>
      (\<exists>h1 h2 h3 h4 d1 d2 d3 k1 k2 k3 y.
         Linear_forward gm (fc1 self) (x\<lparr>shape := [n, 784]\<rparr>) = Inr h1 \<and>
         Dropout_forward rnd (dropout self) (training self) (F_relu h1, k) = (d1, k1) \<and>
         Linear_forward gm (fc2 self) d1 = Inr h2 \<and>
         Dropout_forward rnd (dropout self) (training self) (F_relu h2, k1) = (d2, k2) \<and>
         Linear_forward gm (fc3 self) d2 = Inr h3 \<and>
         Dropout_forward rnd (dropout self) (training self) (F_relu h3, k2) = (d3, k3) \<and>
         Linear_forward gm (fc4 self) d3 = Inr h4 \<and>
         F_log_softmax h4 1 = Inr y \<and>
         ClassifierDropout_forward rnd gm self k x = Inr (y, k3) \<and> shape y = [n, 10] \<and>
         (training self \<longrightarrow> k1 = k + 1 \<and> k2 = k + 2 \<and> k3 = k + 3 \<and>
            (\<forall>i<length (data h1). data d1 ! i =
                (if 2 / 10 \<le> rnd k i then max 0 (data h1 ! i) / (8 / 10) else 0)) \<and>
            (\<forall>i<length (data h2). data d2 ! i =
                (if 2 / 10 \<le> rnd (k + 1) i then max 0 (data h2 ! i) / (8 / 10) else 0)) \<and>
            (\<forall>i<length (data h3). data d3 ! i =
                (if 2 / 10 \<le> rnd (k + 2) i then max 0 (data h3 ! i) / (8 / 10) else 0))) \<and>
         (\<not> training self \<longrightarrow> k3 = k \<and> d1 = F_relu h1 \<and> d2 = F_relu h2 \<and> d3 = F_relu h3) \<and>
         (\<forall>i<n. (\<Sum>j\<leftarrow>[0..<10]. exp (data y ! (i * 10 + j))) = 1)))"
proof (intro conjI allI impI)
  show "p_drop (dropout (fst (ClassifierDropout_init rnd k0))) = 2 / 10"
    by (rule dropout_p_init)
next
  fix self :: ClassifierDropout and x :: tensor and n :: nat and rest :: "nat list"
    and gm :: bool and k :: nat
  assume a: "layer_sizes self = [(784, 256), (256, 128), (128, 64), (64, 10)] \<and>
      p_drop (dropout self) = 2 / 10 \<and>
      dtype x = FloatTensor \<and> shape x = n # rest \<and> 0 < n \<and> prod_list rest = 784"
  then have sz: "layer_sizes self = [(784, 256), (256, 128), (128, 64), (64, 10)]"
    and p: "p_drop (dropout self) = 2 / 10"
    and x: "dtype x = FloatTensor" "shape x = n # rest" "0 < n" "prod_list rest = 784"
    by simp_all
  from dropout_forward_chain [OF sz x, of gm rnd k] obtain h1 h2 h3 h4 d1 d2 d3 k1 k2 k3 y where c:
    "flatten_input x = Inr (x\<lparr>shape := [n, 784]\<rparr>)"
    "Linear_forward gm (fc1 self) (x\<lparr>shape := [n, 784]\<rparr>) = Inr h1"
    "Dropout_forward rnd (dropout self) (training self) (F_relu h1, k) = (d1, k1)"
    "Linear_forward gm (fc2 self) d1 = Inr h2"
    "Dropout_forward rnd (dropout self) (training self) (F_relu h2, k1) = (d2, k2)"
    "Linear_forward gm (fc3 self) d2 = Inr h3"
    "Dropout_forward rnd (dropout self) (training self) (F_relu h3, k2) = (d3, k3)"
    "Linear_forward gm (fc4 self) d3 = Inr h4" "shape h4 = [n, 10]" "wf_tensor h4"
    "F_log_softmax h4 1 = Inr y" "shape y = [n, 10]"
    by blast
  have fw: "ClassifierDropout_forward rnd gm self k x = Inr (y, k3)"
    using c by (simp add: ClassifierDropout_forward_def)
  have len: "length (data h4) = n * 10" using c(9,10) by (simp add: wf_tensor_def numel_def)
  have norm: "\<forall>i<n. (\<Sum>j\<leftarrow>[0..<10]. exp (data y ! (i * 10 + j))) = 1"
    using log_softmax_normalised [OF c(11) c(9) len] by simp
  note D1 = Dropout_forward_cases [OF c(3), unfolded p]
  note D2 = Dropout_forward_cases [OF c(5), unfolded p]
  note D3 = Dropout_forward_cases [OF c(7), unfolded p]
  have relu: "\<And>h i. i < length (data h) \<Longrightarrow> data (F_relu h) ! i = max 0 (data h ! i)"
    by (simp add: F_relu_def)
  have tr: "training self \<longrightarrow> k1 = k + 1 \<and> k2 = k + 2 \<and> k3 = k + 3 \<and>
            (\<forall>i<length (data h1). data d1 ! i =
                (if 2 / 10 \<le> rnd k i then max 0 (data h1 ! i) / (8 / 10) else 0)) \<and>
            (\<forall>i<length (data h2). data d2 ! i =
                (if 2 / 10 \<le> rnd (k + 1) i then max 0 (data h2 ! i) / (8 / 10) else 0)) \<and>
            (\<forall>i<length (data h3). data d3 ! i =
                (if 2 / 10 \<le> rnd (k + 2) i then max 0 (data h3 ! i) / (8 / 10) else 0))"
  proof
    assume t: "training self"
    have k: "k1 = k + 1" "k2 = k + 2" "k3 = k + 3" using D1(1) D2(1) D3(1) t by simp_all
    have e1: "\<forall>i<length (data h1). data d1 ! i =
                (if 2 / 10 \<le> rnd k i then max 0 (data h1 ! i) / (8 / 10) else 0)"
      using D1(1) t by (simp add: relu)
    have e2: "\<forall>i<length (data h2). data d2 ! i =
                (if 2 / 10 \<le> rnd (k + 1) i then max 0 (data h2 ! i) / (8 / 10) else 0)"
      using D2(1) t k by (simp add: relu)
    have e3: "\<forall>i<length (data h3). data d3 ! i =
                (if 2 / 10 \<le> rnd (k + 2) i then max 0 (data h3 ! i) / (8 / 10) else 0)"
      using D3(1) t k by (simp add: relu)
    show "k1 = k + 1 \<and> k2 = k + 2 \<and> k3 = k + 3 \<and>
            (\<forall>i<length (data h1). data d1 ! i =
                (if 2 / 10 \<le> rnd k i then max 0 (data h1 ! i) / (8 / 10) else 0)) \<and>
            (\<forall>i<length (data h2). data d2 ! i =
                (if 2 / 10 \<le> rnd (k + 1) i then max 0 (data h2 ! i) / (8 / 10) else 0)) \<and>
            (\<forall>i<length (data h3). data d3 ! i =
                (if 2 / 10 \<le> rnd (k + 2) i then max 0 (data h3 ! i) / (8 / 10) else 0))"
      using k e1 e2 e3 by blast
  qed
  have ev: "\<not> training self \<longrightarrow> k3 = k \<and> d1 = F_relu h1 \<and> d2 = F_relu h2 \<and> d3 = F_relu h3"
    using D1(2) D2(2) D3(2) by simp
  show "\<exists>h1 h2 h3 h4 d1 d2 d3 k1 k2 k3 y.
         Linear_forward gm (fc1 self) (x\<lparr>shape := [n, 784]\<rparr>) = Inr h1 \<and>
         Dropout_forward rnd (dropout self) (training self) (F_relu h1, k) = (d1, k1) \<and>
         Linear_forward gm (fc2 self) d1 = Inr h2 \<and>
         Dropout_forward rnd (dropout self) (training self) (F_relu h2, k1) = (d2, k2) \<and>
         Linear_forward gm (fc3 self) d2 = Inr h3 \<and>
         Dropout_forward rnd (dropout self) (training self) (F_relu h3, k2) = (d3, k3) \<and>
         Linear_forward gm (fc4 self) d3 = Inr h4 \<and>
         F_log_softmax h4 1 = Inr y \<and>
         ClassifierDropout_forward rnd gm self k x = Inr (y, k3) \<and> shape y = [n, 10] \<and>
         (training self \<longrightarrow> k1 = k + 1 \<and> k2 = k + 2 \<and> k3 = k + 3 \<and>
            (\<forall>i<length (data h1). data d1 ! i =
                (if 2 / 10 \<le> rnd k i then max 0 (data h1 ! i) / (8 / 10) else 0)) \<and>
            (\<forall>i<length (data h2). data d2 ! i =
                (if 2 / 10 \<le> rnd (k + 1) i then max 0 (data h2 ! i) / (8 / 10) else 0)) \<and>
            (\<forall>i<length (data h3). data d3 ! i =
                (if 2 / 10 \<le> rnd (k + 2) i then max 0 (data h3 ! i) / (8 / 10) else 0))) \<and>
         (\<not> training self \<longrightarrow> k3 = k \<and> d1 = F_relu h1 \<and> d2 = F_relu h2 \<and> d3 = F_relu h3) \<and>
         (\<forall>i<n. (\<Sum>j\<leftarrow>[0..<10]. exp (data y ! (i * 10 + j))) = 1)"
    apply (rule exI [of _ h1], rule exI [of _ h2], rule exI [of _ h3], rule exI [of _ h4])
    apply (rule exI [of _ d1], rule exI [of _ d2], rule exI [of _ d3])
    apply (rule exI [of _ k1], rule exI [of _ k2], rule exI [of _ k3], rule exI [of _ y])
    apply (intro conjI)
    using c fw norm tr ev by simp_all
qed

theorem dropout_on_hidden_layers_only_witness:
  "\<exists>y. ClassifierDropout_forward (\<lambda>k i. 1 / 2) True (fst (ClassifierDropout_init (\<lambda>k i. 1 / 2) 0)) 8
          \<lparr>dtype = FloatTensor, shape = [1, 1, 28, 28], data = replicate 784 1,
           requires_grad = False\<rparr> = Inr (y, 11) \<and> shape y = [1, 10]"
proof -
  let ?r = "\<lambda>(k::nat) (i::nat). 1 / 2 :: real"
  let ?m = "fst (ClassifierDropout_init ?r 0)"
  let ?x = "\<lparr>dtype = FloatTensor, shape = [1, 1, 28, 28], data = replicate 784 (1::real),
           requires_grad = False\<rparr>"
  note t = dropout_on_hidden_layers_only [of ?r 0]
  have tr: "training ?m"
    by (simp add: ClassifierDropout_init_def nn_Linear_def)
  have h: "layer_sizes ?m = [(784, 256), (256, 128), (128, 64), (64, 10)] \<and>
      p_drop (dropout ?m) = 2 / 10 \<and>
      dtype ?x = FloatTensor \<and> shape ?x = 1 # [1, 28, 28] \<and> 0 < (1::nat) \<and> prod_list [1, 28, 28] = (784::nat)"
    using t [THEN conjunct1] by (simp add: layer_sizes_init_dropout)
  from t [THEN conjunct2, rule_format, OF h, of True 8] obtain y k3 where
    "ClassifierDropout_forward ?r True ?m 8 ?x = Inr (y, k3)" "shape y = [1, 10]"
    "training ?m \<longrightarrow> k3 = 8 + 3"
    by blast
  then show ?thesis using tr by simp
qed

lemma one_sample_loader_ok:
  "0 < batch_size one_sample_loader" "dataset one_sample_loader \<noteq> []"
  "list_all fashion_sample (dataset one_sample_loader)"
  by (simp_all add: fashion_sample_def wf_tensor_def numel_def)

lemma train_events_no_scope:
  "No_grad_enter \<notin> set (train_events mode gm T)" "No_grad_exit \<notin> set (train_events mode gm T)"
  "Eval \<notin> set (train_events mode gm T)" "Train \<notin> set (train_events mode gm T)"
  "Save \<notin> set (train_events mode gm T)" "Load \<notin> set (train_events mode gm T)"
  by (induction T) simp_all

lemma validate_events_no_update:
  "Zero_grad \<notin> set (validate_events mode gm V)" "Backward \<notin> set (validate_events mode gm V)"
  "Step \<notin> set (validate_events mode gm V)"
  "Save \<notin> set (validate_events mode gm V)" "Load \<notin> set (validate_events mode gm V)"
  by (induction V) simp_all

lemma validate_events_eval_no_update:
  "Zero_grad \<notin> set (validate_events_eval gm V)" "Backward \<notin> set (validate_events_eval gm V)"
  "Step \<notin> set (validate_events_eval gm V)"
  "Save \<notin> set (validate_events_eval gm V)" "Load \<notin> set (validate_events_eval gm V)"
  by (induction V) simp_all



lemma dropout_call_draws:
  assumes "ClassifierDropout_call fw gm m k x = Inr (y, k')"
  shows "k' = (if training m then k + 3 else k)"
  using assms
  by (auto simp: ClassifierDropout_call_def ClassifierDropout_forward_def ebind_Inr_iff
        Dropout_forward_def Let_def split: prod.splits if_splits)

text \<open>
  Claim C1. The validation loop of cell 14 returns exactly when every test batch can be
  validated under the model, the grad mode and the draw counter of its start, and then it
  has added the losses of the batches to \<open>test_loss\<close> and their accuracies to \<open>accuracy\<close>
  and changed nothing in the state but the list of calls, which gained a forward pass and a
  criterion call for every batch; the loop of cell 18, started in evaluation mode, does the
  same with \<open>model.eval()\<close> before each forward pass. Validating a batch is stacking it,
  running the model on its images, and computing the loss and the accuracy of the output
  against its labels. On loaders over non-empty datasets of Fashion-MNIST samples, both
  cells return after 30 epochs; in every epoch the calls of the validation loop over all
  test batches, made with the grad mode off, stand between \<open>No_grad_enter\<close> and
  \<open>No_grad_exit\<close>, after the calls of the training loop, and hold no \<open>zero_grad\<close>,
  \<open>backward\<close> or \<open>step\<close>.
\<close>

theorem validation_forward_only:
  assumes "0 < batch_size trainloader" "dataset trainloader \<noteq> []"
          "list_all fashion_sample (dataset trainloader)"
      and "0 < batch_size testloader" "dataset testloader \<noteq> []"
          "list_all fashion_sample (dataset testloader)"
  shows "(\<forall>bs t0 a0 (s :: (Classifier, 'o) state) res s'.
           validate_batches Classifier_call bs ((t0, a0), s) = Inr (res, s') \<longleftrightarrow>
           (\<exists>V. map (validate_run Classifier_call (grad_enabled s) (model s) (rng s)) bs = map Inr V \<and>
              res = (t0 + sum_list (map b_value V), a0 + sum_list (map b_accuracy V)) \<and>
              s' = s\<lparr>calls := calls s @ validate_events (training (model s)) (grad_enabled s) V\<rparr>))
       \<and> (\<forall>bs t0 a0 (s :: (ClassifierDropout, 'o) state) res s'. \<not> training (model s) \<longrightarrow>
           (validate_batches_eval (ClassifierDropout_call fw) bs ((t0, a0), s) = Inr (res, s') \<longleftrightarrow>
           (\<exists>V. map (validate_run (ClassifierDropout_call fw) (grad_enabled s) (model s) (rng s)) bs
                   = map Inr V \<and>
              res = (t0 + sum_list (map b_value V), a0 + sum_list (map b_accuracy V)) \<and>
              s' = s\<lparr>calls := calls s @ validate_events_eval (grad_enabled s) V\<rparr>)))
       \<and> (\<forall>(fwd :: ('a Classifier_scheme) forward_fn) gm m k b r.
             validate_run fwd gm m k b = Inr r \<longrightarrow>
             (\<exists>k'. collate b = Inr (b_images r, b_labels r) \<and>
                fwd gm m k (b_images r) = Inr (b_log_ps r, k') \<and>
                NLLLoss_forward (b_log_ps r) (b_labels r) = Inr (b_loss r) \<and>
                item (b_loss r) = Inr (b_value r) \<and>
                batch_accuracy (b_log_ps r) (b_labels r) = Inr (b_accuracy r)))
       \<and> (\<exists>s' runs. cell14 fw trainloader testloader k True evs = Inr s' \<and> length runs = 30 \<and>
             calls s' = evs @ concat (map2 (\<lambda>e (T, V). epoch14_events e 30
                 (DataLoader_len trainloader) (DataLoader_len testloader) T V) [0..<30] runs) \<and>
             list_all (\<lambda>(T, V). \<exists>m k k'.
                 map (validate_run Classifier_call False m k)
                   (fst (DataLoader_iter (draw fw) testloader k')) = map Inr V) runs)
       \<and> (\<exists>s' runs. cell18 fw trainloader testloader k True evs = Inr s' \<and> length runs = 30 \<and>
             calls s' = evs @ concat (map2 (\<lambda>e (T, V). epoch18_events e 30
                 (DataLoader_len trainloader) (DataLoader_len testloader) T V) [0..<30] runs) \<and>
             list_all (\<lambda>(T, V). \<exists>m k k'. \<not> training m \<and>
                 map (validate_run (ClassifierDropout_call fw) False m k)
                   (fst (DataLoader_iter (draw fw) testloader k')) = map Inr V) runs)
       \<and> (\<forall>e n a b T V.
             epoch14_events e n a b T V =
               train_events True True T @ [No_grad_enter]
               @ concat (map (\<lambda>r. [Forward (b_images r) True False,
                                    Criterion (b_labels r) (b_loss r)]) V)
               @ [No_grad_exit,
                  Print (e + 1) n (sum_list (map b_value T) / real a)
                    (sum_list (map b_value V) / real b) (sum_list (map b_accuracy V) / real b)] \<and>
             epoch18_events e n a b T V =
               train_events True True T @ [No_grad_enter, Eval]
               @ concat (map (\<lambda>r. [Eval, Forward (b_images r) False False,
                                    Criterion (b_labels r) (b_loss r)]) V)
               @ [No_grad_exit, Train,
                  Print (e + 1) n (sum_list (map b_value T) / real a)
                    (sum_list (map b_value V) / real b) (sum_list (map b_accuracy V) / real b)] \<and>
             No_grad_enter \<notin> set (train_events True True T) \<and>
             No_grad_exit \<notin> set (train_events True True T))"
proof (intro conjI allI impI)
  fix bs t0 a0 and s :: "(Classifier, 'o) state" and res s'
  show "validate_batches Classifier_call bs ((t0, a0), s) = Inr (res, s') \<longleftrightarrow>
           (\<exists>V. map (validate_run Classifier_call (grad_enabled s) (model s) (rng s)) bs = map Inr V \<and>
              res = (t0 + sum_list (map b_value V), a0 + sum_list (map b_accuracy V)) \<and>
              s' = s\<lparr>calls := calls s @ validate_events (training (model s)) (grad_enabled s) V\<rparr>)"
    by (rule validate_batches_run) (rule Classifier_call_stable)
next
  fix bs t0 a0 and s :: "(ClassifierDropout, 'o) state" and res s'
  assume nt: "\<not> training (model s)"
  show "validate_batches_eval (ClassifierDropout_call fw) bs ((t0, a0), s) = Inr (res, s') \<longleftrightarrow>
           (\<exists>V. map (validate_run (ClassifierDropout_call fw) (grad_enabled s) (model s) (rng s)) bs
                   = map Inr V \<and>
              res = (t0 + sum_list (map b_value V), a0 + sum_list (map b_accuracy V)) \<and>
              s' = s\<lparr>calls := calls s @ validate_events_eval (grad_enabled s) V\<rparr>)"
    by (rule validate_batches_eval_run [OF nt]) (rule ClassifierDropout_call_stable [OF nt])
next
  fix fwd :: "('a Classifier_scheme) forward_fn" and gm m k b r
  assume "validate_run fwd gm m k b = Inr r"
  then show "\<exists>k'. collate b = Inr (b_images r, b_labels r) \<and>
                fwd gm m k (b_images r) = Inr (b_log_ps r, k') \<and>
                NLLLoss_forward (b_log_ps r) (b_labels r) = Inr (b_loss r) \<and>
                item (b_loss r) = Inr (b_value r) \<and>
                batch_accuracy (b_log_ps r) (b_labels r) = Inr (b_accuracy r)"
    by (rule validate_run_Inr)
next
  from cell14_master [OF assms, of fw k evs] obtain s' runs where r:
    "cell14 fw trainloader testloader k True evs = Inr s'" "length runs = 30"
    "calls s' = evs @ concat (map2 (\<lambda>e (T, V). epoch14_events e 30 (DataLoader_len trainloader)
                                  (DataLoader_len testloader) T V) [0..<30] runs)"
    "list_all (\<lambda>(T, V).
        (\<exists>k. list_all2 (train_pass Classifier_call) (fst (DataLoader_iter (draw fw) trainloader k)) T) \<and>
        (\<exists>m k k'. layer_sizes m = declared_sizes \<and>
           map (validate_run Classifier_call False m k) (fst (DataLoader_iter (draw fw) testloader k'))
             = map Inr V)) runs"
    by blast
  have "list_all (\<lambda>(T, V). \<exists>m k k'.
                 map (validate_run Classifier_call False m k)
                   (fst (DataLoader_iter (draw fw) testloader k')) = map Inr V) runs"
    using r(4) by (fastforce simp: list_all_iff)
  then show "\<exists>s' runs. cell14 fw trainloader testloader k True evs = Inr s' \<and> length runs = 30 \<and>
             calls s' = evs @ concat (map2 (\<lambda>e (T, V). epoch14_events e 30
                 (DataLoader_len trainloader) (DataLoader_len testloader) T V) [0..<30] runs) \<and>
             list_all (\<lambda>(T, V). \<exists>m k k'.
                 map (validate_run Classifier_call False m k)
                   (fst (DataLoader_iter (draw fw) testloader k')) = map Inr V) runs"
    using r(1,2,3) by blast
next
  from cell18_master [OF assms, of fw k evs] obtain s' runs where r:
    "cell18 fw trainloader testloader k True evs = Inr s'" "length runs = 30"
    "calls s' = evs @ concat (map2 (\<lambda>e (T, V). epoch18_events e 30 (DataLoader_len trainloader)
                                  (DataLoader_len testloader) T V) [0..<30] runs)"
    "list_all (\<lambda>(T, V).
        (\<exists>k. list_all2 (train_pass (ClassifierDropout_call fw)) (fst (DataLoader_iter (draw fw) trainloader k)) T) \<and>
        (\<exists>m k k'. layer_sizes m = declared_sizes \<and> \<not> training m \<and>
           map (validate_run (ClassifierDropout_call fw) False m k) (fst (DataLoader_iter (draw fw) testloader k'))
             = map Inr V)) runs"
    by blast
  have "list_all (\<lambda>(T, V). \<exists>m k k'. \<not> training m \<and>
                 map (validate_run (ClassifierDropout_call fw) False m k)
                   (fst (DataLoader_iter (draw fw) testloader k')) = map Inr V) runs"
    using r(4) by (fastforce simp: list_all_iff)
  then show "\<exists>s' runs. cell18 fw trainloader testloader k True evs = Inr s' \<and> length runs = 30 \<and>
             calls s' = evs @ concat (map2 (\<lambda>e (T, V). epoch18_events e 30
                 (DataLoader_len trainloader) (DataLoader_len testloader) T V) [0..<30] runs) \<and>
             list_all (\<lambda>(T, V). \<exists>m k k'. \<not> training m \<and>
                 map (validate_run (ClassifierDropout_call fw) False m k)
                   (fst (DataLoader_iter (draw fw) testloader k')) = map Inr V) runs"
    using r(1,2,3) by blast
next
  fix e n a b and T :: "batch_run list" and V :: "val_run list"
  show "epoch14_events e n a b T V =
               train_events True True T @ [No_grad_enter]
               @ concat (map (\<lambda>r. [Forward (b_images r) True False,
                                    Criterion (b_labels r) (b_loss r)]) V)
               @ [No_grad_exit,
                  Print (e + 1) n (sum_list (map b_value T) / real a)
                    (sum_list (map b_value V) / real b) (sum_list (map b_accuracy V) / real b)]"
    by (simp add: epoch_events_calls validate_events_def)
  show "epoch18_events e n a b T V =
               train_events True True T @ [No_grad_enter, Eval]
               @ concat (map (\<lambda>r. [Eval, Forward (b_images r) False False,
                                    Criterion (b_labels r) (b_loss r)]) V)
               @ [No_grad_exit, Train,
                  Print (e + 1) n (sum_list (map b_value T) / real a)
                    (sum_list (map b_value V) / real b) (sum_list (map b_accuracy V) / real b)]"
    by (simp add: epoch_events_calls validate_events_eval_def)
  show "No_grad_enter \<notin> set (train_events True True T)"
    "No_grad_exit \<notin> set (train_events True True T)"
    by (rule train_events_no_scope)+
qed

theorem validation_forward_only_witness:
  "(0 < batch_size one_sample_loader \<and> dataset one_sample_loader \<noteq> [] \<and>
    list_all fashion_sample (dataset one_sample_loader)) \<and>
   (\<exists>s' runs. cell18 inert_framework one_sample_loader one_sample_loader 0 True [] = Inr s' \<and>
      length runs = 30 \<and>
      calls s' = concat (map2 (\<lambda>e (T, V). epoch18_events e 30
                 (DataLoader_len one_sample_loader) (DataLoader_len one_sample_loader) T V)
                 [0..<30] runs))"
proof -
  have h: "0 < batch_size one_sample_loader" "dataset one_sample_loader \<noteq> []"
    "list_all fashion_sample (dataset one_sample_loader)"
    by (rule one_sample_loader_ok)+
  note t = validation_forward_only [OF h h, of inert_framework 0 "[]"]
  from t [THEN conjunct2, THEN conjunct2, THEN conjunct2, THEN conjunct2, THEN conjunct1]
  obtain s' runs where
    "cell18 inert_framework one_sample_loader one_sample_loader 0 True [] = Inr s'"
    "length runs = 30"
    "calls s' = [] @ concat (map2 (\<lambda>e (T, V). epoch18_events e 30
                 (DataLoader_len one_sample_loader) (DataLoader_len one_sample_loader) T V)
                 [0..<30] runs)"
    by blast
  then show ?thesis using h by auto
qed

text \<open>
  Claim C2. On loaders over non-empty datasets of Fashion-MNIST samples, cell 18 returns
  after 30 epochs with the model in training mode. In every epoch, each forward pass of the
  training loop runs a model in training mode, \<open>model.eval()\<close> comes before the first
  forward pass of the validation, each of which runs a model in evaluation mode, and
  \<open>model.train()\<close> comes after the last one, before the epoch's line is printed and the
  next epoch starts. In evaluation mode the forward pass of the dropout classifier is the
  forward pass without dropout and makes no draw; in training mode it makes its three draws.
\<close>

theorem dropout_mode_toggling:
  assumes "0 < batch_size trainloader" "dataset trainloader \<noteq> []"
          "list_all fashion_sample (dataset trainloader)"
      and "0 < batch_size testloader" "dataset testloader \<noteq> []"
          "list_all fashion_sample (dataset testloader)"
  shows "(\<exists>s' runs. cell18 fw trainloader testloader k True evs = Inr s' \<and> training (model s') \<and>
             length runs = 30 \<and>
             calls s' = evs @ concat (map2 (\<lambda>e (T, V). epoch18_events e 30
                 (DataLoader_len trainloader) (DataLoader_len testloader) T V) [0..<30] runs) \<and>
             list_all (\<lambda>(T, V).
                (\<exists>k. list_all2 (train_pass (ClassifierDropout_call fw))
                        (fst (DataLoader_iter (draw fw) trainloader k)) T) \<and>
                (\<exists>m k k'. \<not> training m \<and>
                   map (validate_run (ClassifierDropout_call fw) False m k)
                     (fst (DataLoader_iter (draw fw) testloader k')) = map Inr V)) runs)
       \<and> (\<forall>e n a b T V.
             epoch18_events e n a b T V =
               concat (map (\<lambda>r. [Zero_grad, Forward (b_images r) True True,
                                  Criterion (b_labels r) (b_loss r), Backward, Step]) T)
               @ [No_grad_enter, Eval]
               @ concat (map (\<lambda>r. [Eval, Forward (b_images r) False False,
                                    Criterion (b_labels r) (b_loss r)]) V)
               @ [No_grad_exit, Train, epoch_print e n a b T V])
       \<and> (\<forall>gm m k x. \<not> training m \<longrightarrow>
             ClassifierDropout_call fw gm m k x = ebind (Classifier_forward gm m x) (\<lambda>y. Inr (y, k)))
       \<and> (\<forall>gm m k x y k'. training m \<and> ClassifierDropout_call fw gm m k x = Inr (y, k') \<longrightarrow>
             k' = k + 3)
       \<and> (\<forall>s :: (ClassifierDropout, 'o) state.
             \<not> training (model (model_eval s)) \<and> training (model (model_train s)))"
proof (intro conjI allI impI)
  from cell18_master [OF assms, of fw k evs] obtain s' runs where r:
    "cell18 fw trainloader testloader k True evs = Inr s'"
    "grad_enabled s' \<and> training (model s') \<and> layer_sizes (model s') = declared_sizes"
    "length runs = 30"
    "calls s' = evs @ concat (map2 (\<lambda>e (T, V). epoch18_events e 30 (DataLoader_len trainloader)
                                  (DataLoader_len testloader) T V) [0..<30] runs)"
    "list_all (\<lambda>(T, V).
        (\<exists>k. list_all2 (train_pass (ClassifierDropout_call fw)) (fst (DataLoader_iter (draw fw) trainloader k)) T) \<and>
        (\<exists>m k k'. layer_sizes m = declared_sizes \<and> \<not> training m \<and>
           map (validate_run (ClassifierDropout_call fw) False m k) (fst (DataLoader_iter (draw fw) testloader k'))
             = map Inr V)) runs"
    by blast
  have "list_all (\<lambda>(T, V).
                (\<exists>k. list_all2 (train_pass (ClassifierDropout_call fw))
                        (fst (DataLoader_iter (draw fw) trainloader k)) T) \<and>
                (\<exists>m k k'. \<not> training m \<and>
                   map (validate_run (ClassifierDropout_call fw) False m k)
                     (fst (DataLoader_iter (draw fw) testloader k')) = map Inr V)) runs"
    using r(5) by (fastforce simp: list_all_iff)
  then show "\<exists>s' runs. cell18 fw trainloader testloader k True evs = Inr s' \<and> training (model s') \<and>
             length runs = 30 \<and>
             calls s' = evs @ concat (map2 (\<lambda>e (T, V). epoch18_events e 30
                 (DataLoader_len trainloader) (DataLoader_len testloader) T V) [0..<30] runs) \<and>
             list_all (\<lambda>(T, V).
                (\<exists>k. list_all2 (train_pass (ClassifierDropout_call fw))
                        (fst (DataLoader_iter (draw fw) trainloader k)) T) \<and>
                (\<exists>m k k'. \<not> training m \<and>
                   map (validate_run (ClassifierDropout_call fw) False m k)
                     (fst (DataLoader_iter (draw fw) testloader k')) = map Inr V)) runs"
    using r(1,2,3,4) by blast
next
  fix e n a b and T :: "batch_run list" and V :: "val_run list"
  show "epoch18_events e n a b T V =
               concat (map (\<lambda>r. [Zero_grad, Forward (b_images r) True True,
                                  Criterion (b_labels r) (b_loss r), Backward, Step]) T)
               @ [No_grad_enter, Eval]
               @ concat (map (\<lambda>r. [Eval, Forward (b_images r) False False,
                                    Criterion (b_labels r) (b_loss r)]) V)
               @ [No_grad_exit, Train, epoch_print e n a b T V]"
    by (simp add: epoch18_events_def train_events_def validate_events_eval_def)
next
  fix gm and m :: ClassifierDropout and k x
  assume "\<not> training m"
  then show "ClassifierDropout_call fw gm m k x = ebind (Classifier_forward gm m x) (\<lambda>y. Inr (y, k))"
    by (simp add: ClassifierDropout_call_def dropout_eval_is_plain)
next
  fix gm and m :: ClassifierDropout and k x y k'
  assume "training m \<and> ClassifierDropout_call fw gm m k x = Inr (y, k')"
  then show "k' = k + 3" using dropout_call_draws [of fw gm m k x y k'] by simp
next
  fix s :: "(ClassifierDropout, 'o) state"
  show "\<not> training (model (model_eval s))" "training (model (model_train s))" by simp_all
qed

theorem dropout_mode_toggling_witness:
  "(0 < batch_size one_sample_loader \<and> dataset one_sample_loader \<noteq> [] \<and>
    list_all fashion_sample (dataset one_sample_loader)) \<and>
   (\<exists>s'. cell18 inert_framework one_sample_loader one_sample_loader 0 True [] = Inr s' \<and>
      training (model s'))"
proof -
  have h: "0 < batch_size one_sample_loader" "dataset one_sample_loader \<noteq> []"
    "list_all fashion_sample (dataset one_sample_loader)"
    by (rule one_sample_loader_ok)+
  from dropout_mode_toggling [OF h h, of inert_framework 0 "[]", THEN conjunct1]
  obtain s' where
    "cell18 inert_framework one_sample_loader one_sample_loader 0 True [] = Inr s'"
    "training (model s')"
    by blast
  then show ?thesis using h by auto
qed

lemma parameters_training [simp]: "parameters (m\<lparr>training := t\<rparr>) = parameters m"
  by (simp add: parameters_def)

lemma validate_step_frame:
  assumes "validate_step fwd b s = Inr (x, s')"
  shows "model s' = model s \<and> grads s' = grads s \<and> opt_state s' = opt_state s"
  using assms
  by (auto simp: validate_step_def ebind_Inr_iff model_call_Inr criterion_Inr)

lemma validate_step_eval_frame:
  assumes "validate_step_eval fwd b s = Inr (x, s')"
  shows "model s' = (model s)\<lparr>training := False\<rparr> \<and> grads s' = grads s \<and> opt_state s' = opt_state s"
  using assms
  by (auto simp: validate_step_eval_def ebind_Inr_iff model_call_Inr criterion_Inr Let_def
        model_eval_def)

lemma validate_batches_frame:
  assumes "validate_batches fwd bs (acc, s) = Inr (res, s')"
  shows "model s' = model s \<and> grads s' = grads s \<and> opt_state s' = opt_state s"
  using assms
proof (induction bs arbitrary: acc s)
  case Nil
  then show ?case by (cases acc) simp
next
  case (Cons b bs)
  obtain t0 a0 where acc: "acc = (t0, a0)" by (cases acc)
  from Cons.prems obtain v a s1 where
    st: "validate_step fwd b s = Inr ((v, a), s1)" and
    rest: "validate_batches fwd bs ((t0 + v, a0 + a), s1) = Inr (res, s')"
    unfolding acc by (auto simp: ebind_Inr_iff)
  from validate_step_frame [OF st] Cons.IH [OF rest] show ?case by simp
qed

lemma validate_batches_eval_frame:
  assumes "validate_batches_eval fwd bs (acc, s) = Inr (res, s')"
  shows "parameters (model s') = parameters (model s) \<and> grads s' = grads s \<and>
         opt_state s' = opt_state s"
  using assms
proof (induction bs arbitrary: acc s)
  case Nil
  then show ?case by (cases acc) simp
next
  case (Cons b bs)
  obtain t0 a0 where acc: "acc = (t0, a0)" by (cases acc)
  from Cons.prems obtain v a s1 where
    st: "validate_step_eval fwd b s = Inr ((v, a), s1)" and
    rest: "validate_batches_eval fwd bs ((t0 + v, a0 + a), s1) = Inr (res, s')"
    unfolding acc by (auto simp: ebind_Inr_iff)
  from validate_step_eval_frame [OF st] Cons.IH [OF rest] show ?case by simp
qed

text \<open>
  Claim C10. A validation loop that returns leaves the model of cell 14, the gradients and
  the optimizer's state as they were, and in cell 18 changes nothing of the model but its
  mode. Whenever an epoch returns, the parameters, the gradients and the optimizer's state
  at its end are those that the training loop left after its last \<open>optimizer.step()\<close>; and
  on loaders over non-empty datasets of Fashion-MNIST samples an epoch started in training
  mode with the grad mode on does return.
\<close>

theorem validation_keeps_parameters:
  fixes fw :: "'o framework"
  assumes "0 < batch_size trainloader" "dataset trainloader \<noteq> []"
          "list_all fashion_sample (dataset trainloader)"
      and "0 < batch_size testloader" "dataset testloader \<noteq> []"
          "list_all fashion_sample (dataset testloader)"
  shows "(\<forall>(fwd :: ('a Classifier_scheme) forward_fn) bs acc (s :: ('a Classifier_scheme, 'o) state)
            res s'.
           validate_batches fwd bs (acc, s) = Inr (res, s') \<longrightarrow>
           model s' = model s \<and> parameters (model s') = parameters (model s) \<and>
           grads s' = grads s \<and> opt_state s' = opt_state s)
       \<and> (\<forall>(fwd :: ('a Classifier_scheme) forward_fn) bs acc (s :: ('a Classifier_scheme, 'o) state)
            res s'.
           validate_batches_eval fwd bs (acc, s) = Inr (res, s') \<longrightarrow>
           parameters (model s') = parameters (model s) \<and>
           grads s' = grads s \<and> opt_state s' = opt_state s)
       \<and> (\<forall>n e s s'. epoch14 fw trainloader testloader n e s = Inr s' \<longrightarrow>
            (\<exists>r sT. train_batches fw Classifier_call
                       (fst (DataLoader_iter (draw fw) trainloader (rng s)))
                       (0, s\<lparr>rng := snd (DataLoader_iter (draw fw) trainloader (rng s))\<rparr>)
                      = Inr (r, sT) \<and>
                    model s' = model sT \<and> parameters (model s') = parameters (model sT) \<and>
                    grads s' = grads sT \<and> opt_state s' = opt_state sT))
       \<and> (\<forall>n e s s'. epoch18 fw trainloader testloader n e s = Inr s' \<longrightarrow>
            (\<exists>r sT. train_batches fw (ClassifierDropout_call fw)
                       (fst (DataLoader_iter (draw fw) trainloader (rng s)))
                       (0, s\<lparr>rng := snd (DataLoader_iter (draw fw) trainloader (rng s))\<rparr>)
                      = Inr (r, sT) \<and>
                    parameters (model s') = parameters (model sT) \<and>
                    grads s' = grads sT \<and> opt_state s' = opt_state sT))
       \<and> (\<forall>n e s. grad_enabled s \<and> training (model s) \<and> layer_sizes (model s) = declared_sizes \<longrightarrow>
            (\<exists>s'. epoch14 fw trainloader testloader n e s = Inr s'))
       \<and> (\<forall>n e s. grad_enabled s \<and> training (model s) \<and> layer_sizes (model s) = declared_sizes \<longrightarrow>
            (\<exists>s'. epoch18 fw trainloader testloader n e s = Inr s'))"
proof (intro conjI allI impI)
  fix fwd :: "('a Classifier_scheme) forward_fn" and bs acc
    and s :: "('a Classifier_scheme, 'o) state" and res s'
  assume "validate_batches fwd bs (acc, s) = Inr (res, s')"
  from validate_batches_frame [OF this]
  show "model s' = model s" "parameters (model s') = parameters (model s)"
    "grads s' = grads s" "opt_state s' = opt_state s"
    by simp_all
next
  fix fwd :: "('a Classifier_scheme) forward_fn" and bs acc
    and s :: "('a Classifier_scheme, 'o) state" and res s'
  assume "validate_batches_eval fwd bs (acc, s) = Inr (res, s')"
  from validate_batches_eval_frame [OF this]
  show "parameters (model s') = parameters (model s)"
    "grads s' = grads s" "opt_state s' = opt_state s"
    by simp_all
next
  fix n e s s'
  assume "epoch14 fw trainloader testloader n e s = Inr s'"
  then show "\<exists>r sT. train_batches fw Classifier_call
                       (fst (DataLoader_iter (draw fw) trainloader (rng s)))
                       (0, s\<lparr>rng := snd (DataLoader_iter (draw fw) trainloader (rng s))\<rparr>)
                      = Inr (r, sT) \<and>
                    model s' = model sT \<and> parameters (model s') = parameters (model sT) \<and>
                    grads s' = grads sT \<and> opt_state s' = opt_state sT"
    unfolding epoch14_Inr by auto
next
  fix n e s s'
  assume "epoch18 fw trainloader testloader n e s = Inr s'"
  then show "\<exists>r sT. train_batches fw (ClassifierDropout_call fw)
                       (fst (DataLoader_iter (draw fw) trainloader (rng s)))
                       (0, s\<lparr>rng := snd (DataLoader_iter (draw fw) trainloader (rng s))\<rparr>)
                      = Inr (r, sT) \<and>
                    parameters (model s') = parameters (model sT) \<and>
                    grads s' = grads sT \<and> opt_state s' = opt_state sT"
    unfolding epoch18_Inr by auto
next
  fix n e and s :: "(Classifier, 'o) state"
  assume "grad_enabled s \<and> training (model s) \<and> layer_sizes (model s) = declared_sizes"
  then have I: "grad_enabled s" "training (model s)" "layer_sizes (model s) = declared_sizes"
    by simp_all
  from epoch14_total [OF assms I, of fw n e]
  show "\<exists>s'. epoch14 fw trainloader testloader n e s = Inr s'" by blast
next
  fix n e and s :: "(ClassifierDropout, 'o) state"
  assume "grad_enabled s \<and> training (model s) \<and> layer_sizes (model s) = declared_sizes"
  then have I: "grad_enabled s" "training (model s)" "layer_sizes (model s) = declared_sizes"
    by simp_all
  from epoch18_total [OF assms I, of fw n e]
  show "\<exists>s'. epoch18 fw trainloader testloader n e s = Inr s'" by blast
qed

theorem validation_keeps_parameters_witness:
  "(0 < batch_size one_sample_loader \<and> dataset one_sample_loader \<noteq> [] \<and>
    list_all fashion_sample (dataset one_sample_loader)) \<and>
   (\<exists>s' r sT.
      epoch14 inert_framework one_sample_loader one_sample_loader 30 0
        \<lparr>model = fst (Classifier_init (\<lambda>k i. 0) 0), grads = None, opt_state = (),
         lr = 3 / 1000, grad_enabled = True, rng = 8, calls = [], train_losses = [],
         test_losses = []\<rparr> = Inr s' \<and>
      train_batches inert_framework Classifier_call
        (fst (DataLoader_iter (\<lambda>k i. 0) one_sample_loader 8))
        (0, \<lparr>model = fst (Classifier_init (\<lambda>k i. 0) 0), grads = None, opt_state = (),
         lr = 3 / 1000, grad_enabled = True, rng = 9, calls = [], train_losses = [],
         test_losses = []\<rparr>) = Inr (r, sT) \<and>
      model s' = model sT \<and> grads s' = grads sT)"
proof -
  have h: "0 < batch_size one_sample_loader" "dataset one_sample_loader \<noteq> []"
    "list_all fashion_sample (dataset one_sample_loader)"
    by (rule one_sample_loader_ok)+
  let ?s = "\<lparr>model = fst (Classifier_init (\<lambda>k i. 0) 0), grads = None, opt_state = (),
         lr = 3 / 1000, grad_enabled = True, rng = 8, calls = [], train_losses = [],
         test_losses = []\<rparr> :: (Classifier, unit) state"
  note t = validation_keeps_parameters [OF h h, of inert_framework]
  have I: "grad_enabled ?s \<and> training (model ?s) \<and> layer_sizes (model ?s) = declared_sizes"
    by (simp add: Classifier_init_props layer_sizes_init)
  from t [THEN conjunct2, THEN conjunct2, THEN conjunct2, THEN conjunct2, THEN conjunct1,
          rule_format, OF I, of 30 0]
  obtain s' where s': "epoch14 inert_framework one_sample_loader one_sample_loader 30 0 ?s = Inr s'"
    by blast
  from t [THEN conjunct2, THEN conjunct2, THEN conjunct1, rule_format, OF s']
  obtain r sT where
    "train_batches inert_framework Classifier_call
        (fst (DataLoader_iter (draw inert_framework) one_sample_loader (rng ?s)))
        (0, ?s\<lparr>rng := snd (DataLoader_iter (draw inert_framework) one_sample_loader (rng ?s))\<rparr>)
      = Inr (r, sT)"
    "model s' = model sT" "grads s' = grads sT"
    by blast
  then have "train_batches inert_framework Classifier_call
        (fst (DataLoader_iter (\<lambda>k i. 0) one_sample_loader 8))
        (0, \<lparr>model = fst (Classifier_init (\<lambda>k i. 0) 0), grads = None, opt_state = (),
         lr = 3 / 1000, grad_enabled = True, rng = 9, calls = [], train_losses = [],
         test_losses = []\<rparr>) = Inr (r, sT)"
    "model s' = model sT" "grads s' = grads sT"
    by (simp_all add: DataLoader_iter_snd)
  with s' h show ?thesis by blast
qed

lemma train_events_no_print:
  "Print p q x y z \<notin> set (train_events mode gm T)"
  by (induction T) simp_all

lemma validate_events_no_print:
  "Print p q x y z \<notin> set (validate_events mode gm V)"
  "Print p q x y z \<notin> set (validate_events_eval gm V)"
  by (induction V) simp_all

lemma epoch_events_no_storage:
  "Save \<notin> set (epoch14_events e n a b T V)" "Load \<notin> set (epoch14_events e n a b T V)"
  "Save \<notin> set (epoch18_events e n a b T V)" "Load \<notin> set (epoch18_events e n a b T V)"
  by (simp_all add: epoch_events_calls train_events_no_scope validate_events_no_update
        validate_events_eval_no_update)

lemma concat_epochs_no_storage:
  "Save \<notin> set (concat (map2 (\<lambda>e (T, V). epoch14_events e n a b T V) es runs))"
  "Load \<notin> set (concat (map2 (\<lambda>e (T, V). epoch14_events e n a b T V) es runs))"
  "Save \<notin> set (concat (map2 (\<lambda>e (T, V). epoch18_events e n a b T V) es runs))"
  "Load \<notin> set (concat (map2 (\<lambda>e (T, V). epoch18_events e n a b T V) es runs))"
  by (auto simp: epoch_events_no_storage)

lemma run_lengths:
  assumes "list_all2 P bs T" "map f vs = map Inr V"
  shows "length T = length bs" "length V = length vs"
  using assms(1) list_all2_lengthD apply fastforce
  using assms(2) by (metis length_map)

text \<open>
  Claim C7. On non-empty datasets of Fashion-MNIST samples the notebook runs to its end.
  Each of the 30 epochs of cell 14 and of cell 18 ends with its one printed line: the epoch
  number, 30, and three metrics, the sum of the values \<open>loss.item()\<close> of the training
  passes divided by \<open>len(trainloader)\<close>, and the sums of the losses and of the accuracies
  of the validated batches divided by \<open>len(testloader)\<close>; the training passes are as many
  as the training loader has batches, and the validated batches as many as the test loader
  has. After the last epoch, cell 20 puts the model in evaluation mode, runs it under
  \<open>no_grad\<close> on one image of the test set viewed as \<open>(1, 784)\<close>, and hands the image, viewed
  as \<open>(1, 28, 28)\<close>, and the exponential of the output, ten probabilities that add up to
  1, to the helper's \<open>view_classify\<close>.
\<close>

theorem epoch_metrics_and_plot:
  fixes fw :: "'o framework"
  assumes "trainset \<noteq> []" "list_all fashion_sample trainset"
      and "testset \<noteq> []" "list_all fashion_sample testset"
  shows "(\<exists>s14 s20 runs14 runs18 x0 x1 outp k1 k2.
     notebook fw trainset testset k = Inr (s14, s20) \<and>
     length runs14 = 30 \<and> length runs18 = 30 \<and>
     calls s20 =
       concat (map2 (\<lambda>e (T, V). epoch14_events e 30
                 (DataLoader_len (fst (cell1 trainset testset)))
                 (DataLoader_len (snd (cell1 trainset testset))) T V) [0..<30] runs14)
       @ concat (map2 (\<lambda>e (T, V). epoch18_events e 30
                 (DataLoader_len (fst (cell1 trainset testset)))
                 (DataLoader_len (snd (cell1 trainset testset))) T V) [0..<30] runs18)
       @ [Eval, No_grad_enter, Forward (x0\<lparr>shape := [1, 784]\<rparr>) False False, No_grad_exit,
          View_classify (x0\<lparr>shape := [1, 28, 28]\<rparr>)
            (outp\<lparr>data := map exp (data outp)\<rparr>) ''Fashion''] \<and>
     list_all (\<lambda>(T, V).
        length T = DataLoader_len (fst (cell1 trainset testset)) \<and>
        length V = DataLoader_len (snd (cell1 trainset testset)) \<and>
        (\<exists>k. list_all2 (train_pass Classifier_call)
                (fst (DataLoader_iter (draw fw) (fst (cell1 trainset testset)) k)) T) \<and>
        (\<exists>m k k'.
           map (validate_run Classifier_call False m k)
               (fst (DataLoader_iter (draw fw) (snd (cell1 trainset testset)) k')) = map Inr V)) runs14 \<and>
     list_all (\<lambda>(T, V).
        length T = DataLoader_len (fst (cell1 trainset testset)) \<and>
        length V = DataLoader_len (snd (cell1 trainset testset)) \<and>
        (\<exists>k. list_all2 (train_pass (ClassifierDropout_call fw))
                (fst (DataLoader_iter (draw fw) (fst (cell1 trainset testset)) k)) T) \<and>
        (\<exists>m k k'. \<not> training m \<and>
           map (validate_run (ClassifierDropout_call fw) False m k)
               (fst (DataLoader_iter (draw fw) (snd (cell1 trainset testset)) k')) = map Inr V)) runs18 \<and>
     x1 \<in> fst ` set testset \<and> data x0 = data x1 \<and> shape x0 = [1, 28, 28] \<and>
     ClassifierDropout_call fw False (model s20) k1 (x0\<lparr>shape := [1, 784]\<rparr>) = Inr (outp, k2) \<and>
     \<not> training (model s20) \<and> shape outp = [1, 10] \<and>
     (\<Sum>j\<leftarrow>[0..<10]. exp (data outp ! j)) = 1)
   \<and> (\<forall>e n a b T V.
         epoch14_events e n a b T V =
           train_events True True T @ [No_grad_enter] @ validate_events True False V
           @ [No_grad_exit,
              Print (e + 1) n (sum_list (map b_value T) / real a)
                (sum_list (map b_value V) / real b) (sum_list (map b_accuracy V) / real b)] \<and>
         epoch18_events e n a b T V =
           train_events True True T @ [No_grad_enter, Eval] @ validate_events_eval False V
           @ [No_grad_exit, Train,
              Print (e + 1) n (sum_list (map b_value T) / real a)
                (sum_list (map b_value V) / real b) (sum_list (map b_accuracy V) / real b)] \<and>
         (\<forall>p q x y z. Print p q x y z \<notin> set (train_events True True T) \<and>
                      Print p q x y z \<notin> set (validate_events True False V) \<and>
                      Print p q x y z \<notin> set (validate_events_eval False V)))
   \<and> (\<forall>rnd k. length (fst (DataLoader_iter rnd (fst (cell1 trainset testset)) k))
                  = DataLoader_len (fst (cell1 trainset testset)) \<and>
               length (fst (DataLoader_iter rnd (snd (cell1 trainset testset)) k))
                  = DataLoader_len (snd (cell1 trainset testset)))
   \<and> DataLoader_len (fst (cell1 trainset testset)) = (length trainset + 63) div 64
   \<and> DataLoader_len (snd (cell1 trainset testset)) = (length testset + 63) div 64"
proof (intro conjI allI)
  let ?tl = "fst (cell1 trainset testset)" and ?vl = "snd (cell1 trainset testset)"
  from notebook_total [OF assms, of fw k]
  obtain s14 s20 runs14 runs18 x0 x1 outp k1 k2 where nb:
    "notebook fw trainset testset k = Inr (s14, s20)"
    "length runs14 = 30" "length runs18 = 30"
    "calls s20 =
       concat (map2 (\<lambda>e (T, V). epoch14_events e 30 (DataLoader_len ?tl) (DataLoader_len ?vl) T V)
                 [0..<30] runs14)
       @ concat (map2 (\<lambda>e (T, V). epoch18_events e 30 (DataLoader_len ?tl) (DataLoader_len ?vl) T V)
                 [0..<30] runs18)
       @ [Eval, No_grad_enter, Forward (x0\<lparr>shape := [1, 784]\<rparr>) False False, No_grad_exit,
          View_classify (x0\<lparr>shape := [1, 28, 28]\<rparr>)
            (outp\<lparr>data := map exp (data outp)\<rparr>) ''Fashion'']"
    "list_all (\<lambda>(T, V).
        (\<exists>k. list_all2 (train_pass Classifier_call) (fst (DataLoader_iter (draw fw) ?tl k)) T) \<and>
        (\<exists>m k k'. layer_sizes m = declared_sizes \<and>
           map (validate_run Classifier_call False m k)
               (fst (DataLoader_iter (draw fw) ?vl k')) = map Inr V)) runs14"
    "list_all (\<lambda>(T, V).
        (\<exists>k. list_all2 (train_pass (ClassifierDropout_call fw))
                (fst (DataLoader_iter (draw fw) ?tl k)) T) \<and>
        (\<exists>m k k'. layer_sizes m = declared_sizes \<and> \<not> training m \<and>
           map (validate_run (ClassifierDropout_call fw) False m k)
               (fst (DataLoader_iter (draw fw) ?vl k')) = map Inr V)) runs18"
    "x1 \<in> fst ` set testset" "data x0 = data x1" "shape x0 = [1, 28, 28]"
    "ClassifierDropout_call fw False (model s20) k1 (x0\<lparr>shape := [1, 784]\<rparr>) = Inr (outp, k2)"
    "\<not> training (model s20)" "shape outp = [1, 10]"
    "(\<Sum>j\<leftarrow>[0..<10]. exp (data outp ! j)) = 1"
    by blast
  have l14: "list_all (\<lambda>(T, V).
        length T = DataLoader_len ?tl \<and> length V = DataLoader_len ?vl \<and>
        (\<exists>k. list_all2 (train_pass Classifier_call) (fst (DataLoader_iter (draw fw) ?tl k)) T) \<and>
        (\<exists>m k k'.
           map (validate_run Classifier_call False m k)
               (fst (DataLoader_iter (draw fw) ?vl k')) = map Inr V)) runs14"
    unfolding list_all_iff
  proof (intro ballI)
    fix x assume x: "x \<in> set runs14"
    obtain T V where tv: "x = (T, V)" by (cases x)
    from nb(5) x tv obtain kt m kv kv' where
      a: "list_all2 (train_pass Classifier_call) (fst (DataLoader_iter (draw fw) ?tl kt)) T"
      and b: "map (validate_run Classifier_call False m kv)
               (fst (DataLoader_iter (draw fw) ?vl kv')) = map Inr V"
      by (auto simp: list_all_iff)
    have "length T = DataLoader_len ?tl" "length V = DataLoader_len ?vl"
      using run_lengths [OF a b] by (simp_all add: DataLoader_iter_length)
    then show "case x of (T, V) \<Rightarrow>
        length T = DataLoader_len ?tl \<and> length V = DataLoader_len ?vl \<and>
        (\<exists>k. list_all2 (train_pass Classifier_call) (fst (DataLoader_iter (draw fw) ?tl k)) T) \<and>
        (\<exists>m k k'.
           map (validate_run Classifier_call False m k)
               (fst (DataLoader_iter (draw fw) ?vl k')) = map Inr V)"
      unfolding tv using a b by auto
  qed
  have l18: "list_all (\<lambda>(T, V).
        length T = DataLoader_len ?tl \<and> length V = DataLoader_len ?vl \<and>
        (\<exists>k. list_all2 (train_pass (ClassifierDropout_call fw))
                (fst (DataLoader_iter (draw fw) ?tl k)) T) \<and>
        (\<exists>m k k'. \<not> training m \<and>
           map (validate_run (ClassifierDropout_call fw) False m k)
               (fst (DataLoader_iter (draw fw) ?vl k')) = map Inr V)) runs18"
    unfolding list_all_iff
  proof (intro ballI)
    fix x assume x: "x \<in> set runs18"
    obtain T V where tv: "x = (T, V)" by (cases x)
    from nb(6) x tv obtain kt m kv kv' where
      a: "list_all2 (train_pass (ClassifierDropout_call fw)) (fst (DataLoader_iter (draw fw) ?tl kt)) T"
      and b: "\<not> training m" "map (validate_run (ClassifierDropout_call fw) False m kv)
               (fst (DataLoader_iter (draw fw) ?vl kv')) = map Inr V"
      by (auto simp: list_all_iff)
    have "length T = DataLoader_len ?tl" "length V = DataLoader_len ?vl"
      using run_lengths [OF a b(2)] by (simp_all add: DataLoader_iter_length)
    then show "case x of (T, V) \<Rightarrow>
        length T = DataLoader_len ?tl \<and> length V = DataLoader_len ?vl \<and>
        (\<exists>k. list_all2 (train_pass (ClassifierDropout_call fw))
                (fst (DataLoader_iter (draw fw) ?tl k)) T) \<and>
        (\<exists>m k k'. \<not> training m \<and>
           map (validate_run (ClassifierDropout_call fw) False m k)
               (fst (DataLoader_iter (draw fw) ?vl k')) = map Inr V)"
      unfolding tv using a b by auto
  qed
  show "\<exists>s14 s20 runs14 runs18 x0 x1 outp k1 k2.
     notebook fw trainset testset k = Inr (s14, s20) \<and>
     length runs14 = 30 \<and> length runs18 = 30 \<and>
     calls s20 =
       concat (map2 (\<lambda>e (T, V). epoch14_events e 30 (DataLoader_len ?tl) (DataLoader_len ?vl) T V)
                 [0..<30] runs14)
       @ concat (map2 (\<lambda>e (T, V). epoch18_events e 30 (DataLoader_len ?tl) (DataLoader_len ?vl) T V)
                 [0..<30] runs18)
       @ [Eval, No_grad_enter, Forward (x0\<lparr>shape := [1, 784]\<rparr>) False False, No_grad_exit,
          View_classify (x0\<lparr>shape := [1, 28, 28]\<rparr>)
            (outp\<lparr>data := map exp (data outp)\<rparr>) ''Fashion''] \<and>
     list_all (\<lambda>(T, V).
        length T = DataLoader_len ?tl \<and> length V = DataLoader_len ?vl \<and>
        (\<exists>k. list_all2 (train_pass Classifier_call) (fst (DataLoader_iter (draw fw) ?tl k)) T) \<and>
        (\<exists>m k k'.
           map (validate_run Classifier_call False m k)
               (fst (DataLoader_iter (draw fw) ?vl k')) = map Inr V)) runs14 \<and>
     list_all (\<lambda>(T, V).
        length T = DataLoader_len ?tl \<and> length V = DataLoader_len ?vl \<and>
        (\<exists>k. list_all2 (train_pass (ClassifierDropout_call fw))
                (fst (DataLoader_iter (draw fw) ?tl k)) T) \<and>
        (\<exists>m k k'. \<not> training m \<and>
           map (validate_run (ClassifierDropout_call fw) False m k)
               (fst (DataLoader_iter (draw fw) ?vl k')) = map Inr V)) runs18 \<and>
     x1 \<in> fst ` set testset \<and> data x0 = data x1 \<and> shape x0 = [1, 28, 28] \<and>
     ClassifierDropout_call fw False (model s20) k1 (x0\<lparr>shape := [1, 784]\<rparr>) = Inr (outp, k2) \<and>
     \<not> training (model s20) \<and> shape outp = [1, 10] \<and>
     (\<Sum>j\<leftarrow>[0..<10]. exp (data outp ! j)) = 1"
    apply (rule exI [of _ s14], rule exI [of _ s20], rule exI [of _ runs14], rule exI [of _ runs18])
    apply (rule exI [of _ x0], rule exI [of _ x1], rule exI [of _ outp])
    apply (rule exI [of _ k1], rule exI [of _ k2])
    using nb(1-4) l14 l18 nb(7-13) by blast
next
  fix e n a b and T :: "batch_run list" and V :: "val_run list"
  show "epoch14_events e n a b T V =
           train_events True True T @ [No_grad_enter] @ validate_events True False V
           @ [No_grad_exit,
              Print (e + 1) n (sum_list (map b_value T) / real a)
                (sum_list (map b_value V) / real b) (sum_list (map b_accuracy V) / real b)]"
    by (rule epoch_events_calls)
  show "epoch18_events e n a b T V =
           train_events True True T @ [No_grad_enter, Eval] @ validate_events_eval False V
           @ [No_grad_exit, Train,
              Print (e + 1) n (sum_list (map b_value T) / real a)
                (sum_list (map b_value V) / real b) (sum_list (map b_accuracy V) / real b)]"
    by (rule epoch_events_calls)
  fix p q x y z
  show "Print p q x y z \<notin> set (train_events True True T)"
    "Print p q x y z \<notin> set (validate_events True False V)"
    "Print p q x y z \<notin> set (validate_events_eval False V)"
    by (rule train_events_no_print validate_events_no_print)+
next
  fix rnd k
  show "length (fst (DataLoader_iter rnd (fst (cell1 trainset testset)) k))
                  = DataLoader_len (fst (cell1 trainset testset))"
    "length (fst (DataLoader_iter rnd (snd (cell1 trainset testset)) k))
                  = DataLoader_len (snd (cell1 trainset testset))"
    by (rule DataLoader_iter_length)+
next
  show "DataLoader_len (fst (cell1 trainset testset)) = (length trainset + 63) div 64"
    "DataLoader_len (snd (cell1 trainset testset)) = (length testset + 63) div 64"
    by (simp_all add: cell1_def DataLoader_len_def)
qed

theorem epoch_metrics_and_plot_witness:
  "([(blank_image, 0)] \<noteq> [] \<and> list_all fashion_sample [(blank_image, 0)]) \<and>
   (\<exists>s14 s20. notebook inert_framework [(blank_image, 0)] [(blank_image, 0)] 0 = Inr (s14, s20) \<and>
      \<not> training (model s20)) \<and>
   DataLoader_len (fst (cell1 [(blank_image, 0)] [(blank_image, 0)])) = 1"
proof -
  have h: "[(blank_image, 0::int)] \<noteq> []" "list_all fashion_sample [(blank_image, 0)]"
    by (simp_all add: fashion_sample_def wf_tensor_def numel_def)
  note t = epoch_metrics_and_plot [OF h h, of inert_framework 0]
  from t [THEN conjunct1] obtain s14 s20 where
    "notebook inert_framework [(blank_image, 0)] [(blank_image, 0)] 0 = Inr (s14, s20)"
    "\<not> training (model s20)"
    by blast
  moreover from t have "DataLoader_len (fst (cell1 [(blank_image, 0)] [(blank_image, 0)]))
      = (length [(blank_image, 0::int)] + 63) div 64"
    by blast
  ultimately show ?thesis using h by auto
qed

lemma parameters_write [simp]: "parameters (write_parameters v m) = v"
  by (cases v) (auto simp: parameters_def write_parameters_def write_Linear_def)

lemma parameters_init:
  "parameters (fst (Classifier_init rnd k0)) =
     (((\<lambda>r c. rnd k0 (r * 784 + c)), rnd (k0 + 1)),
      ((\<lambda>r c. rnd (k0 + 2) (r * 256 + c)), rnd (k0 + 3)),
      ((\<lambda>r c. rnd (k0 + 4) (r * 128 + c)), rnd (k0 + 5)),
      ((\<lambda>r c. rnd (k0 + 6) (r * 64 + c)), rnd (k0 + 7)))"
  "parameters (fst (ClassifierDropout_init rnd k0)) =
     (((\<lambda>r c. rnd k0 (r * 784 + c)), rnd (k0 + 1)),
      ((\<lambda>r c. rnd (k0 + 2) (r * 256 + c)), rnd (k0 + 3)),
      ((\<lambda>r c. rnd (k0 + 4) (r * 128 + c)), rnd (k0 + 5)),
      ((\<lambda>r c. rnd (k0 + 6) (r * 64 + c)), rnd (k0 + 7)))"
  by (simp_all add: parameters_def Classifier_init_def ClassifierDropout_init_def nn_Linear_def
        numeral_eq_Suc)

lemma parameters_step:
  "parameters (model (optimizer_step fw s)) =
     (case grads s of None \<Rightarrow> parameters (model s)
      | Some g \<Rightarrow> fst (adam fw (lr s) (opt_state s) (parameters (model s)) g))"
  by (simp add: optimizer_step_def split: option.splits prod.splits)

lemma train_step_parameters:
  assumes "train_step fw fwd b s = Inr (v, s')"
  shows "\<exists>g. parameters (model s') = fst (adam fw (lr s) (opt_state s) (parameters (model s)) g)"
proof -
  have "parameters (model s') \<in> range (\<lambda>g. fst (adam fw (lr s) (opt_state s) (parameters (model s)) g))"
    using assms
    by (auto simp: train_step_def ebind_Inr_iff Let_def model_call_Inr criterion_Inr
        loss_backward_Inr parameters_step simp del: split_paired_Ex split_paired_All)
  then show ?thesis by (rule rangeE) (rule exI)
qed

text \<open>
  Claim C8. The parameters of a new classifier are draws of the generator. Of the calls of
  the script on the model, the criterion, the optimizer and the grad mode, only
  \<open>optimizer.step()\<close> changes the parameters: it writes what Adam computes from them and
  their gradients, so a pass of the training loop's body leaves the parameters at such a
  value, while zeroing the gradients, switching the mode, the forward pass, the criterion,
  \<open>backward\<close>, a \<open>no_grad\<close> block around a body and the validation loops leave them as they
  are. On non-empty datasets of Fashion-MNIST samples the notebook runs to its end, and
  none of its calls saves parameters or loads them.
\<close>

theorem parameter_lifecycle:
  fixes fw :: "'o framework"
  assumes "trainset \<noteq> []" "list_all fashion_sample trainset"
      and "testset \<noteq> []" "list_all fashion_sample testset"
  shows "(\<forall>rnd k0.
            parameters (fst (Classifier_init rnd k0)) =
              (((\<lambda>r c. rnd k0 (r * 784 + c)), rnd (k0 + 1)),
               ((\<lambda>r c. rnd (k0 + 2) (r * 256 + c)), rnd (k0 + 3)),
               ((\<lambda>r c. rnd (k0 + 4) (r * 128 + c)), rnd (k0 + 5)),
               ((\<lambda>r c. rnd (k0 + 6) (r * 64 + c)), rnd (k0 + 7))) \<and>
            parameters (fst (ClassifierDropout_init rnd k0)) =
              (((\<lambda>r c. rnd k0 (r * 784 + c)), rnd (k0 + 1)),
               ((\<lambda>r c. rnd (k0 + 2) (r * 256 + c)), rnd (k0 + 3)),
               ((\<lambda>r c. rnd (k0 + 4) (r * 128 + c)), rnd (k0 + 5)),
               ((\<lambda>r c. rnd (k0 + 6) (r * 64 + c)), rnd (k0 + 7))))
       \<and> (\<forall>s :: ('a Classifier_scheme, 'o) state.
            parameters (model (optimizer_step fw s)) =
              (case grads s of None \<Rightarrow> parameters (model s)
               | Some g \<Rightarrow> fst (adam fw (lr s) (opt_state s) (parameters (model s)) g)) \<and>
            parameters (model (optimizer_zero_grad s)) = parameters (model s) \<and>
            parameters (model (model_eval s)) = parameters (model s) \<and>
            parameters (model (model_train s)) = parameters (model s))
       \<and> (\<forall>(fwd :: ('a Classifier_scheme) forward_fn) x (s :: ('a Classifier_scheme, 'o) state) y s'.
            model_call fwd x s = Inr (y, s') \<longrightarrow> model s' = model s)
       \<and> (\<forall>lp lb (s :: ('a Classifier_scheme, 'o) state) l s'.
            criterion lp lb s = Inr (l, s') \<longrightarrow> model s' = model s)
       \<and> (\<forall>l g (s :: ('a Classifier_scheme, 'o) state) s'.
            loss_backward fw l g s = Inr s' \<longrightarrow> model s' = model s)
       \<and> (\<forall>(body :: ('a Classifier_scheme, 'o) state
                       \<Rightarrow> error + 'r \<times> ('a Classifier_scheme, 'o) state) s r s'.
            with_no_grad body s = Inr (r, s') \<longrightarrow>
            (\<exists>s1. body (s\<lparr>grad_enabled := False, calls := calls s @ [No_grad_enter]\<rparr>) = Inr (r, s1)
                  \<and> model s' = model s1))
       \<and> (\<forall>(fwd :: ('a Classifier_scheme) forward_fn) b (s :: ('a Classifier_scheme, 'o) state) v s'.
            train_step fw fwd b s = Inr (v, s') \<longrightarrow>
            (\<exists>g. parameters (model s') = fst (adam fw (lr s) (opt_state s) (parameters (model s)) g)))
       \<and> (\<forall>(fwd :: ('a Classifier_scheme) forward_fn) bs acc (s :: ('a Classifier_scheme, 'o) state)
            res s'.
            (validate_batches fwd bs (acc, s) = Inr (res, s') \<longrightarrow>
               parameters (model s') = parameters (model s)) \<and>
            (validate_batches_eval fwd bs (acc, s) = Inr (res, s') \<longrightarrow>
               parameters (model s') = parameters (model s)))
       \<and> (\<exists>s14 s20. notebook fw trainset testset k = Inr (s14, s20) \<and>
             Save \<notin> set (calls s20) \<and> Load \<notin> set (calls s20))"
proof (intro conjI allI impI)
  fix rnd k0
  show "parameters (fst (Classifier_init rnd k0)) =
              (((\<lambda>r c. rnd k0 (r * 784 + c)), rnd (k0 + 1)),
               ((\<lambda>r c. rnd (k0 + 2) (r * 256 + c)), rnd (k0 + 3)),
               ((\<lambda>r c. rnd (k0 + 4) (r * 128 + c)), rnd (k0 + 5)),
               ((\<lambda>r c. rnd (k0 + 6) (r * 64 + c)), rnd (k0 + 7)))"
    "parameters (fst (ClassifierDropout_init rnd k0)) =
              (((\<lambda>r c. rnd k0 (r * 784 + c)), rnd (k0 + 1)),
               ((\<lambda>r c. rnd (k0 + 2) (r * 256 + c)), rnd (k0 + 3)),
               ((\<lambda>r c. rnd (k0 + 4) (r * 128 + c)), rnd (k0 + 5)),
               ((\<lambda>r c. rnd (k0 + 6) (r * 64 + c)), rnd (k0 + 7)))"
    by (rule parameters_init)+
next
  fix s :: "('a Classifier_scheme, 'o) state"
  show "parameters (model (optimizer_step fw s)) =
              (case grads s of None \<Rightarrow> parameters (model s)
               | Some g \<Rightarrow> fst (adam fw (lr s) (opt_state s) (parameters (model s)) g))"
    by (rule parameters_step)
  show "parameters (model (optimizer_zero_grad s)) = parameters (model s)" by simp
  show "parameters (model (model_eval s)) = parameters (model s)"
    by (simp add: model_eval_def)
  show "parameters (model (model_train s)) = parameters (model s)"
    by (simp add: model_train_def)
next
  fix fwd :: "('a Classifier_scheme) forward_fn" and x and s :: "('a Classifier_scheme, 'o) state"
    and y s'
  assume "model_call fwd x s = Inr (y, s')"
  then show "model s' = model s" by (auto simp: model_call_Inr)
next
  fix lp lb and s :: "('a Classifier_scheme, 'o) state" and l s'
  assume "criterion lp lb s = Inr (l, s')"
  then show "model s' = model s" by (auto simp: criterion_Inr)
next
  fix l g and s :: "('a Classifier_scheme, 'o) state" and s'
  assume "loss_backward fw l g s = Inr s'"
  then show "model s' = model s" by (cases g) (auto simp: loss_backward_Inr)
next
  fix body :: "('a Classifier_scheme, 'o) state \<Rightarrow> error + 'r \<times> ('a Classifier_scheme, 'o) state"
    and s r s'
  assume "with_no_grad body s = Inr (r, s')"
  then show "\<exists>s1. body (s\<lparr>grad_enabled := False, calls := calls s @ [No_grad_enter]\<rparr>) = Inr (r, s1)
                  \<and> model s' = model s1"
    by (auto simp: with_no_grad_Inr)
next
  fix fwd :: "('a Classifier_scheme) forward_fn" and b and s :: "('a Classifier_scheme, 'o) state"
    and v s'
  assume "train_step fw fwd b s = Inr (v, s')"
  then show "\<exists>g. parameters (model s') = fst (adam fw (lr s) (opt_state s) (parameters (model s)) g)"
    by (rule train_step_parameters)
next
  fix fwd :: "('a Classifier_scheme) forward_fn" and bs acc
    and s :: "('a Classifier_scheme, 'o) state" and res s'
  assume "validate_batches fwd bs (acc, s) = Inr (res, s')"
  from validate_batches_frame [OF this] show "parameters (model s') = parameters (model s)" by simp
next
  fix fwd :: "('a Classifier_scheme) forward_fn" and bs acc
    and s :: "('a Classifier_scheme, 'o) state" and res s'
  assume "validate_batches_eval fwd bs (acc, s) = Inr (res, s')"
  from validate_batches_eval_frame [OF this] show "parameters (model s') = parameters (model s)"
    by simp
next
  from notebook_total [OF assms, of fw k]
  obtain s14 s20 runs14 runs18 x0 outp where nb:
    "notebook fw trainset testset k = Inr (s14, s20)"
    "calls s20 =
       concat (map2 (\<lambda>e (T, V). epoch14_events e 30
                 (DataLoader_len (fst (cell1 trainset testset)))
                 (DataLoader_len (snd (cell1 trainset testset))) T V) [0..<30] runs14)
       @ concat (map2 (\<lambda>e (T, V). epoch18_events e 30
                 (DataLoader_len (fst (cell1 trainset testset)))
                 (DataLoader_len (snd (cell1 trainset testset))) T V) [0..<30] runs18)
       @ [Eval, No_grad_enter, Forward (x0\<lparr>shape := [1, 784]\<rparr>) False False, No_grad_exit,
          View_classify (x0\<lparr>shape := [1, 28, 28]\<rparr>)
            (outp\<lparr>data := map exp (data outp)\<rparr>) ''Fashion'']"
    by blast
  have "Save \<notin> set (calls s20)" "Load \<notin> set (calls s20)"
    unfolding nb(2) set_append using concat_epochs_no_storage by auto
  then show "\<exists>s14 s20. notebook fw trainset testset k = Inr (s14, s20) \<and>
             Save \<notin> set (calls s20) \<and> Load \<notin> set (calls s20)"
    using nb(1) by blast
qed

theorem parameter_lifecycle_witness:
  "([(blank_image, 0)] \<noteq> [] \<and> list_all fashion_sample [(blank_image, 0)]) \<and>
   (\<exists>s14 s20. notebook inert_framework [(blank_image, 0)] [(blank_image, 0)] 0 = Inr (s14, s20) \<and>
      Save \<notin> set (calls s20) \<and> Load \<notin> set (calls s20))"
proof -
  have h: "[(blank_image, 0::int)] \<noteq> []" "list_all fashion_sample [(blank_image, 0)]"
    by (simp_all add: fashion_sample_def wf_tensor_def numel_def)
  note t = parameter_lifecycle [OF h h, of inert_framework 0]
  from t have "\<exists>s14 s20. notebook inert_framework [(blank_image, 0)] [(blank_image, 0)] 0
        = Inr (s14, s20) \<and> Save \<notin> set (calls s20) \<and> Load \<notin> set (calls s20)"
    by blast
  then show ?thesis using h by blast
qed

lemma zero_Linear_forward:
  assumes "dtype x = FloatTensor" "shape x = [n, i]" "in_features l = i" "out_features l = m"
      and "weight l = (\<lambda>r c. 0)"
  shows "Linear_forward g l x =
     Inr \<lparr>dtype = FloatTensor, shape = [n, m], data = map (\<lambda>f. bias l (f mod m)) [0..<n * m],
          requires_grad = g\<rparr>"
  using assms by (simp add: Linear_forward_def Let_def)

lemma row_index_bound:
  fixes f :: nat
  assumes "f < n * 10" "j < 10"
  shows "f div 10 * 10 + j < n * 10"
  using assms by presburger

lemma class0_forward:
  assumes "dtype x = FloatTensor" "shape x = n # rest" "0 < n" "prod_list rest = 784"
  shows "\<exists>L. Classifier_forward g class0_Classifier x =
     Inr \<lparr>dtype = FloatTensor, shape = [n, 10],
          data = map (\<lambda>f. (if f mod 10 = 0 then 1 else 0) - L) [0..<n * 10],
          requires_grad = g\<rparr>"
proof -
  let ?b = "\<lambda>i::nat. if i = 0 then 1 else (0::real)"
  let ?h = "\<lambda>m. \<lparr>dtype = FloatTensor, shape = [n, m], data = map (\<lambda>f::nat. 0::real) [0..<n * m],
                   requires_grad = g\<rparr>"
  let ?h4 = "\<lparr>dtype = FloatTensor, shape = [n, 10], data = map (\<lambda>f. ?b (f mod 10)) [0..<n * 10],
               requires_grad = g\<rparr>"
  let ?L = "ln (\<Sum>j\<leftarrow>[0..<10]. exp (?b j))"
  have relu: "\<And>m. F_relu (?h m) = ?h m" by (simp add: F_relu_def)
  have f0: "flatten_input x = Inr (x\<lparr>shape := [n, 784]\<rparr>)"
    using flatten_input_ok [OF assms(2,3)] assms(4) by simp
  have l1: "Linear_forward g (fc1 class0_Classifier) (x\<lparr>shape := [n, 784]\<rparr>) = Inr (?h 256)"
    by (subst zero_Linear_forward [where n = n and i = 784 and m = 256])
       (simp_all add: class0_Classifier_def assms)
  have l2: "Linear_forward g (fc2 class0_Classifier) (?h 256) = Inr (?h 128)"
    by (subst zero_Linear_forward [where n = n and i = 256 and m = 128])
       (simp_all add: class0_Classifier_def)
  have l3: "Linear_forward g (fc3 class0_Classifier) (?h 128) = Inr (?h 64)"
    by (subst zero_Linear_forward [where n = n and i = 128 and m = 64])
       (simp_all add: class0_Classifier_def)
  have l4: "Linear_forward g (fc4 class0_Classifier) (?h 64) = Inr ?h4"
    by (subst zero_Linear_forward [where n = n and i = 64 and m = 10])
       (simp_all add: class0_Classifier_def)
  have inner: "\<And>f. f < n * 10 \<Longrightarrow>
      (\<Sum>j\<leftarrow>[0..<10]. exp (data ?h4 ! (f div (10 * 1) * (10 * 1) + j * 1 + f mod 1)))
        = (\<Sum>j\<leftarrow>[0..<10]. exp (?b j))"
  proof -
    fix f assume f: "f < n * 10"
    have "map (\<lambda>j. exp (data ?h4 ! (f div (10 * 1) * (10 * 1) + j * 1 + f mod 1))) [0..<10]
          = map (\<lambda>j. exp (?b j)) [0..<10]"
    proof (rule map_cong [OF refl])
      fix j assume "j \<in> set [0..<10]"
      then have j: "j < 10" by simp
      have lt: "f div 10 * 10 + j < n * 10" by (rule row_index_bound [OF f j])
      have md: "(f div 10 * 10 + j) mod 10 = j" using j by simp
      show "exp (data ?h4 ! (f div (10 * 1) * (10 * 1) + j * 1 + f mod 1)) = exp (?b j)"
        using lt md by simp
    qed
    then show "(\<Sum>j\<leftarrow>[0..<10]. exp (data ?h4 ! (f div (10 * 1) * (10 * 1) + j * 1 + f mod 1)))
        = (\<Sum>j\<leftarrow>[0..<10]. exp (?b j))" by (rule arg_cong [where f = sum_list])
  qed
  have ls: "F_log_softmax ?h4 1 =
     Inr \<lparr>dtype = FloatTensor, shape = [n, 10],
          data = map (\<lambda>f. (if f mod 10 = 0 then 1 else 0) - ?L) [0..<n * 10],
          requires_grad = g\<rparr>"
    unfolding F_log_softmax_def Let_def
    apply simp
    apply (intro ballI)
    subgoal for f using inner [of f] by simp
    done
  have "Classifier_forward g class0_Classifier x =
     Inr \<lparr>dtype = FloatTensor, shape = [n, 10],
          data = map (\<lambda>f. (if f mod 10 = 0 then 1 else 0) - ?L) [0..<n * 10],
          requires_grad = g\<rparr>"
    unfolding Classifier_forward_def using ls by (simp add: f0 l1 relu l2 l3 l4 Let_def)
  then show ?thesis by blast
qed

lemma class0_argmax:
  assumes "i < n"
  shows "row_argmax (map exp (map (\<lambda>f. (if f mod 10 = 0 then 1 else 0) - L) [0..<n * 10])) 10 i = 0"
proof -
  let ?xs = "map exp (map (\<lambda>f. (if f mod 10 = 0 then 1 else 0) - L) [0..<n * 10])"
  let ?a = "row_argmax ?xs 10 i"
  have a: "?a < 10" by (rule row_argmax_props(1)) simp
  have le: "?xs ! (i * 10 + 0) \<le> ?xs ! (i * 10 + ?a)"
    by (rule row_argmax_props(2)) simp_all
  have lt0: "i * 10 + 0 < n * 10" using assms by simp
  have lta: "i * 10 + ?a < n * 10" using assms a by simp
  have ma: "(i * 10 + ?a) mod 10 = ?a" using a by simp
  have "exp (1 - L) \<le> exp ((if ?a = 0 then 1 else 0) - L)"
    using le lt0 lta ma by (simp del: exp_le_cancel_iff)
  then show ?thesis by (cases "?a = 0") simp_all
qed

lemma filter_nth_count:
  "length (filter (\<lambda>i. P (b ! i)) [0..<length b]) = length (filter P b)"
proof -
  have "filter P b = filter P (map ((!) b) [0..<length b])" by (simp add: map_nth)
  also have "length \<dots> = length (filter (\<lambda>i. P (b ! i)) [0..<length b])"
    by (simp add: filter_map comp_def)
  finally show ?thesis by simp
qed

lemma class0_validate_run:
  assumes b: "b \<noteq> []" "list_all fashion_sample b"
  shows "\<exists>r. validate_run Classifier_call False class0_Classifier k b = Inr r \<and>
           shape (b_labels r) = [length b] \<and>
           batch_correct (b_log_ps r) (b_labels r) = length (filter (\<lambda>s. snd s = 0) b) \<and>
           b_accuracy r = real (length (filter (\<lambda>s. snd s = 0) b)) / real (length b)"
proof -
  have sz: "layer_sizes class0_Classifier = declared_sizes"
    by (simp add: layer_sizes_def class0_Classifier_def)
  have "\<exists>r. validate_run Classifier_call False class0_Classifier k b = Inr r \<and>
           shape (b_images r) = [length b, 1, 28, 28] \<and>
           shape (b_log_ps r) = [length b, 10] \<and> dtype (b_log_ps r) = FloatTensor \<and>
           shape (b_labels r) = [length b] \<and>
           b_accuracy r = real (batch_correct (b_log_ps r) (b_labels r)) / real (length b) \<and>
           0 \<le> b_accuracy r \<and> b_accuracy r \<le> 1"
  proof (rule validate_run_ok [OF _ b])
    fix x :: tensor and n :: nat and rest :: "nat list"
    assume "dtype x = FloatTensor" "shape x = n # rest" "0 < n" "prod_list rest = 784"
    from Classifier_call_ok [OF sz this, of False k]
    show "\<exists>y k'. Classifier_call False class0_Classifier k x = Inr (y, k') \<and> shape y = [n, 10]
                  \<and> dtype y = FloatTensor \<and> requires_grad y = False" by blast
  qed
  then obtain r where r:
    "validate_run Classifier_call False class0_Classifier k b = Inr r"
    "shape (b_images r) = [length b, 1, 28, 28]"
    "shape (b_labels r) = [length b]"
    "b_accuracy r = real (batch_correct (b_log_ps r) (b_labels r)) / real (length b)"
    by blast
  from validate_run_Inr [OF r(1)] obtain k' where v:
    "collate b = Inr (b_images r, b_labels r)"
    "Classifier_call False class0_Classifier k (b_images r) = Inr (b_log_ps r, k')"
    by blast
  from collate_ok [OF b] v(1) have c: "dtype (b_images r) = FloatTensor"
    "data (b_labels r) = map (\<lambda>s. real_of_int (snd s)) b" by auto
  have n: "0 < length b" using b(1) by simp
  from class0_forward [OF c(1) r(2) n, of False] obtain L where
    "Classifier_forward False class0_Classifier (b_images r) =
       Inr \<lparr>dtype = FloatTensor, shape = [length b, 10],
            data = map (\<lambda>f. (if f mod 10 = 0 then 1 else 0) - L) [0..<length b * 10],
            requires_grad = False\<rparr>" by auto
  with v(2) have lp: "b_log_ps r = \<lparr>dtype = FloatTensor, shape = [length b, 10],
            data = map (\<lambda>f. (if f mod 10 = 0 then 1 else 0) - L) [0..<length b * 10],
            requires_grad = False\<rparr>"
    by (simp add: Classifier_call_def)
  have am: "\<And>i. i < length b \<Longrightarrow>
      row_argmax (map (exp \<circ> (\<lambda>f. (if f mod 10 = 0 then 1 else 0) - L)) [0..<length b * 10]) 10 i = 0"
    using class0_argmax [of _ "length b" L] by simp
  have "batch_correct (b_log_ps r) (b_labels r)
        = length (filter (\<lambda>i. real (0::nat) = real_of_int (snd (b ! i))) [0..<length b])"
    unfolding batch_correct_def
    apply (rule arg_cong [where f = length])
    apply (simp add: lp c(2))
    apply (rule filter_cong [OF refl])
    apply (simp add: am)
    done
  also have "\<dots> = length (filter (\<lambda>s. snd s = 0) b)"
    using filter_nth_count [of "\<lambda>s. snd s = 0" b] by simp
  finally have bc: "batch_correct (b_log_ps r) (b_labels r) = length (filter (\<lambda>s. snd s = 0) b)" .
  show ?thesis using r(1,3,4) bc by auto
qed

lemma DataLoader_iter_const_draw:
  "fst (DataLoader_iter (\<lambda>k i. 0) dl k) =
     map (\<lambda>b. take (batch_size dl) (drop (b * batch_size dl) (dataset dl))) [0..<DataLoader_len dl]"
proof -
  have "sort_key (\<lambda>i::nat. 0::real) [0..<length (dataset dl)] = [0..<length (dataset dl)]"
    by (rule sort_key_id_if_sorted) (simp add: sorted_wrt_iff_nth_less)
  then show ?thesis by (simp add: DataLoader_iter_def Let_def map_nth)
qed

lemma two_batches:
  "fst (DataLoader_iter (\<lambda>k i. 0) (snd (cell1 trainset (replicate 64 s @ [s']))) k)
     = [replicate 64 s, [s']]"
  "DataLoader_len (snd (cell1 trainset (replicate 64 s @ [s']))) = 2"
proof -
  show l: "DataLoader_len (snd (cell1 trainset (replicate 64 s @ [s']))) = 2"
    by (simp add: cell1_loaders DataLoader_len_def)
  have u: "[0..<2] = [0, Suc 0]" by (simp add: upt_rec)
  show "fst (DataLoader_iter (\<lambda>k i. 0) (snd (cell1 trainset (replicate 64 s @ [s']))) k)
     = [replicate 64 s, [s']]"
    unfolding DataLoader_iter_const_draw l u by (simp add: cell1_loaders)
qed

lemma equal_sizes_mean:
  assumes "list_all2 (\<lambda>b r. shape (b_labels r) = [length b] \<and>
              b_accuracy r = real (batch_correct (b_log_ps r) (b_labels r)) / real (length b)) bs V"
      and "\<forall>b\<in>set bs. length b = N"
  shows "sum_list (map b_accuracy V) / real (length V) = dataset_accuracy V"
proof -
  have "sum_list (map b_accuracy V)
          = real (sum_list (map (\<lambda>r. batch_correct (b_log_ps r) (b_labels r)) V)) / real N
        \<and> sum_list (map (\<lambda>r. hd (shape (b_labels r))) V) = length V * N"
    using assms by (induction rule: list_all2_induct) (simp_all add: add_divide_distrib)
  then show ?thesis by (simp add: dataset_accuracy_def)
qed

lemma validate_runs_accuracy:
  assumes m: "map (validate_run Classifier_call False m k) bs = map Inr V"
      and sz: "layer_sizes m = declared_sizes"
      and bs: "list_all (\<lambda>b. b \<noteq> [] \<and> list_all fashion_sample b) bs"
  shows "list_all2 (\<lambda>b r. collate b = Inr (b_images r, b_labels r) \<and>
            Classifier_call False m k (b_images r) = Inr (b_log_ps r, k) \<and>
            shape (b_log_ps r) = [length b, 10] \<and> shape (b_labels r) = [length b] \<and>
            batch_accuracy (b_log_ps r) (b_labels r) = Inr (b_accuracy r) \<and>
            b_accuracy r = real (batch_correct (b_log_ps r) (b_labels r)) / real (length b) \<and>
            0 \<le> b_accuracy r \<and> b_accuracy r \<le> 1) bs V"
proof (rule list_all2_all_nthI)
  show "length bs = length V" using m by (metis length_map)
next
  fix i assume i: "i < length bs"
  let ?b = "bs ! i" and ?r = "V ! i"
  have b: "?b \<noteq> []" "list_all fashion_sample ?b" using bs i by (simp_all add: list_all_length)
  have r: "validate_run Classifier_call False m k ?b = Inr ?r" by (rule map_Inr_nth(1) [OF m i])
  have "\<exists>r. validate_run Classifier_call False m k ?b = Inr r \<and>
           shape (b_images r) = [length ?b, 1, 28, 28] \<and>
           shape (b_log_ps r) = [length ?b, 10] \<and> dtype (b_log_ps r) = FloatTensor \<and>
           shape (b_labels r) = [length ?b] \<and>
           b_accuracy r = real (batch_correct (b_log_ps r) (b_labels r)) / real (length ?b) \<and>
           0 \<le> b_accuracy r \<and> b_accuracy r \<le> 1"
  proof (rule validate_run_ok [OF _ b])
    fix x :: tensor and n :: nat and rest :: "nat list"
    assume "dtype x = FloatTensor" "shape x = n # rest" "0 < n" "prod_list rest = 784"
    from Classifier_call_ok [OF sz this, of False k]
    show "\<exists>y k'. Classifier_call False m k x = Inr (y, k') \<and> shape y = [n, 10]
                  \<and> dtype y = FloatTensor \<and> requires_grad y = False" by blast
  qed
  with r have ok: "shape (b_log_ps ?r) = [length ?b, 10]" "shape (b_labels ?r) = [length ?b]"
    "b_accuracy ?r = real (batch_correct (b_log_ps ?r) (b_labels ?r)) / real (length ?b)"
    "0 \<le> b_accuracy ?r" "b_accuracy ?r \<le> 1" by auto
  from validate_run_Inr [OF r] obtain k' where v:
    "collate ?b = Inr (b_images ?r, b_labels ?r)"
    "Classifier_call False m k (b_images ?r) = Inr (b_log_ps ?r, k')"
    "batch_accuracy (b_log_ps ?r) (b_labels ?r) = Inr (b_accuracy ?r)" by blast
  have "k' = k" using v(2) by (rule Classifier_call_stable)
  with v ok show "collate ?b = Inr (b_images ?r, b_labels ?r) \<and>
            Classifier_call False m k (b_images ?r) = Inr (b_log_ps ?r, k) \<and>
            shape (b_log_ps ?r) = [length ?b, 10] \<and> shape (b_labels ?r) = [length ?b] \<and>
            batch_accuracy (b_log_ps ?r) (b_labels ?r) = Inr (b_accuracy ?r) \<and>
            b_accuracy ?r = real (batch_correct (b_log_ps ?r) (b_labels ?r)) / real (length ?b) \<and>
            0 \<le> b_accuracy ?r \<and> b_accuracy ?r \<le> 1" by simp
qed

lemma batch_accuracy_steps:
  assumes lp: "dtype lp = FloatTensor" "shape lp = [n, 10]" and lb: "shape lb = [n]"
  shows "\<exists>ps top_p top_class equals unreshaped.
     torch_exp lp = Inr ps \<and> topk ps 1 1 = Inr (top_p, top_class) \<and>
     shape top_class = [n, 1] \<and> length (data top_class) = n \<and>
     (\<forall>i<n. \<exists>c<10. data top_class ! i = real c \<and>
         (\<forall>j<10. data ps ! (i * 10 + j) \<le> data ps ! (i * 10 + c))) \<and>
     view lb (map int (shape top_class)) = Inr (lb\<lparr>shape := [n, 1]\<rparr>) \<and>
     tensor_eq top_class (lb\<lparr>shape := [n, 1]\<rparr>) = Inr equals \<and>
     batch_equals lp lb = Inr equals \<and>
     shape equals = [n, 1] \<and> length (data equals) = n \<and>
     (\<forall>i<n. data equals ! i = (if data top_class ! i = data lb ! i then 1 else 0)) \<and>
     tensor_eq top_class lb = Inr unreshaped \<and>
     shape unreshaped = [n, n] \<and> length (data unreshaped) = n * n \<and>
     (\<forall>i<n. \<forall>j<n. data unreshaped ! (i * n + j)
                      = (if data top_class ! i = data lb ! j then 1 else 0)) \<and>
     (0 < n \<longrightarrow> (\<exists>a. batch_accuracy lp lb = Inr a \<and>
                     a = real (batch_correct lp lb) / real n \<and> 0 \<le> a \<and> a \<le> 1))"
proof -
  let ?ps = "lp\<lparr>data := map exp (data lp)\<rparr>"
  let ?tp = "\<lparr>dtype = dtype ?ps, shape = [n, Suc 0],
           data = map (\<lambda>i. data ?ps ! (i * 10 + row_argmax (data ?ps) 10 i)) [0..<n],
           requires_grad = requires_grad ?ps\<rparr>"
  let ?tc = "\<lparr>dtype = LongTensor, shape = [n, Suc 0],
           data = map (\<lambda>i. real (row_argmax (data ?ps) 10 i)) [0..<n], requires_grad = False\<rparr>"
  let ?eq = "\<lparr>dtype = ByteTensor, shape = [n, Suc 0],
          data = map (\<lambda>i. if data ?tc ! i = data (lb\<lparr>shape := [n, Suc 0]\<rparr>) ! i then 1 else 0) [0..<n],
          requires_grad = False\<rparr>"
  have e: "torch_exp lp = Inr ?ps" by (rule torch_exp_ok [OF lp(1)])
  have t: "topk ?ps (Suc 0) (Suc 0) = Inr (?tp, ?tc)"
    by (rule topk_2d) (simp_all add: lp)
  have am: "\<forall>i<n. \<exists>c<10. data ?tc ! i = real c \<and>
         (\<forall>j<10. data ?ps ! (i * 10 + j) \<le> data ?ps ! (i * 10 + c))"
  proof (intro allI impI)
    fix i assume i: "i < n"
    have "row_argmax (data ?ps) 10 i < 10" by (rule row_argmax_props(1)) simp
    moreover have "data ?tc ! i = real (row_argmax (data ?ps) 10 i)" using i by simp
    moreover have "\<forall>j<10. data ?ps ! (i * 10 + j) \<le> data ?ps ! (i * 10 + row_argmax (data ?ps) 10 i)"
      using row_argmax_props(2) [of 10 _ "data ?ps" i] by simp
    ultimately show "\<exists>c<10. data ?tc ! i = real c \<and>
         (\<forall>j<10. data ?ps ! (i * 10 + j) \<le> data ?ps ! (i * 10 + c))" by blast
  qed
  have v: "view lb [int n, 1] = Inr (lb\<lparr>shape := [n, Suc 0]\<rparr>)" by (rule view_labels [OF lb])
  have q: "tensor_eq ?tc (lb\<lparr>shape := [n, Suc 0]\<rparr>) = Inr ?eq"
    by (rule tensor_eq_col) simp_all
  have be: "batch_equals lp lb = Inr ?eq"
    using batch_equals_ok [OF lp _ lb] by simp
  have sh1: "shape ?tc = [n, 1]" by simp
  from tensor_eq_col_row_shape [OF sh1 lb] obtain u where u:
    "tensor_eq ?tc lb = Inr u" "shape u = [n, n]" "length (data u) = n * n" by blast
  have ud: "\<forall>i<n. \<forall>j<n. data u ! (i * n + j) = (if data ?tc ! i = data lb ! j then 1 else 0)"
    using tensor_eq_col_row_data [OF sh1 lb u(1)] by blast
  have acc: "0 < n \<longrightarrow> (\<exists>a. batch_accuracy lp lb = Inr a \<and>
                     a = real (batch_correct lp lb) / real n \<and> 0 \<le> a \<and> a \<le> 1)"
  proof
    assume n: "0 < n"
    have a: "batch_accuracy lp lb = Inr (real (batch_correct lp lb) / real n)"
      by (rule batch_correct_acc [OF lp _ lb n]) simp
    have "batch_correct lp lb \<le> n" by (rule batch_correct_le [OF lp(2)])
    then have "0 \<le> real (batch_correct lp lb) / real n" "real (batch_correct lp lb) / real n \<le> 1"
      using n by simp_all
    with a show "\<exists>a. batch_accuracy lp lb = Inr a \<and>
                     a = real (batch_correct lp lb) / real n \<and> 0 \<le> a \<and> a \<le> 1" by blast
  qed
  show ?thesis
    apply (rule exI [of _ ?ps], rule exI [of _ ?tp], rule exI [of _ ?tc], rule exI [of _ ?eq],
           rule exI [of _ u])
    using e t am v q be u ud acc by simp
qed

lemma class0_loop:
  assumes l: "0 \<le> l" "l < 10" and a: "a = (if l = 0 then 1 else 0)"
  shows "\<exists>V t s'.
     validate_batches Classifier_call
       (fst (DataLoader_iter (\<lambda>k i. 0)
               (snd (cell1 [] (replicate 64 (blank_image, 0) @ [(blank_image, l)]))) 0))
       ((0, 0), class0_state) = Inr ((t, sum_list (map b_accuracy V)), s') \<and>
     map (validate_run Classifier_call False class0_Classifier 0)
       (fst (DataLoader_iter (\<lambda>k i. 0)
               (snd (cell1 [] (replicate 64 (blank_image, 0) @ [(blank_image, l)]))) 0)) = map Inr V \<and>
     map (\<lambda>r. shape (b_labels r)) V = [[64], [1]] \<and>
     map b_accuracy V = [1, real a] \<and>
     dataset_accuracy V = real (64 + a) / 65"
proof -
  let ?b1 = "replicate 64 (blank_image, 0::int)" and ?b2 = "[(blank_image, l)]"
  have f1: "?b1 \<noteq> []" "list_all fashion_sample ?b1"
    by (simp_all add: fashion_sample_def wf_tensor_def numel_def list_all_iff)
  have f2: "?b2 \<noteq> []" "list_all fashion_sample ?b2"
    using l by (simp_all add: fashion_sample_def wf_tensor_def numel_def)
  from class0_validate_run [OF f1, of 0] obtain r1 where r1:
    "validate_run Classifier_call False class0_Classifier 0 ?b1 = Inr r1"
    "shape (b_labels r1) = [64]" "batch_correct (b_log_ps r1) (b_labels r1) = 64"
    "b_accuracy r1 = 1" by auto
  from class0_validate_run [OF f2, of 0] obtain r2 where r2:
    "validate_run Classifier_call False class0_Classifier 0 ?b2 = Inr r2"
    "shape (b_labels r2) = [1]"
    "batch_correct (b_log_ps r2) (b_labels r2) = a"
    "b_accuracy r2 = real a" using a by auto
  let ?V = "[r1, r2]"
  have m: "map (validate_run Classifier_call False class0_Classifier 0) [?b1, ?b2] = map Inr ?V"
    using r1(1) r2(1) by simp
  have st: "\<And>x y k'. Classifier_call (grad_enabled class0_state) (model class0_state)
               (rng class0_state) x = Inr (y, k') \<Longrightarrow> k' = rng class0_state"
    by (rule Classifier_call_stable)
  have vb: "validate_batches Classifier_call [?b1, ?b2] ((0, 0), class0_state)
      = Inr ((0 + sum_list (map b_value ?V), 0 + sum_list (map b_accuracy ?V)),
             class0_state\<lparr>calls := calls class0_state
                @ validate_events (training (model class0_state)) (grad_enabled class0_state) ?V\<rparr>)"
  proof (rule validate_batches_run [where fwd = Classifier_call and s = class0_state, THEN iffD2])
    show "\<And>x y k'. Classifier_call (grad_enabled class0_state) (model class0_state)
               (rng class0_state) x = Inr (y, k') \<Longrightarrow> k' = rng class0_state"
      by (rule Classifier_call_stable)
    show "\<exists>V. map (validate_run Classifier_call (grad_enabled class0_state) (model class0_state)
               (rng class0_state)) [?b1, ?b2] = map Inr V \<and>
            (0 + sum_list (map b_value ?V), 0 + sum_list (map b_accuracy ?V))
              = (0 + sum_list (map b_value V), 0 + sum_list (map b_accuracy V)) \<and>
            class0_state\<lparr>calls := calls class0_state
                @ validate_events (training (model class0_state)) (grad_enabled class0_state) ?V\<rparr>
              = class0_state\<lparr>calls := calls class0_state
                @ validate_events (training (model class0_state)) (grad_enabled class0_state) V\<rparr>"
      by (rule exI [of _ ?V]) (use m in simp)
  qed
  have da: "dataset_accuracy ?V = real (64 + a) / 65"
    by (simp add: dataset_accuracy_def r1 r2)
  show ?thesis
    unfolding two_batches
    apply (rule exI [of _ ?V])
    apply (rule exI [of _ "0 + sum_list (map b_value ?V)"])
    apply (rule exI)
    apply (intro conjI)
        apply (use vb in simp)
       apply (rule m)
      apply (simp add: r1 r2)
     apply (simp add: r1 r2)
    apply (rule da)
    done
qed

text \<open>
  A test set of 65 blank images of class 0 gives the loader of cell 1 a batch of 64 samples
  and a batch of 1 sample. The classifier that predicts class 0 is right on every sample, so
  the validation loop sums the batch accuracies 1 and 1, and their mean over the two batches
  is the accuracy over the 65 samples, although the batches differ in size.
\<close>

theorem equal_accuracies_with_unequal_batches:
  "\<exists>V t s'.
     validate_batches Classifier_call
       (fst (DataLoader_iter (\<lambda>k i. 0)
               (snd (cell1 [] (replicate 64 (blank_image, 0) @ [(blank_image, 0)]))) 0))
       ((0, 0), class0_state) = Inr ((t, sum_list (map b_accuracy V)), s') \<and>
     map (validate_run Classifier_call False class0_Classifier 0)
       (fst (DataLoader_iter (\<lambda>k i. 0)
               (snd (cell1 [] (replicate 64 (blank_image, 0) @ [(blank_image, 0)]))) 0)) = map Inr V \<and>
     map (\<lambda>r. shape (b_labels r)) V = [[64], [1]] \<and>
     sum_list (map b_accuracy V)
       / real (DataLoader_len (snd (cell1 [] (replicate 64 (blank_image, 0) @ [(blank_image, 0)]))))
       = dataset_accuracy V"
proof -
  have "0 \<le> (0::int)" "(0::int) < 10" "(1::nat) = (if (0::int) = 0 then 1 else 0)" by simp_all
  from class0_loop [OF this] obtain V t s' where v:
    "validate_batches Classifier_call
       (fst (DataLoader_iter (\<lambda>k i. 0)
               (snd (cell1 [] (replicate 64 (blank_image, 0) @ [(blank_image, 0)]))) 0))
       ((0, 0), class0_state) = Inr ((t, sum_list (map b_accuracy V)), s')"
    "map (validate_run Classifier_call False class0_Classifier 0)
       (fst (DataLoader_iter (\<lambda>k i. 0)
               (snd (cell1 [] (replicate 64 (blank_image, 0) @ [(blank_image, 0)]))) 0)) = map Inr V"
    "map (\<lambda>r. shape (b_labels r)) V = [[64], [1]]"
    "map b_accuracy V = [1, real 1]" "dataset_accuracy V = real (64 + 1) / 65"
    by (elim exE conjE) (rule that)
  have h: "sum_list (map b_accuracy V)
       / real (DataLoader_len (snd (cell1 [] (replicate 64 (blank_image, 0) @ [(blank_image, 0)]))))
       = dataset_accuracy V"
    unfolding v(4,5) two_batches(2) by simp
  show ?thesis
    by (rule exI [of _ V], rule exI [of _ t], rule exI [of _ s'], intro conjI)
       (rule v(1) v(2) v(3) h)+
qed

lemma one_sample_batches:
  "\<forall>b\<in>set (fst (DataLoader_iter rnd one_sample_loader k)). length b = 1"
  by (simp add: DataLoader_iter_def DataLoader_len_def Let_def)

text \<open>
  Claim C9, with its last clause as the code has it. For a model output of \<open>N\<close> rows of ten
  log-probabilities and \<open>N\<close> labels, the indices of \<open>ps.topk(1, dim=1)\<close> have shape \<open>(N, 1)\<close>
  and name, for each row, a class of highest probability; \<open>equals\<close> has shape \<open>(N, 1)\<close> and
  its entry \<open>i\<close> is 1 exactly when that class is the label of row \<open>i\<close>, while the comparison
  with the labels of shape \<open>(N)\<close> has shape \<open>(N, N)\<close>; the accuracy of a non-empty batch is
  the number of its rows predicted right over \<open>N\<close> and lies between 0 and 1. On non-empty
  datasets of Fashion-MNIST samples cell 14 runs its 30 epochs, and the accuracy that an
  epoch prints is the sum of the accuracies of the test batches over their number. That
  mean is the accuracy over all test samples whenever the test batches have one size. With
  batches of different sizes the two can differ: for batches of 64 and 1 samples where only
  the 64 are predicted right the mean is \<open>1 / 2\<close> and the accuracy over the samples
  \<open>64 / 65\<close>.
\<close>

theorem test_accuracy_mean_of_batches:
  fixes fw :: "'o framework"
  assumes "0 < batch_size trainloader" "dataset trainloader \<noteq> []"
          "list_all fashion_sample (dataset trainloader)"
      and "0 < batch_size testloader" "dataset testloader \<noteq> []"
          "list_all fashion_sample (dataset testloader)"
  shows "(\<forall>lp lb n. dtype lp = FloatTensor \<and> shape lp = [n, 10] \<and> shape lb = [n] \<longrightarrow>
           (\<exists>ps top_p top_class equals unreshaped.
              torch_exp lp = Inr ps \<and> topk ps 1 1 = Inr (top_p, top_class) \<and>
              shape top_class = [n, 1] \<and> length (data top_class) = n \<and>
              (\<forall>i<n. \<exists>c<10. data top_class ! i = real c \<and>
                  (\<forall>j<10. data ps ! (i * 10 + j) \<le> data ps ! (i * 10 + c))) \<and>
              view lb (map int (shape top_class)) = Inr (lb\<lparr>shape := [n, 1]\<rparr>) \<and>
              tensor_eq top_class (lb\<lparr>shape := [n, 1]\<rparr>) = Inr equals \<and>
              batch_equals lp lb = Inr equals \<and>
              shape equals = [n, 1] \<and> length (data equals) = n \<and>
              (\<forall>i<n. data equals ! i = (if data top_class ! i = data lb ! i then 1 else 0)) \<and>
              tensor_eq top_class lb = Inr unreshaped \<and>
              shape unreshaped = [n, n] \<and> length (data unreshaped) = n * n \<and>
              (\<forall>i<n. \<forall>j<n. data unreshaped ! (i * n + j)
                               = (if data top_class ! i = data lb ! j then 1 else 0)) \<and>
              (0 < n \<longrightarrow> (\<exists>a. batch_accuracy lp lb = Inr a \<and>
                              a = real (batch_correct lp lb) / real n \<and> 0 \<le> a \<and> a \<le> 1))))
       \<and> (\<exists>s' runs. cell14 fw trainloader testloader k True evs = Inr s' \<and> length runs = 30 \<and>
             calls s' = evs @ concat (map2 (\<lambda>e (T, V). epoch14_events e 30
                 (DataLoader_len trainloader) (DataLoader_len testloader) T V) [0..<30] runs) \<and>
             list_all (\<lambda>(T, V). \<exists>m k0 k'.
                 layer_sizes m = declared_sizes \<and>
                 list_all2 (\<lambda>b r. collate b = Inr (b_images r, b_labels r) \<and>
                     Classifier_call False m k0 (b_images r) = Inr (b_log_ps r, k0) \<and>
                     shape (b_log_ps r) = [length b, 10] \<and> shape (b_labels r) = [length b] \<and>
                     batch_accuracy (b_log_ps r) (b_labels r) = Inr (b_accuracy r) \<and>
                     b_accuracy r = real (batch_correct (b_log_ps r) (b_labels r)) / real (length b) \<and>
                     0 \<le> b_accuracy r \<and> b_accuracy r \<le> 1)
                   (fst (DataLoader_iter (draw fw) testloader k')) V \<and>
                 length V = DataLoader_len testloader \<and>
                 ((\<exists>N. \<forall>b\<in>set (fst (DataLoader_iter (draw fw) testloader k')). length b = N) \<longrightarrow>
                    sum_list (map b_accuracy V) / real (DataLoader_len testloader)
                      = dataset_accuracy V)) runs)
       \<and> (\<forall>e n a b T V.
             epoch14_events e n a b T V =
               train_events True True T @ [No_grad_enter] @ validate_events True False V
               @ [No_grad_exit,
                  Print (e + 1) n (sum_list (map b_value T) / real a)
                    (sum_list (map b_value V) / real b) (sum_list (map b_accuracy V) / real b)])
       \<and> (\<exists>V t s'.
             validate_batches Classifier_call
               (fst (DataLoader_iter (\<lambda>k i. 0)
                       (snd (cell1 [] (replicate 64 (blank_image, 0) @ [(blank_image, 1)]))) 0))
               ((0, 0), class0_state) = Inr ((t, sum_list (map b_accuracy V)), s') \<and>
             map (validate_run Classifier_call False class0_Classifier 0)
               (fst (DataLoader_iter (\<lambda>k i. 0)
                       (snd (cell1 [] (replicate 64 (blank_image, 0) @ [(blank_image, 1)]))) 0))
               = map Inr V \<and>
             map (\<lambda>r. shape (b_labels r)) V = [[64], [1]] \<and>
             sum_list (map b_accuracy V)
               / real (DataLoader_len
                        (snd (cell1 [] (replicate 64 (blank_image, 0) @ [(blank_image, 1)]))))
               = 1 / 2 \<and>
             dataset_accuracy V = 64 / 65)"
proof (intro conjI allI impI)
  fix lp lb :: tensor and n :: nat
  assume "dtype lp = FloatTensor \<and> shape lp = [n, 10] \<and> shape lb = [n]"
  then have h: "dtype lp = FloatTensor" "shape lp = [n, 10]" "shape lb = [n]" by simp_all
  show "\<exists>ps top_p top_class equals unreshaped.
              torch_exp lp = Inr ps \<and> topk ps 1 1 = Inr (top_p, top_class) \<and>
              shape top_class = [n, 1] \<and> length (data top_class) = n \<and>
              (\<forall>i<n. \<exists>c<10. data top_class ! i = real c \<and>
                  (\<forall>j<10. data ps ! (i * 10 + j) \<le> data ps ! (i * 10 + c))) \<and>
              view lb (map int (shape top_class)) = Inr (lb\<lparr>shape := [n, 1]\<rparr>) \<and>
              tensor_eq top_class (lb\<lparr>shape := [n, 1]\<rparr>) = Inr equals \<and>
              batch_equals lp lb = Inr equals \<and>
              shape equals = [n, 1] \<and> length (data equals) = n \<and>
              (\<forall>i<n. data equals ! i = (if data top_class ! i = data lb ! i then 1 else 0)) \<and>
              tensor_eq top_class lb = Inr unreshaped \<and>
              shape unreshaped = [n, n] \<and> length (data unreshaped) = n * n \<and>
              (\<forall>i<n. \<forall>j<n. data unreshaped ! (i * n + j)
                               = (if data top_class ! i = data lb ! j then 1 else 0)) \<and>
              (0 < n \<longrightarrow> (\<exists>a. batch_accuracy lp lb = Inr a \<and>
                              a = real (batch_correct lp lb) / real n \<and> 0 \<le> a \<and> a \<le> 1))"
    by (rule batch_accuracy_steps [OF h])
next
  let ?Q = "\<lambda>m k0 (b :: sample list) (r :: val_run). collate b = Inr (b_images r, b_labels r) \<and>
                     Classifier_call False m k0 (b_images r) = Inr (b_log_ps r, k0) \<and>
                     shape (b_log_ps r) = [length b, 10] \<and> shape (b_labels r) = [length b] \<and>
                     batch_accuracy (b_log_ps r) (b_labels r) = Inr (b_accuracy r) \<and>
                     b_accuracy r = real (batch_correct (b_log_ps r) (b_labels r)) / real (length b) \<and>
                     0 \<le> b_accuracy r \<and> b_accuracy r \<le> 1"
  let ?P = "\<lambda>(T :: batch_run list, V :: val_run list). \<exists>m k0 k'.
                 layer_sizes m = declared_sizes \<and>
                 list_all2 (?Q m k0) (fst (DataLoader_iter (draw fw) testloader k')) V \<and>
                 length V = DataLoader_len testloader \<and>
                 ((\<exists>N. \<forall>b\<in>set (fst (DataLoader_iter (draw fw) testloader k')). length b = N) \<longrightarrow>
                    sum_list (map b_accuracy V) / real (DataLoader_len testloader)
                      = dataset_accuracy V)"
  from cell14_master [OF assms, of fw k evs] obtain s' runs where c:
    "cell14 fw trainloader testloader k True evs = Inr s'" "length runs = 30"
    "calls s' = evs @ concat (map2 (\<lambda>e (T, V). epoch14_events e 30 (DataLoader_len trainloader)
                                  (DataLoader_len testloader) T V) [0..<30] runs)"
    "list_all (\<lambda>(T, V).
        (\<exists>k. list_all2 (train_pass Classifier_call) (fst (DataLoader_iter (draw fw) trainloader k)) T) \<and>
        (\<exists>m k k'. layer_sizes m = declared_sizes \<and>
           map (validate_run Classifier_call False m k) (fst (DataLoader_iter (draw fw) testloader k'))
             = map Inr V)) runs"
    by blast
  have "list_all ?P runs"
    unfolding list_all_iff
  proof
    fix x assume x: "x \<in> set runs"
    obtain T V where tv: "x = (T, V)" by (cases x)
    from c(4) x tv obtain m k0 k' where v: "layer_sizes m = declared_sizes"
      "map (validate_run Classifier_call False m k0) (fst (DataLoader_iter (draw fw) testloader k'))
             = map Inr V"
      unfolding list_all_iff by auto
    let ?bs = "fst (DataLoader_iter (draw fw) testloader k')"
    have a: "list_all2 (?Q m k0) ?bs V"
      by (rule validate_runs_accuracy [OF v(2,1) DataLoader_iter_fashion [OF assms(4,6)]])
    have len: "length V = DataLoader_len testloader"
      using list_all2_lengthD [OF a] by (simp add: DataLoader_iter_length)
    have eq: "(\<exists>N. \<forall>b\<in>set ?bs. length b = N) \<longrightarrow>
                sum_list (map b_accuracy V) / real (DataLoader_len testloader) = dataset_accuracy V"
    proof
      assume "\<exists>N. \<forall>b\<in>set ?bs. length b = N"
      then obtain N where N: "\<forall>b\<in>set ?bs. length b = N" by blast
      have "list_all2 (\<lambda>b r. shape (b_labels r) = [length b] \<and>
              b_accuracy r = real (batch_correct (b_log_ps r) (b_labels r)) / real (length b)) ?bs V"
        by (rule list_all2_mono [OF a]) simp
      from equal_sizes_mean [OF this N] show
        "sum_list (map b_accuracy V) / real (DataLoader_len testloader) = dataset_accuracy V"
        by (simp add: len)
    qed
    have "?P (T, V)"
      apply (simp only: prod.case)
      apply (rule exI [of _ m], rule exI [of _ k0], rule exI [of _ k'])
      apply (intro conjI)
         apply (rule v(1))
        apply (rule a)
       apply (rule len)
      apply (rule eq)
      done
    then show "?P x" by (simp only: tv)
  qed
  with c(1,2,3) show "\<exists>s' runs. cell14 fw trainloader testloader k True evs = Inr s' \<and> length runs = 30 \<and>
             calls s' = evs @ concat (map2 (\<lambda>e (T, V). epoch14_events e 30
                 (DataLoader_len trainloader) (DataLoader_len testloader) T V) [0..<30] runs) \<and>
             list_all ?P runs"
    by blast
next
  fix e n a b :: nat and T :: "batch_run list" and V :: "val_run list"
  show "epoch14_events e n a b T V =
               train_events True True T @ [No_grad_enter] @ validate_events True False V
               @ [No_grad_exit,
                  Print (e + 1) n (sum_list (map b_value T) / real a)
                    (sum_list (map b_value V) / real b) (sum_list (map b_accuracy V) / real b)]"
    by (simp add: epoch14_events_def epoch_print_def)
next
  have "0 \<le> (1::int)" "(1::int) < 10" "(0::nat) = (if (1::int) = 0 then 1 else 0)" by simp_all
  from class0_loop [OF this] obtain V t s' where v:
    "validate_batches Classifier_call
       (fst (DataLoader_iter (\<lambda>k i. 0)
               (snd (cell1 [] (replicate 64 (blank_image, 0) @ [(blank_image, 1)]))) 0))
       ((0, 0), class0_state) = Inr ((t, sum_list (map b_accuracy V)), s')"
    "map (validate_run Classifier_call False class0_Classifier 0)
       (fst (DataLoader_iter (\<lambda>k i. 0)
               (snd (cell1 [] (replicate 64 (blank_image, 0) @ [(blank_image, 1)]))) 0)) = map Inr V"
    "map (\<lambda>r. shape (b_labels r)) V = [[64], [1]]"
    "map b_accuracy V = [1, real 0]" "dataset_accuracy V = real (64 + 0) / 65"
    by (elim exE conjE) (rule that)
  have h: "sum_list (map b_accuracy V)
       / real (DataLoader_len (snd (cell1 [] (replicate 64 (blank_image, 0) @ [(blank_image, 1)]))))
       = 1 / 2"
    unfolding v(4) two_batches(2) by simp
  have d: "dataset_accuracy V = 64 / 65" unfolding v(5) by simp
  show "\<exists>V t s'.
             validate_batches Classifier_call
               (fst (DataLoader_iter (\<lambda>k i. 0)
                       (snd (cell1 [] (replicate 64 (blank_image, 0) @ [(blank_image, 1)]))) 0))
               ((0, 0), class0_state) = Inr ((t, sum_list (map b_accuracy V)), s') \<and>
             map (validate_run Classifier_call False class0_Classifier 0)
               (fst (DataLoader_iter (\<lambda>k i. 0)
                       (snd (cell1 [] (replicate 64 (blank_image, 0) @ [(blank_image, 1)]))) 0))
               = map Inr V \<and>
             map (\<lambda>r. shape (b_labels r)) V = [[64], [1]] \<and>
             sum_list (map b_accuracy V)
               / real (DataLoader_len
                        (snd (cell1 [] (replicate 64 (blank_image, 0) @ [(blank_image, 1)]))))
               = 1 / 2 \<and>
             dataset_accuracy V = 64 / 65"
    by (rule exI [of _ V], rule exI [of _ t], rule exI [of _ s'], intro conjI)
       (rule v(1) v(2) v(3) h d)+
qed

theorem test_accuracy_mean_of_batches_witness:
  "(0 < batch_size one_sample_loader \<and> dataset one_sample_loader \<noteq> [] \<and>
    list_all fashion_sample (dataset one_sample_loader)) \<and>
   (\<exists>a. batch_accuracy
           \<lparr>dtype = FloatTensor, shape = [1, 10], data = replicate 10 0, requires_grad = False\<rparr>
           \<lparr>dtype = LongTensor, shape = [1], data = [0], requires_grad = False\<rparr> = Inr a \<and>
         0 \<le> a \<and> a \<le> 1) \<and>
   (\<exists>s' runs. cell14 inert_framework one_sample_loader one_sample_loader 0 True [] = Inr s' \<and>
      length runs = 30 \<and>
      list_all (\<lambda>(T :: batch_run list, V). sum_list (map b_accuracy V) / real (DataLoader_len one_sample_loader)
                           = dataset_accuracy V) runs)"
proof -
  have h: "0 < batch_size one_sample_loader" "dataset one_sample_loader \<noteq> []"
    "list_all fashion_sample (dataset one_sample_loader)"
    by (rule one_sample_loader_ok)+
  note t = test_accuracy_mean_of_batches [OF h h, of inert_framework 0 "[]"]
  let ?lp = "\<lparr>dtype = FloatTensor, shape = [1, 10], data = replicate 10 0, requires_grad = False\<rparr>"
  let ?lb = "\<lparr>dtype = LongTensor, shape = [1], data = [0], requires_grad = False\<rparr>"
  have "dtype ?lp = FloatTensor \<and> shape ?lp = [1, 10] \<and> shape ?lb = [1]" by simp
  from t [THEN conjunct1, rule_format, OF this]
  have b: "\<exists>a. batch_accuracy ?lp ?lb = Inr a \<and> 0 \<le> a \<and> a \<le> 1" by auto
  from t [THEN conjunct2, THEN conjunct1] obtain s' runs where r:
    "cell14 inert_framework one_sample_loader one_sample_loader 0 True [] = Inr s'"
    "length runs = 30"
    "list_all (\<lambda>(T :: batch_run list, V). \<exists>m k0 k'.
        layer_sizes m = declared_sizes \<and>
        list_all2 (\<lambda>b r. collate b = Inr (b_images r, b_labels r) \<and>
                     Classifier_call False m k0 (b_images r) = Inr (b_log_ps r, k0) \<and>
                     shape (b_log_ps r) = [length b, 10] \<and> shape (b_labels r) = [length b] \<and>
                     batch_accuracy (b_log_ps r) (b_labels r) = Inr (b_accuracy r) \<and>
                     b_accuracy r = real (batch_correct (b_log_ps r) (b_labels r)) / real (length b) \<and>
                     0 \<le> b_accuracy r \<and> b_accuracy r \<le> 1)
                   (fst (DataLoader_iter (draw inert_framework) one_sample_loader k')) V \<and>
        length V = DataLoader_len one_sample_loader \<and>
        ((\<exists>N. \<forall>b\<in>set (fst (DataLoader_iter (draw inert_framework) one_sample_loader k')).
                 length b = N) \<longrightarrow>
           sum_list (map b_accuracy V) / real (DataLoader_len one_sample_loader)
             = dataset_accuracy V)) runs"
    by blast
  have "list_all (\<lambda>(T :: batch_run list, V). sum_list (map b_accuracy V) / real (DataLoader_len one_sample_loader)
                           = dataset_accuracy V) runs"
    using r(3) one_sample_batches unfolding list_all_iff by fast
  with r(1,2) b h show ?thesis by blast
qed

lemma model_call_Inl:
  "model_call fwd x s = Inl e \<longleftrightarrow> fwd (grad_enabled s) (model s) (rng s) x = Inl e"
  by (auto simp: model_call_def ebind_Inl_iff)

lemma criterion_Inl: "criterion lp lb s = Inl e \<longleftrightarrow> NLLLoss_forward lp lb = Inl e"
  by (auto simp: criterion_def ebind_Inl_iff)

lemma loss_backward_Inl:
  "loss_backward fw loss g s = Inl e \<longleftrightarrow>
     \<not> requires_grad loss \<and>
     e = RuntimeError ''element 0 of tensors does not require grad and does not have a grad_fn''"
  by (cases g) (auto simp: loss_backward_def Let_def)

lemma loss_backward_ex:
  "requires_grad loss \<Longrightarrow> \<exists>s'. loss_backward fw loss g s = Inr s'"
  by (cases g) (simp add: loss_backward_def Let_def)

lemma with_no_grad_Inl:
  "with_no_grad body s = Inl e \<longleftrightarrow>
     body (s\<lparr>grad_enabled := False, calls := calls s @ [No_grad_enter]\<rparr>) = Inl e"
  by (auto simp: with_no_grad_def Let_def ebind_Inl_iff)

lemma py_div_Inl: "py_div a n = Inl e \<longleftrightarrow> n = 0 \<and> e = ZeroDivisionError"
  by (auto simp: py_div_def)

lemma train_step_Inl:
  "train_step fw fwd b s = Inl e \<longleftrightarrow>
     collate b = Inl e \<or>
     (\<exists>im lb. collate b = Inr (im, lb) \<and>
        (fwd (grad_enabled s) (model s) (rng s) im = Inl e \<or>
         (\<exists>lp k. fwd (grad_enabled s) (model s) (rng s) im = Inr (lp, k) \<and>
            (NLLLoss_forward lp lb = Inl e \<or>
             (\<exists>loss. NLLLoss_forward lp lb = Inr loss \<and>
                (loss_backward fw loss (rng s, im, lb)
                   (optimizer_zero_grad s\<lparr>rng := k,
                      calls := calls s @ [Zero_grad, Forward im (training (model s)) (grad_enabled s),
                                          Criterion lb loss]\<rparr>) = Inl e \<or>
                 (requires_grad loss \<and> item loss = Inl e)))))))"
proof (cases "collate b")
  case (Inl a)
  then show ?thesis by (simp add: train_step_def)
next
  case (Inr p)
  obtain im lb where p: "p = (im, lb)" by (cases p)
  let ?s0 = "optimizer_zero_grad s"
  show ?thesis
  proof (cases "fwd (grad_enabled s) (model s) (rng s) im")
    case (Inl a)
    then show ?thesis using Inr p by (simp add: train_step_def Let_def model_call_def)
  next
    case f: (Inr q)
    obtain lp k where q: "q = (lp, k)" by (cases q)
    show ?thesis
    proof (cases "NLLLoss_forward lp lb")
      case (Inl a)
      then show ?thesis using Inr p f q
        by (simp add: train_step_def Let_def model_call_def criterion_def)
    next
      case n: (Inr loss)
      show ?thesis
      proof (cases "requires_grad loss")
        case False
        then show ?thesis using Inr p f q n
          by (simp add: train_step_def Let_def model_call_def criterion_def loss_backward_def)
      next
        case True
        then show ?thesis using Inr p f q n
          by (simp add: train_step_def Let_def model_call_def criterion_def loss_backward_def
                ebind_Inl_iff)
      qed
    qed
  qed
qed

lemma validate_step_Inl:
  "validate_step fwd b s = Inl e \<longleftrightarrow>
     collate b = Inl e \<or>
     (\<exists>im lb. collate b = Inr (im, lb) \<and>
        (fwd (grad_enabled s) (model s) (rng s) im = Inl e \<or>
         (\<exists>lp k. fwd (grad_enabled s) (model s) (rng s) im = Inr (lp, k) \<and>
            (NLLLoss_forward lp lb = Inl e \<or>
             (\<exists>loss. NLLLoss_forward lp lb = Inr loss \<and>
                (item loss = Inl e \<or>
                 (\<exists>v. item loss = Inr v \<and> batch_accuracy lp lb = Inl e)))))))"
proof (cases "collate b")
  case (Inl a)
  then show ?thesis by (simp add: validate_step_def)
next
  case (Inr p)
  obtain im lb where p: "p = (im, lb)" by (cases p)
  show ?thesis
  proof (cases "fwd (grad_enabled s) (model s) (rng s) im")
    case (Inl a)
    then show ?thesis using Inr p by (simp add: validate_step_def model_call_def)
  next
    case f: (Inr q)
    obtain lp k where q: "q = (lp, k)" by (cases q)
    show ?thesis
    proof (cases "NLLLoss_forward lp lb")
      case (Inl a)
      then show ?thesis using Inr p f q
        by (simp add: validate_step_def model_call_def criterion_def)
    next
      case n: (Inr loss)
      show ?thesis using Inr p f q n
        by (simp add: validate_step_def model_call_def criterion_def ebind_Inl_iff)
    qed
  qed
qed

lemma validate_step_eval_Inl:
  "validate_step_eval fwd b s = Inl e \<longleftrightarrow>
     collate b = Inl e \<or>
     (\<exists>im lb. collate b = Inr (im, lb) \<and>
        (fwd (grad_enabled s) ((model s)\<lparr>training := False\<rparr>) (rng s) im = Inl e \<or>
         (\<exists>lp k. fwd (grad_enabled s) ((model s)\<lparr>training := False\<rparr>) (rng s) im = Inr (lp, k) \<and>
            (NLLLoss_forward lp lb = Inl e \<or>
             (\<exists>loss. NLLLoss_forward lp lb = Inr loss \<and>
                (item loss = Inl e \<or>
                 (\<exists>v. item loss = Inr v \<and> batch_accuracy lp lb = Inl e)))))))"
proof (cases "collate b")
  case (Inl a)
  then show ?thesis by (simp add: validate_step_eval_def)
next
  case (Inr p)
  obtain im lb where p: "p = (im, lb)" by (cases p)
  show ?thesis
  proof (cases "fwd (grad_enabled s) ((model s)\<lparr>training := False\<rparr>) (rng s) im")
    case (Inl a)
    then show ?thesis using Inr p
      by (simp add: validate_step_eval_def model_call_def model_eval_def Let_def)
  next
    case f: (Inr q)
    obtain lp k where q: "q = (lp, k)" by (cases q)
    show ?thesis
    proof (cases "NLLLoss_forward lp lb")
      case (Inl a)
      then show ?thesis using Inr p f q
        by (simp add: validate_step_eval_def model_call_def criterion_def model_eval_def Let_def)
    next
      case n: (Inr loss)
      show ?thesis using Inr p f q n
        by (simp add: validate_step_eval_def model_call_def criterion_def model_eval_def Let_def
              ebind_Inl_iff)
    qed
  qed
qed

lemma loop_Inl:
  assumes nil: "\<And>a. L [] a = Inr a"
      and cons: "\<And>b bs a. L (b # bs) a = ebind (step b a) (L bs)"
  shows "L bs a = Inl e \<longleftrightarrow>
     (\<exists>pre b post a'. bs = pre @ b # post \<and> L pre a = Inr a' \<and> step b a' = Inl e)"
proof (induction bs arbitrary: a)
  case Nil
  then show ?case by (simp add: nil)
next
  case (Cons b bs)
  show ?case
  proof (cases "step b a")
    case (Inl x)
    have "(\<exists>pre b' post a'. b # bs = pre @ b' # post \<and> L pre a = Inr a' \<and> step b' a' = Inl e)
        \<longleftrightarrow> x = e"
    proof
      assume "\<exists>pre b' post a'. b # bs = pre @ b' # post \<and> L pre a = Inr a' \<and> step b' a' = Inl e"
      then obtain pre b' post a' where h: "b # bs = pre @ b' # post" "L pre a = Inr a'"
        "step b' a' = Inl e" by blast
      show "x = e"
      proof (cases pre)
        case Nil
        then show ?thesis using h Inl by (simp add: nil)
      next
        case (Cons c cs)
        then show ?thesis using h Inl by (simp add: cons)
      qed
    next
      assume "x = e"
      then have "b # bs = [] @ b # bs \<and> L [] a = Inr a \<and> step b a = Inl e"
        using Inl by (simp add: nil)
      then show "\<exists>pre b' post a'. b # bs = pre @ b' # post \<and> L pre a = Inr a' \<and> step b' a' = Inl e"
        by blast
    qed
    then show ?thesis using Inl by (simp add: cons)
  next
    case (Inr a1)
    have "(\<exists>pre b' post a'. b # bs = pre @ b' # post \<and> L pre a = Inr a' \<and> step b' a' = Inl e)
        \<longleftrightarrow> (\<exists>pre b' post a'. bs = pre @ b' # post \<and> L pre a1 = Inr a' \<and> step b' a' = Inl e)"
    proof
      assume "\<exists>pre b' post a'. b # bs = pre @ b' # post \<and> L pre a = Inr a' \<and> step b' a' = Inl e"
      then obtain pre b' post a' where h: "b # bs = pre @ b' # post" "L pre a = Inr a'"
        "step b' a' = Inl e" by blast
      show "\<exists>pre b' post a'. bs = pre @ b' # post \<and> L pre a1 = Inr a' \<and> step b' a' = Inl e"
      proof (cases pre)
        case Nil
        then show ?thesis using h Inr by (simp add: nil)
      next
        case (Cons c cs)
        then have "bs = cs @ b' # post \<and> L cs a1 = Inr a'" using h Inr by (simp add: cons)
        then show ?thesis using h(3) by blast
      qed
    next
      assume "\<exists>pre b' post a'. bs = pre @ b' # post \<and> L pre a1 = Inr a' \<and> step b' a' = Inl e"
      then obtain pre b' post a' where h: "bs = pre @ b' # post" "L pre a1 = Inr a'"
        "step b' a' = Inl e" by blast
      then have "b # bs = (b # pre) @ b' # post \<and> L (b # pre) a = Inr a'"
        using Inr by (simp add: cons)
      then show "\<exists>pre b' post a'. b # bs = pre @ b' # post \<and> L pre a = Inr a' \<and> step b' a' = Inl e"
        using h(3) by blast
    qed
    then show ?thesis using Inr Cons.IH [of a1] by (simp add: cons)
  qed
qed

lemma train_batches_Inl:
  "train_batches fw fwd bs (r, s) = Inl e \<longleftrightarrow>
     (\<exists>pre b post r' s'. bs = pre @ b # post \<and>
        train_batches fw fwd pre (r, s) = Inr (r', s') \<and> train_step fw fwd b s' = Inl e)"
proof -
  have "train_batches fw fwd bs (r, s) = Inl e \<longleftrightarrow>
     (\<exists>pre b post a'. bs = pre @ b # post \<and> train_batches fw fwd pre (r, s) = Inr a' \<and>
        (\<lambda>b (r, s). ebind (train_step fw fwd b s) (\<lambda>(v, s'). Inr (r + v, s'))) b a' = Inl e)"
    by (rule loop_Inl) (auto simp: ebind_def split: sum.splits)
  then show ?thesis by (auto simp: ebind_Inl_iff)
qed

lemma validate_batches_Inl:
  "validate_batches fwd bs (acc, s) = Inl e \<longleftrightarrow>
     (\<exists>pre b post acc' s'. bs = pre @ b # post \<and>
        validate_batches fwd pre (acc, s) = Inr (acc', s') \<and> validate_step fwd b s' = Inl e)"
proof -
  have "validate_batches fwd bs (acc, s) = Inl e \<longleftrightarrow>
     (\<exists>pre b post a'. bs = pre @ b # post \<and> validate_batches fwd pre (acc, s) = Inr a' \<and>
        (\<lambda>b ((t, a), s). ebind (validate_step fwd b s) (\<lambda>((v, c), s'). Inr ((t + v, a + c), s')))
          b a' = Inl e)"
    by (rule loop_Inl) (auto simp: ebind_def split: sum.splits)
  then show ?thesis by (auto simp: ebind_Inl_iff)
qed

lemma validate_batches_eval_Inl:
  "validate_batches_eval fwd bs (acc, s) = Inl e \<longleftrightarrow>
     (\<exists>pre b post acc' s'. bs = pre @ b # post \<and>
        validate_batches_eval fwd pre (acc, s) = Inr (acc', s') \<and>
        validate_step_eval fwd b s' = Inl e)"
proof -
  have "validate_batches_eval fwd bs (acc, s) = Inl e \<longleftrightarrow>
     (\<exists>pre b post a'. bs = pre @ b # post \<and> validate_batches_eval fwd pre (acc, s) = Inr a' \<and>
        (\<lambda>b ((t, a), s). ebind (validate_step_eval fwd b s)
                            (\<lambda>((v, c), s'). Inr ((t + v, a + c), s'))) b a' = Inl e)"
    by (rule loop_Inl) (auto simp: ebind_def split: sum.splits)
  then show ?thesis by (auto simp: ebind_Inl_iff)
qed

lemma for_epochs_Inl:
  "for_epochs body es s = Inl e \<longleftrightarrow>
     (\<exists>pre e0 post s'. es = pre @ e0 # post \<and> for_epochs body pre s = Inr s' \<and>
        body e0 s' = Inl e)"
  by (rule loop_Inl) simp_all

lemma epoch14_Inl:
  "epoch14 fw trainloader testloader n e0 s = Inl e \<longleftrightarrow>
     train_batches fw Classifier_call (fst (DataLoader_iter (draw fw) trainloader (rng s)))
       (0, s\<lparr>rng := snd (DataLoader_iter (draw fw) trainloader (rng s))\<rparr>) = Inl e \<or>
     (\<exists>r sT. train_batches fw Classifier_call (fst (DataLoader_iter (draw fw) trainloader (rng s)))
               (0, s\<lparr>rng := snd (DataLoader_iter (draw fw) trainloader (rng s))\<rparr>) = Inr (r, sT) \<and>
        (validate_batches Classifier_call (fst (DataLoader_iter (draw fw) testloader (rng sT)))
           ((0, 0), sT\<lparr>grad_enabled := False, calls := calls sT @ [No_grad_enter],
                       rng := snd (DataLoader_iter (draw fw) testloader (rng sT))\<rparr>) = Inl e \<or>
         (\<exists>res s1.
            validate_batches Classifier_call (fst (DataLoader_iter (draw fw) testloader (rng sT)))
              ((0, 0), sT\<lparr>grad_enabled := False, calls := calls sT @ [No_grad_enter],
                          rng := snd (DataLoader_iter (draw fw) testloader (rng sT))\<rparr>)
              = Inr (res, s1) \<and>
            (DataLoader_len trainloader = 0 \<or> DataLoader_len testloader = 0) \<and>
            e = ZeroDivisionError)))"
proof (cases "train_batches fw Classifier_call (fst (DataLoader_iter (draw fw) trainloader (rng s)))
       (0, s\<lparr>rng := snd (DataLoader_iter (draw fw) trainloader (rng s))\<rparr>)")
  case (Inl a)
  then show ?thesis by (simp add: epoch14_def Let_def split_beta)
next
  case (Inr p)
  obtain r sT where p: "p = (r, sT)" by (cases p)
  show ?thesis
  proof (cases "validate_batches Classifier_call (fst (DataLoader_iter (draw fw) testloader (rng sT)))
           ((0, 0), sT\<lparr>grad_enabled := False, calls := calls sT @ [No_grad_enter],
                       rng := snd (DataLoader_iter (draw fw) testloader (rng sT))\<rparr>)")
    case (Inl a)
    then show ?thesis using Inr p
      by (simp add: epoch14_def Let_def split_beta with_no_grad_def)
  next
    case v: (Inr q)
    obtain res s1 where q: "q = (res, s1)" by (cases q)
    show ?thesis using Inr p v q
      by (auto simp: epoch14_def Let_def split_beta with_no_grad_def ebind_Inl_iff py_div_def
            split: if_splits)
  qed
qed

lemma epoch18_Inl:
  "epoch18 fw trainloader testloader n e0 s = Inl e \<longleftrightarrow>
     train_batches fw (ClassifierDropout_call fw)
       (fst (DataLoader_iter (draw fw) trainloader (rng s)))
       (0, s\<lparr>rng := snd (DataLoader_iter (draw fw) trainloader (rng s))\<rparr>) = Inl e \<or>
     (\<exists>r sT. train_batches fw (ClassifierDropout_call fw)
               (fst (DataLoader_iter (draw fw) trainloader (rng s)))
               (0, s\<lparr>rng := snd (DataLoader_iter (draw fw) trainloader (rng s))\<rparr>) = Inr (r, sT) \<and>
        (validate_batches_eval (ClassifierDropout_call fw)
           (fst (DataLoader_iter (draw fw) testloader (rng sT)))
           ((0, 0), model_eval (sT\<lparr>grad_enabled := False, calls := calls sT @ [No_grad_enter]\<rparr>)
                      \<lparr>rng := snd (DataLoader_iter (draw fw) testloader (rng sT))\<rparr>) = Inl e \<or>
         (\<exists>res s1.
            validate_batches_eval (ClassifierDropout_call fw)
              (fst (DataLoader_iter (draw fw) testloader (rng sT)))
              ((0, 0), model_eval (sT\<lparr>grad_enabled := False, calls := calls sT @ [No_grad_enter]\<rparr>)
                         \<lparr>rng := snd (DataLoader_iter (draw fw) testloader (rng sT))\<rparr>)
              = Inr (res, s1) \<and>
            (DataLoader_len trainloader = 0 \<or> DataLoader_len testloader = 0) \<and>
            e = ZeroDivisionError)))"
proof (cases "train_batches fw (ClassifierDropout_call fw)
       (fst (DataLoader_iter (draw fw) trainloader (rng s)))
       (0, s\<lparr>rng := snd (DataLoader_iter (draw fw) trainloader (rng s))\<rparr>)")
  case (Inl a)
  then show ?thesis by (simp add: epoch18_def Let_def split_beta)
next
  case (Inr p)
  obtain r sT where p: "p = (r, sT)" by (cases p)
  have rg: "rng (model_eval (sT\<lparr>grad_enabled := False, calls := calls sT @ [No_grad_enter]\<rparr>))
            = rng sT" by (simp add: model_eval_def)
  show ?thesis
  proof (cases "validate_batches_eval (ClassifierDropout_call fw)
           (fst (DataLoader_iter (draw fw) testloader (rng sT)))
           ((0, 0), model_eval (sT\<lparr>grad_enabled := False, calls := calls sT @ [No_grad_enter]\<rparr>)
                      \<lparr>rng := snd (DataLoader_iter (draw fw) testloader (rng sT))\<rparr>)")
    case (Inl a)
    then show ?thesis using Inr p
      by (simp add: epoch18_def Let_def split_beta with_no_grad_def rg)
  next
    case v: (Inr q)
    obtain res s1 where q: "q = (res, s1)" by (cases q)
    show ?thesis using Inr p v q
      by (auto simp: epoch18_def Let_def split_beta with_no_grad_def ebind_Inl_iff py_div_def rg
            split: if_splits)
  qed
qed

lemma batch_accuracy_Inl:
  "batch_accuracy lp lb = Inl e \<longleftrightarrow>
     torch_exp lp = Inl e \<or>
     (\<exists>ps. torch_exp lp = Inr ps \<and>
        (topk ps 1 1 = Inl e \<or>
         (\<exists>top_p top_class. topk ps 1 1 = Inr (top_p, top_class) \<and>
            (view lb (map int (shape top_class)) = Inl e \<or>
             (\<exists>lb'. view lb (map int (shape top_class)) = Inr lb' \<and>
                (tensor_eq top_class lb' = Inl e \<or>
                 (\<exists>equals. tensor_eq top_class lb' = Inr equals \<and>
                    (torch_mean (type_FloatTensor equals) = Inl e \<or>
                     (\<exists>m. torch_mean (type_FloatTensor equals) = Inr m \<and> item m = Inl e)))))))))"
  unfolding batch_accuracy_def batch_equals_def
  by (simp add: ebind_Inl_iff ebind_Inr_iff split_beta) blast

lemma accuracy_with_std: "accuracy_with tensor_eq torch_mean lp lb = batch_accuracy lp lb"
proof (cases "torch_exp lp")
  case (Inl a)
  then show ?thesis by (simp add: accuracy_with_def batch_accuracy_def batch_equals_def)
next
  case (Inr ps)
  show ?thesis
  proof (cases "topk ps 1 1")
    case (Inl a)
    then show ?thesis using Inr by (simp add: accuracy_with_def batch_accuracy_def batch_equals_def)
  next
    case t: (Inr p)
    obtain tp tc where p: "p = (tp, tc)" by (cases p)
    show ?thesis
    proof (cases "view lb (map int (shape tc))")
      case (Inl a)
      then show ?thesis using Inr t p
        by (simp add: accuracy_with_def batch_accuracy_def batch_equals_def)
    next
      case v: (Inr lb')
      show ?thesis using Inr t p v
        by (simp add: accuracy_with_def batch_accuracy_def batch_equals_def)
    qed
  qed
qed

lemma accuracy_with_float_only:
  assumes "\<And>x. dtype x = FloatTensor \<Longrightarrow> mean x = mean' x"
  shows "accuracy_with eq mean lp lb = accuracy_with eq mean' lp lb"
proof -
  have "\<And>equals. mean (type_FloatTensor equals) = mean' (type_FloatTensor equals)"
    by (rule assms) (simp add: type_FloatTensor_def)
  then show ?thesis by (simp add: accuracy_with_def)
qed

lemma Classifier_forward_Inl:
  "Classifier_forward gm self x = Inl e \<longleftrightarrow>
     flatten_input x = Inl e \<or>
     (\<exists>x0. flatten_input x = Inr x0 \<and>
        (Linear_forward gm (fc1 self) x0 = Inl e \<or>
         (\<exists>h1. Linear_forward gm (fc1 self) x0 = Inr h1 \<and>
            (Linear_forward gm (fc2 self) (F_relu h1) = Inl e \<or>
             (\<exists>h2. Linear_forward gm (fc2 self) (F_relu h1) = Inr h2 \<and>
                (Linear_forward gm (fc3 self) (F_relu h2) = Inl e \<or>
                 (\<exists>h3. Linear_forward gm (fc3 self) (F_relu h2) = Inr h3 \<and>
                    (Linear_forward gm (fc4 self) (F_relu h3) = Inl e \<or>
                     (\<exists>h4. Linear_forward gm (fc4 self) (F_relu h3) = Inr h4 \<and>
                        F_log_softmax h4 1 = Inl e)))))))))"
  unfolding Classifier_forward_def
  by (simp add: ebind_Inl_iff Let_def)

lemma Classifier_call_Inl:
  "Classifier_call gm m k x = Inl e \<longleftrightarrow> Classifier_forward gm m x = Inl e"
  by (simp add: Classifier_call_def ebind_Inl_iff)

lemma ClassifierDropout_forward_Inl:
  "ClassifierDropout_forward rnd gm self k x = Inl e \<longleftrightarrow>
     flatten_input x = Inl e \<or>
     (\<exists>x0. flatten_input x = Inr x0 \<and>
        (Linear_forward gm (fc1 self) x0 = Inl e \<or>
         (\<exists>h1 d1 k1. Linear_forward gm (fc1 self) x0 = Inr h1 \<and>
            Dropout_forward rnd (dropout self) (training self) (F_relu h1, k) = (d1, k1) \<and>
            (Linear_forward gm (fc2 self) d1 = Inl e \<or>
             (\<exists>h2 d2 k2. Linear_forward gm (fc2 self) d1 = Inr h2 \<and>
                Dropout_forward rnd (dropout self) (training self) (F_relu h2, k1) = (d2, k2) \<and>
                (Linear_forward gm (fc3 self) d2 = Inl e \<or>
                 (\<exists>h3 d3 k3. Linear_forward gm (fc3 self) d2 = Inr h3 \<and>
                    Dropout_forward rnd (dropout self) (training self) (F_relu h3, k2) = (d3, k3) \<and>
                    (Linear_forward gm (fc4 self) d3 = Inl e \<or>
                     (\<exists>h4. Linear_forward gm (fc4 self) d3 = Inr h4 \<and>
                        F_log_softmax h4 1 = Inl e)))))))))"
  unfolding ClassifierDropout_forward_def
  by (simp add: ebind_Inl_iff Let_def split_beta prod_eq_iff)

lemma cell14_Inl:
  "cell14 fw trainloader testloader k gm evs = Inl e \<longleftrightarrow>
     for_epochs (epoch14 fw trainloader testloader 30) [0..<30]
       \<lparr>model = fst (Classifier_init (draw fw) k), grads = None, opt_state = adam_init fw,
        lr = 3 / 1000, grad_enabled = gm, rng = snd (Classifier_init (draw fw) k), calls = evs,
        train_losses = [], test_losses = []\<rparr> = Inl e"
  by (simp add: cell14_def Let_def split_beta)

lemma cell18_Inl:
  "cell18 fw trainloader testloader k gm evs = Inl e \<longleftrightarrow>
     for_epochs (epoch18 fw trainloader testloader 30) [0..<30]
       \<lparr>model = fst (ClassifierDropout_init (draw fw) k), grads = None, opt_state = adam_init fw,
        lr = 3 / 1000, grad_enabled = gm, rng = snd (ClassifierDropout_init (draw fw) k),
        calls = evs, train_losses = [], test_losses = []\<rparr> = Inl e"
  by (simp add: cell18_def Let_def split_beta)

lemma cell20_Inl:
  "cell20 fw testloader s = Inl e \<longleftrightarrow>
     (fst (DataLoader_iter (draw fw) testloader (rng s)) = [] \<and> e = StopIteration) \<or>
     (\<exists>b bs. fst (DataLoader_iter (draw fw) testloader (rng s)) = b # bs \<and>
        (collate b = Inl e \<or>
         (\<exists>images labels. collate b = Inr (images, labels) \<and>
            (select0 images = Inl e \<or>
             (\<exists>img0. select0 images = Inr img0 \<and>
                (view img0 [1, 784] = Inl e \<or>
                 (\<exists>img. view img0 [1, 784] = Inr img \<and>
                    (ClassifierDropout_call fw False ((model s)\<lparr>training := False\<rparr>)
                       (snd (DataLoader_iter (draw fw) testloader (rng s))) img = Inl e \<or>
                     (\<exists>outp k'. ClassifierDropout_call fw False ((model s)\<lparr>training := False\<rparr>)
                         (snd (DataLoader_iter (draw fw) testloader (rng s))) img = Inr (outp, k') \<and>
                        (torch_exp outp = Inl e \<or>
                         (\<exists>ps. torch_exp outp = Inr ps \<and> view img [1, 28, 28] = Inl e)))))))))))"
proof -
  have rg: "rng (model_eval s) = rng s" by (simp add: model_eval_def)
  show ?thesis
  proof (cases "fst (DataLoader_iter (draw fw) testloader (rng s))")
    case Nil
    then show ?thesis by (auto simp: cell20_def Let_def split_beta rg)
  next
    case (Cons b bs)
    show ?thesis
    proof (cases "collate b")
      case (Inl a)
      then show ?thesis using Cons by (simp add: cell20_def Let_def split_beta rg)
    next
      case (Inr p)
      obtain images labels where p: "p = (images, labels)" by (cases p)
      show ?thesis
      proof (cases "select0 images")
        case (Inl a)
        then show ?thesis using Cons Inr p by (simp add: cell20_def Let_def split_beta rg)
      next
        case s0: (Inr img0)
        show ?thesis
        proof (cases "view img0 [1, 784]")
          case (Inl a)
          then show ?thesis using Cons Inr p s0 by (simp add: cell20_def Let_def split_beta rg)
        next
          case v: (Inr img)
          show ?thesis
          proof (cases "ClassifierDropout_call fw False ((model s)\<lparr>training := False\<rparr>)
                       (snd (DataLoader_iter (draw fw) testloader (rng s))) img")
            case (Inl a)
            then show ?thesis using Cons Inr p s0 v
              by (simp add: cell20_def Let_def split_beta rg with_no_grad_def model_call_def
                    model_eval_def)
          next
            case f: (Inr q)
            obtain outp k' where q: "q = (outp, k')" by (cases q)
            show ?thesis using Cons Inr p s0 v f q
              by (simp add: cell20_def Let_def split_beta rg with_no_grad_def model_call_def
                    model_eval_def ebind_Inl_iff)
          qed
        qed
      qed
    qed
  qed
qed

lemma cells5to12_Inl:
  "cells5to12 rnd testloader k = Inl e \<longleftrightarrow>
     (fst (DataLoader_iter rnd testloader (snd (Classifier_init rnd k))) = [] \<and> e = StopIteration) \<or>
     (\<exists>b bs. fst (DataLoader_iter rnd testloader (snd (Classifier_init rnd k))) = b # bs \<and>
        (collate b = Inl e \<or>
         (\<exists>images labels. collate b = Inr (images, labels) \<and>
            (Classifier_forward True (fst (Classifier_init rnd k)) images = Inl e \<or>
             (\<exists>log_ps. Classifier_forward True (fst (Classifier_init rnd k)) images = Inr log_ps \<and>
                (batch_equals log_ps labels = Inl e \<or>
                 (\<exists>equals. batch_equals log_ps labels = Inr equals \<and>
                    (torch_mean (type_FloatTensor equals) = Inl e \<or>
                     (\<exists>accuracy. torch_mean (type_FloatTensor equals) = Inr accuracy \<and>
                        item accuracy = Inl e)))))))))"
proof (cases "fst (DataLoader_iter rnd testloader (snd (Classifier_init rnd k)))")
  case Nil
  then show ?thesis by (auto simp: cells5to12_def Let_def split_beta)
next
  case (Cons b bs)
  show ?thesis
  proof (cases "collate b")
    case (Inl a)
    then show ?thesis using Cons by (simp add: cells5to12_def Let_def split_beta)
  next
    case (Inr p)
    obtain images labels where p: "p = (images, labels)" by (cases p)
    show ?thesis using Cons Inr p
      by (simp add: cells5to12_def Let_def split_beta ebind_Inl_iff)
  qed
qed

lemma notebook_Inl:
  "notebook fw trainset testset k = Inl e \<longleftrightarrow>
     cells5to12 (draw fw) (snd (cell1 trainset testset)) k = Inl e \<or>
     (\<exists>equals a k1. cells5to12 (draw fw) (snd (cell1 trainset testset)) k = Inr (equals, a, k1) \<and>
        (cell14 fw (fst (cell1 trainset testset)) (snd (cell1 trainset testset)) k1 True [] = Inl e \<or>
         (\<exists>s14. cell14 fw (fst (cell1 trainset testset)) (snd (cell1 trainset testset)) k1 True []
                   = Inr s14 \<and>
            (cell18 fw (fst (cell1 trainset testset)) (snd (cell1 trainset testset))
               (rng s14) (grad_enabled s14) (calls s14) = Inl e \<or>
             (\<exists>s18. cell18 fw (fst (cell1 trainset testset)) (snd (cell1 trainset testset))
                       (rng s14) (grad_enabled s14) (calls s14) = Inr s18 \<and>
                cell20 fw (snd (cell1 trainset testset)) s18 = Inl e)))))"
proof (cases "cells5to12 (draw fw) (snd (cell1 trainset testset)) k")
  case (Inl a)
  then show ?thesis by (simp add: notebook_def Let_def split_beta)
next
  case (Inr p)
  obtain equals a k1 where p: "p = (equals, a, k1)" by (cases p)
  show ?thesis using Inr p
    by (simp add: notebook_def Let_def split_beta ebind_Inl_iff)
qed

text \<open>
  Claim C5. No call of the script catches an error, so an error of a framework call is the
  result of everything around it. A step of a loop fails exactly with the error of the first
  of its calls that fails (stacking the batch, the forward pass, the criterion, \<open>backward\<close>,
  \<open>item\<close>, and in validation the accuracy lines); a loop fails exactly with the error of
  the first step that fails, after the steps before it; a \<open>no_grad\<close> block fails with its
  body; an epoch fails with its training loop, else with its validation loop, else with
  Python's division by a loader of no batches; a cell fails with the first epoch that
  fails, cell 20 and cells 5 to 12 with the first of their calls that fails, and the notebook
  with the first cell that fails. The forward passes fail with the first layer call that
  fails, and a batch of images that do not have 784 elements is the framework's size
  mismatch. The comparison \<open>equals\<close> is a \<open>ByteTensor\<close>, and \<open>torch.mean\<close> of it is the
  framework's \<open>RuntimeError\<close> that cell 11 quotes. The accuracy lines pass
  \<open>equals.type(torch.FloatTensor)\<close> to the mean: whatever the comparison returns and
  whatever the mean does on tensors that are not float, their result is the same, the mean
  never is a \<open>RuntimeError\<close>, and it has a value when \<open>equals\<close> has elements.
\<close>

theorem framework_errors_surface:
  "(\<forall>a b equals. tensor_eq a b = Inr equals \<longrightarrow>
      torch_mean equals = Inl (RuntimeError ''mean is not implemented for type torch.ByteTensor'')
      \<and> (\<forall>msg. torch_mean (type_FloatTensor equals) \<noteq> Inl (RuntimeError msg)))
   \<and> (\<forall>(self :: Classifier) x n rest gm.
        layer_sizes self = [(784, 256), (256, 128), (128, 64), (64, 10)] \<and>
        dtype x = FloatTensor \<and> shape x = n # rest \<and> 0 < n \<and> prod_list rest \<noteq> 784 \<longrightarrow>
        Classifier_forward gm self x = Inl (RuntimeError ''size mismatch''))
   \<and> (\<forall>(gm :: bool) (m :: Classifier) (k :: nat) x e.
        Classifier_call gm m k x = Inl e \<longleftrightarrow> Classifier_forward gm m x = Inl e)
   \<and> (\<forall>(fwd :: ('a Classifier_scheme) forward_fn) b (s :: ('a Classifier_scheme, 'o) state) e.
        validate_step fwd b s = Inl e \<longleftrightarrow>
        collate b = Inl e \<or>
        (\<exists>im lb. collate b = Inr (im, lb) \<and>
           (fwd (grad_enabled s) (model s) (rng s) im = Inl e \<or>
            (\<exists>lp k. fwd (grad_enabled s) (model s) (rng s) im = Inr (lp, k) \<and>
               (NLLLoss_forward lp lb = Inl e \<or>
                (\<exists>loss. NLLLoss_forward lp lb = Inr loss \<and>
                   (item loss = Inl e \<or>
                    (\<exists>v. item loss = Inr v \<and> batch_accuracy lp lb = Inl e))))))))
   \<and> (\<forall>(fwd :: ('a Classifier_scheme) forward_fn) bs acc (s :: ('a Classifier_scheme, 'o) state) e.
        validate_batches fwd bs (acc, s) = Inl e \<longleftrightarrow>
        (\<exists>pre b post acc' s'. bs = pre @ b # post \<and>
           validate_batches fwd pre (acc, s) = Inr (acc', s') \<and> validate_step fwd b s' = Inl e))
   \<and> (\<forall>rnd testloader k e.
        cells5to12 rnd testloader k = Inl e \<longleftrightarrow>
        (fst (DataLoader_iter rnd testloader (snd (Classifier_init rnd k))) = [] \<and> e = StopIteration) \<or>
        (\<exists>b bs. fst (DataLoader_iter rnd testloader (snd (Classifier_init rnd k))) = b # bs \<and>
           (collate b = Inl e \<or>
            (\<exists>images labels. collate b = Inr (images, labels) \<and>
               (Classifier_forward True (fst (Classifier_init rnd k)) images = Inl e \<or>
                (\<exists>log_ps. Classifier_forward True (fst (Classifier_init rnd k)) images = Inr log_ps \<and>
                   (batch_equals log_ps labels = Inl e \<or>
                    (\<exists>equals. batch_equals log_ps labels = Inr equals \<and>
                       (torch_mean (type_FloatTensor equals) = Inl e \<or>
                        (\<exists>accuracy. torch_mean (type_FloatTensor equals) = Inr accuracy \<and>
                           item accuracy = Inl e))))))))))
   \<and> (\<forall>(fw :: 'o framework) trainset testset k e.
        notebook fw trainset testset k = Inl e \<longleftrightarrow>
        cells5to12 (draw fw) (snd (cell1 trainset testset)) k = Inl e \<or>
        (\<exists>equals a k1. cells5to12 (draw fw) (snd (cell1 trainset testset)) k = Inr (equals, a, k1) \<and>
           (cell14 fw (fst (cell1 trainset testset)) (snd (cell1 trainset testset)) k1 True [] = Inl e \<or>
            (\<exists>s14. cell14 fw (fst (cell1 trainset testset)) (snd (cell1 trainset testset)) k1 True []
                      = Inr s14 \<and>
               (cell18 fw (fst (cell1 trainset testset)) (snd (cell1 trainset testset))
                  (rng s14) (grad_enabled s14) (calls s14) = Inl e \<or>
                (\<exists>s18. cell18 fw (fst (cell1 trainset testset)) (snd (cell1 trainset testset))
                          (rng s14) (grad_enabled s14) (calls s14) = Inr s18 \<and>
                   cell20 fw (snd (cell1 trainset testset)) s18 = Inl e))))))
   \<and> (\<forall>(fw :: 'o framework) (fwd :: ('a Classifier_scheme) forward_fn) b (s :: ('a Classifier_scheme, 'o) state) e.
        train_step fw fwd b s = Inl e \<longleftrightarrow>
        collate b = Inl e \<or>
        (\<exists>im lb. collate b = Inr (im, lb) \<and>
           (fwd (grad_enabled s) (model s) (rng s) im = Inl e \<or>
            (\<exists>lp k. fwd (grad_enabled s) (model s) (rng s) im = Inr (lp, k) \<and>
               (NLLLoss_forward lp lb = Inl e \<or>
                (\<exists>loss. NLLLoss_forward lp lb = Inr loss \<and>
                   (loss_backward fw loss (rng s, im, lb)
                      (optimizer_zero_grad s\<lparr>rng := k,
                         calls := calls s @ [Zero_grad, Forward im (training (model s)) (grad_enabled s),
                                             Criterion lb loss]\<rparr>) = Inl e \<or>
                    (requires_grad loss \<and> item loss = Inl e))))))))
   \<and> (\<forall>(fw :: 'o framework) loss g (s :: ('a Classifier_scheme, 'o) state) e.
        loss_backward fw loss g s = Inl e \<longleftrightarrow>
        \<not> requires_grad loss \<and>
        e = RuntimeError ''element 0 of tensors does not require grad and does not have a grad_fn'')
   \<and> (\<forall>(fwd :: ('a Classifier_scheme) forward_fn) b (s :: ('a Classifier_scheme, 'o) state) e.
        validate_step_eval fwd b s = Inl e \<longleftrightarrow>
        collate b = Inl e \<or>
        (\<exists>im lb. collate b = Inr (im, lb) \<and>
           (fwd (grad_enabled s) ((model s)\<lparr>training := False\<rparr>) (rng s) im = Inl e \<or>
            (\<exists>lp k. fwd (grad_enabled s) ((model s)\<lparr>training := False\<rparr>) (rng s) im = Inr (lp, k) \<and>
               (NLLLoss_forward lp lb = Inl e \<or>
                (\<exists>loss. NLLLoss_forward lp lb = Inr loss \<and>
                   (item loss = Inl e \<or>
                    (\<exists>v. item loss = Inr v \<and> batch_accuracy lp lb = Inl e))))))))
   \<and> (\<forall>(fw :: 'o framework) (fwd :: ('a Classifier_scheme) forward_fn) bs r (s :: ('a Classifier_scheme, 'o) state) e.
        train_batches fw fwd bs (r, s) = Inl e \<longleftrightarrow>
        (\<exists>pre b post r' s'. bs = pre @ b # post \<and>
           train_batches fw fwd pre (r, s) = Inr (r', s') \<and> train_step fw fwd b s' = Inl e))
   \<and> (\<forall>(fwd :: ('a Classifier_scheme) forward_fn) bs acc (s :: ('a Classifier_scheme, 'o) state) e.
        validate_batches_eval fwd bs (acc, s) = Inl e \<longleftrightarrow>
        (\<exists>pre b post acc' s'. bs = pre @ b # post \<and>
           validate_batches_eval fwd pre (acc, s) = Inr (acc', s') \<and>
           validate_step_eval fwd b s' = Inl e))
   \<and> (\<forall>(body :: ('a Classifier_scheme, 'o) state \<Rightarrow> error + 'r \<times> ('a Classifier_scheme, 'o) state) s e.
        with_no_grad body s = Inl e \<longleftrightarrow>
        body (s\<lparr>grad_enabled := False, calls := calls s @ [No_grad_enter]\<rparr>) = Inl e)
   \<and> (\<forall>(fw :: 'o framework) trainloader testloader n e0 s e.
        epoch14 fw trainloader testloader n e0 s = Inl e \<longleftrightarrow>
        train_batches fw Classifier_call (fst (DataLoader_iter (draw fw) trainloader (rng s)))
          (0, s\<lparr>rng := snd (DataLoader_iter (draw fw) trainloader (rng s))\<rparr>) = Inl e \<or>
        (\<exists>r sT. train_batches fw Classifier_call (fst (DataLoader_iter (draw fw) trainloader (rng s)))
                  (0, s\<lparr>rng := snd (DataLoader_iter (draw fw) trainloader (rng s))\<rparr>) = Inr (r, sT) \<and>
           (validate_batches Classifier_call (fst (DataLoader_iter (draw fw) testloader (rng sT)))
              ((0, 0), sT\<lparr>grad_enabled := False, calls := calls sT @ [No_grad_enter],
                          rng := snd (DataLoader_iter (draw fw) testloader (rng sT))\<rparr>) = Inl e \<or>
            (\<exists>res s1.
               validate_batches Classifier_call (fst (DataLoader_iter (draw fw) testloader (rng sT)))
                 ((0, 0), sT\<lparr>grad_enabled := False, calls := calls sT @ [No_grad_enter],
                             rng := snd (DataLoader_iter (draw fw) testloader (rng sT))\<rparr>)
                 = Inr (res, s1) \<and>
               (DataLoader_len trainloader = 0 \<or> DataLoader_len testloader = 0) \<and>
               e = ZeroDivisionError))))
   \<and> (\<forall>(fw :: 'o framework) trainloader testloader n e0 s e.
        epoch18 fw trainloader testloader n e0 s = Inl e \<longleftrightarrow>
        train_batches fw (ClassifierDropout_call fw)
          (fst (DataLoader_iter (draw fw) trainloader (rng s)))
          (0, s\<lparr>rng := snd (DataLoader_iter (draw fw) trainloader (rng s))\<rparr>) = Inl e \<or>
        (\<exists>r sT. train_batches fw (ClassifierDropout_call fw)
                  (fst (DataLoader_iter (draw fw) trainloader (rng s)))
                  (0, s\<lparr>rng := snd (DataLoader_iter (draw fw) trainloader (rng s))\<rparr>) = Inr (r, sT) \<and>
           (validate_batches_eval (ClassifierDropout_call fw)
              (fst (DataLoader_iter (draw fw) testloader (rng sT)))
              ((0, 0), model_eval (sT\<lparr>grad_enabled := False, calls := calls sT @ [No_grad_enter]\<rparr>)
                         \<lparr>rng := snd (DataLoader_iter (draw fw) testloader (rng sT))\<rparr>) = Inl e \<or>
            (\<exists>res s1.
               validate_batches_eval (ClassifierDropout_call fw)
                 (fst (DataLoader_iter (draw fw) testloader (rng sT)))
                 ((0, 0), model_eval (sT\<lparr>grad_enabled := False, calls := calls sT @ [No_grad_enter]\<rparr>)
                            \<lparr>rng := snd (DataLoader_iter (draw fw) testloader (rng sT))\<rparr>)
                 = Inr (res, s1) \<and>
               (DataLoader_len trainloader = 0 \<or> DataLoader_len testloader = 0) \<and>
               e = ZeroDivisionError))))
   \<and> (\<forall>(body :: nat \<Rightarrow> ('a Classifier_scheme, 'o) state \<Rightarrow> error + ('a Classifier_scheme, 'o) state) es s e.
        for_epochs body es s = Inl e \<longleftrightarrow>
        (\<exists>pre e0 post s'. es = pre @ e0 # post \<and> for_epochs body pre s = Inr s' \<and>
           body e0 s' = Inl e))
   \<and> (\<forall>(fw :: 'o framework) trainloader testloader k gm evs e.
        cell14 fw trainloader testloader k gm evs = Inl e \<longleftrightarrow>
        for_epochs (epoch14 fw trainloader testloader 30) [0..<30]
          \<lparr>model = fst (Classifier_init (draw fw) k), grads = None, opt_state = adam_init fw,
           lr = 3 / 1000, grad_enabled = gm, rng = snd (Classifier_init (draw fw) k), calls = evs,
           train_losses = [], test_losses = []\<rparr> = Inl e)
   \<and> (\<forall>(fw :: 'o framework) trainloader testloader k gm evs e.
        cell18 fw trainloader testloader k gm evs = Inl e \<longleftrightarrow>
        for_epochs (epoch18 fw trainloader testloader 30) [0..<30]
          \<lparr>model = fst (ClassifierDropout_init (draw fw) k), grads = None, opt_state = adam_init fw,
           lr = 3 / 1000, grad_enabled = gm, rng = snd (ClassifierDropout_init (draw fw) k),
           calls = evs, train_losses = [], test_losses = []\<rparr> = Inl e)
   \<and> (\<forall>(fw :: 'o framework) testloader s e.
        cell20 fw testloader s = Inl e \<longleftrightarrow>
        (fst (DataLoader_iter (draw fw) testloader (rng s)) = [] \<and> e = StopIteration) \<or>
        (\<exists>b bs. fst (DataLoader_iter (draw fw) testloader (rng s)) = b # bs \<and>
           (collate b = Inl e \<or>
            (\<exists>images labels. collate b = Inr (images, labels) \<and>
               (select0 images = Inl e \<or>
                (\<exists>img0. select0 images = Inr img0 \<and>
                   (view img0 [1, 784] = Inl e \<or>
                    (\<exists>img. view img0 [1, 784] = Inr img \<and>
                       (ClassifierDropout_call fw False ((model s)\<lparr>training := False\<rparr>)
                          (snd (DataLoader_iter (draw fw) testloader (rng s))) img = Inl e \<or>
                        (\<exists>outp k'. ClassifierDropout_call fw False ((model s)\<lparr>training := False\<rparr>)
                            (snd (DataLoader_iter (draw fw) testloader (rng s))) img = Inr (outp, k') \<and>
                           (torch_exp outp = Inl e \<or>
                            (\<exists>ps. torch_exp outp = Inr ps \<and> view img [1, 28, 28] = Inl e))))))))))))
   \<and> (\<forall>lp lb e.
        batch_accuracy lp lb = Inl e \<longleftrightarrow>
        torch_exp lp = Inl e \<or>
        (\<exists>ps. torch_exp lp = Inr ps \<and>
           (topk ps 1 1 = Inl e \<or>
            (\<exists>top_p top_class. topk ps 1 1 = Inr (top_p, top_class) \<and>
               (view lb (map int (shape top_class)) = Inl e \<or>
                (\<exists>lb'. view lb (map int (shape top_class)) = Inr lb' \<and>
                   (tensor_eq top_class lb' = Inl e \<or>
                    (\<exists>equals. tensor_eq top_class lb' = Inr equals \<and>
                       (torch_mean (type_FloatTensor equals) = Inl e \<or>
                        (\<exists>m. torch_mean (type_FloatTensor equals) = Inr m \<and> item m = Inl e))))))))))
   \<and> (\<forall>gm (self :: 'a Classifier_scheme) x e.
        Classifier_forward gm self x = Inl e \<longleftrightarrow>
        flatten_input x = Inl e \<or>
        (\<exists>x0. flatten_input x = Inr x0 \<and>
           (Linear_forward gm (fc1 self) x0 = Inl e \<or>
            (\<exists>h1. Linear_forward gm (fc1 self) x0 = Inr h1 \<and>
               (Linear_forward gm (fc2 self) (F_relu h1) = Inl e \<or>
                (\<exists>h2. Linear_forward gm (fc2 self) (F_relu h1) = Inr h2 \<and>
                   (Linear_forward gm (fc3 self) (F_relu h2) = Inl e \<or>
                    (\<exists>h3. Linear_forward gm (fc3 self) (F_relu h2) = Inr h3 \<and>
                       (Linear_forward gm (fc4 self) (F_relu h3) = Inl e \<or>
                        (\<exists>h4. Linear_forward gm (fc4 self) (F_relu h3) = Inr h4 \<and>
                           F_log_softmax h4 1 = Inl e))))))))))
   \<and> (\<forall>rnd gm self k x e.
        ClassifierDropout_forward rnd gm self k x = Inl e \<longleftrightarrow>
        flatten_input x = Inl e \<or>
        (\<exists>x0. flatten_input x = Inr x0 \<and>
           (Linear_forward gm (fc1 self) x0 = Inl e \<or>
            (\<exists>h1 d1 k1. Linear_forward gm (fc1 self) x0 = Inr h1 \<and>
               Dropout_forward rnd (dropout self) (training self) (F_relu h1, k) = (d1, k1) \<and>
               (Linear_forward gm (fc2 self) d1 = Inl e \<or>
                (\<exists>h2 d2 k2. Linear_forward gm (fc2 self) d1 = Inr h2 \<and>
                   Dropout_forward rnd (dropout self) (training self) (F_relu h2, k1) = (d2, k2) \<and>
                   (Linear_forward gm (fc3 self) d2 = Inl e \<or>
                    (\<exists>h3 d3 k3. Linear_forward gm (fc3 self) d2 = Inr h3 \<and>
                       Dropout_forward rnd (dropout self) (training self) (F_relu h3, k2) = (d3, k3) \<and>
                       (Linear_forward gm (fc4 self) d3 = Inl e \<or>
                        (\<exists>h4. Linear_forward gm (fc4 self) d3 = Inr h4 \<and>
                           F_log_softmax h4 1 = Inl e))))))))))
   \<and> (\<forall>log_ps labels equals. batch_equals log_ps labels = Inr equals \<longrightarrow>
      torch_mean equals = Inl (RuntimeError ''mean is not implemented for type torch.ByteTensor'')
      \<and> batch_accuracy log_ps labels = ebind (torch_mean (type_FloatTensor equals)) item
      \<and> (data equals \<noteq> [] \<longrightarrow> (\<exists>a. batch_accuracy log_ps labels = Inr a)))
   \<and> (\<forall>lp lb. batch_accuracy lp lb = accuracy_with tensor_eq torch_mean lp lb)
   \<and> (\<forall>eq mean mean' lp lb.
        (\<forall>x. dtype x = FloatTensor \<longrightarrow> mean x = mean' x) \<longrightarrow>
        accuracy_with eq mean lp lb = accuracy_with eq mean' lp lb)
   \<and> (\<forall>(fw :: 'o framework) gm self k x.
        ClassifierDropout_call fw gm self k x = ClassifierDropout_forward (draw fw) gm self k x)"
  apply (intro conjI)
  subgoal using tensor_eq_dtype torch_mean_byte torch_mean_float(1) by blast
  subgoal using forward_size_mismatch by blast
  subgoal by (intro allI) (rule Classifier_call_Inl)
  subgoal by (intro allI) (rule validate_step_Inl)
  subgoal by (intro allI) (rule validate_batches_Inl)
  subgoal by (intro allI) (rule cells5to12_Inl)
  subgoal by (intro allI) (rule notebook_Inl)
  subgoal by (intro allI) (rule train_step_Inl)
  subgoal by (intro allI) (rule loss_backward_Inl)
  subgoal by (intro allI) (rule validate_step_eval_Inl)
  subgoal by (intro allI) (rule train_batches_Inl)
  subgoal by (intro allI) (rule validate_batches_eval_Inl)
  subgoal by (intro allI) (rule with_no_grad_Inl)
  subgoal by (intro allI) (rule epoch14_Inl)
  subgoal by (intro allI) (rule epoch18_Inl)
  subgoal by (intro allI) (rule for_epochs_Inl)
  subgoal by (intro allI) (rule cell14_Inl)
  subgoal by (intro allI) (rule cell18_Inl)
  subgoal by (intro allI) (rule cell20_Inl)
  subgoal by (intro allI) (rule batch_accuracy_Inl)
  subgoal by (intro allI) (rule Classifier_forward_Inl)
  subgoal by (intro allI) (rule ClassifierDropout_forward_Inl)
  subgoal
  proof (intro allI impI)
    fix log_ps labels equals
    assume e: "batch_equals log_ps labels = Inr equals"
    have b: "batch_accuracy log_ps labels = ebind (torch_mean (type_FloatTensor equals)) item"
      by (simp add: batch_accuracy_def e)
    show "torch_mean equals = Inl (RuntimeError ''mean is not implemented for type torch.ByteTensor'')
      \<and> batch_accuracy log_ps labels = ebind (torch_mean (type_FloatTensor equals)) item
      \<and> (data equals \<noteq> [] \<longrightarrow> (\<exists>a. batch_accuracy log_ps labels = Inr a))"
      using torch_mean_byte [OF batch_equals_dtype [OF e]] b torch_mean_float(2) [of equals]
      by simp
  qed
  subgoal by (simp add: accuracy_with_std)
  subgoal using accuracy_with_float_only by blast
  subgoal by (simp add: ClassifierDropout_call_def)
  done

theorem framework_errors_surface_witness:
  "tensor_eq \<lparr>dtype = LongTensor, shape = [2, 1], data = [3, 7], requires_grad = False\<rparr>
             \<lparr>dtype = LongTensor, shape = [2, 1], data = [3, 5], requires_grad = False\<rparr>
     = Inr \<lparr>dtype = ByteTensor, shape = [2, 1], data = [1, 0], requires_grad = False\<rparr>
   \<and> torch_mean \<lparr>dtype = ByteTensor, shape = [2, 1], data = [1, 0], requires_grad = False\<rparr>
     = Inl (RuntimeError ''mean is not implemented for type torch.ByteTensor'')
   \<and> ebind (torch_mean (type_FloatTensor
         \<lparr>dtype = ByteTensor, shape = [2, 1], data = [1, 0], requires_grad = False\<rparr>)) item
     = Inr (1 / 2)
   \<and> notebook inert_framework [(blank_image, 0)] [(small_image, 0)] 0
     = Inl (RuntimeError ''size mismatch'')
   \<and> validate_batches Classifier_call [[(blank_image, 0)], [(small_image, 0)]]
       ((0, 0), class0_state) = Inl (RuntimeError ''size mismatch'')"
proof -
  note t = framework_errors_surface [where ?'a = unit and ?'o = unit]
  note c1 = t [THEN conjunct1]
  note c2 = t [THEN conjunct2, THEN conjunct1]
  note c3 = t [THEN conjunct2, THEN conjunct2, THEN conjunct1]
  note c4 = t [THEN conjunct2, THEN conjunct2, THEN conjunct2, THEN conjunct1]
  note c5 = t [THEN conjunct2, THEN conjunct2, THEN conjunct2, THEN conjunct2, THEN conjunct1]
  note c6 = t [THEN conjunct2, THEN conjunct2, THEN conjunct2, THEN conjunct2, THEN conjunct2,
               THEN conjunct1]
  note c7 = t [THEN conjunct2, THEN conjunct2, THEN conjunct2, THEN conjunct2, THEN conjunct2,
               THEN conjunct2, THEN conjunct1]
  let ?a = "\<lparr>dtype = LongTensor, shape = [2, 1], data = [3, 7], requires_grad = False\<rparr>"
  let ?b = "\<lparr>dtype = LongTensor, shape = [2, 1], data = [3, 5], requires_grad = False\<rparr>"
  let ?e = "\<lparr>dtype = ByteTensor, shape = [2, 1], data = [1, 0], requires_grad = False\<rparr>"
  let ?err = "RuntimeError ''size mismatch''"
  let ?im = "\<lparr>dtype = FloatTensor, shape = [1, 1, 5, 5], data = replicate 25 0,
              requires_grad = False\<rparr>"
  let ?lb = "\<lparr>dtype = LongTensor, shape = [1], data = [0], requires_grad = False\<rparr>"
  have eq: "tensor_eq ?a ?b = Inr ?e"
    by (simp add: tensor_eq_def broadcast_shapes_def broadcast_index_def ebind_def upt_rec)
  have m: "torch_mean ?e = Inl (RuntimeError ''mean is not implemented for type torch.ByteTensor'')"
    using c1 [rule_format, OF eq] by (rule conjunct1)
  have f: "ebind (torch_mean (type_FloatTensor ?e)) item = Inr (1 / 2)"
    by (simp add: torch_mean_def type_FloatTensor_def item_def)
  have co: "collate [(small_image, 0)] = Inr (?im, ?lb)"
    by (simp add: collate_def)
  have mis: "\<And>(self :: Classifier) gm. layer_sizes self = declared_sizes \<Longrightarrow>
               Classifier_forward gm self ?im = Inl ?err"
    by (rule c2 [rule_format, where n = 1 and rest = "[1, 5, 5]"]) simp
  have it: "fst (DataLoader_iter (\<lambda>k i. 0) (snd (cell1 [(blank_image, 0)] [(small_image, 0)]))
              (snd (Classifier_init (\<lambda>k i. 0) 0))) = [[(small_image, 0)]]"
    by (simp add: DataLoader_iter_def DataLoader_len_def cell1_def Let_def)
  have f1: "Classifier_forward True (fst (Classifier_init (\<lambda>k i. 0) 0)) ?im = Inl ?err"
    by (rule mis) (rule layer_sizes_init)
  have c512: "cells5to12 (\<lambda>k i. 0) (snd (cell1 [(blank_image, 0)] [(small_image, 0)])) 0 = Inl ?err"
    by (rule c6 [rule_format, THEN iffD2]) (use it co f1 in simp)
  have nb: "notebook inert_framework [(blank_image, 0)] [(small_image, 0)] 0 = Inl ?err"
    by (rule c7 [rule_format, THEN iffD2], rule disjI1) (use c512 in simp)
  have sz: "layer_sizes class0_Classifier = declared_sizes"
    by (simp add: layer_sizes_def class0_Classifier_def)
  have f0: "[(blank_image, 0::int)] \<noteq> []" "list_all fashion_sample [(blank_image, 0)]"
    by (simp_all add: fashion_sample_def wf_tensor_def numel_def)
  from class0_validate_run [OF f0, of 0] obtain r1 where r1:
    "validate_run Classifier_call False class0_Classifier 0 [(blank_image, 0)] = Inr r1" by blast
  let ?s1 = "class0_state\<lparr>calls := calls class0_state
                @ validate_events (training (model class0_state)) (grad_enabled class0_state) [r1]\<rparr>"
  have pre: "validate_batches Classifier_call [[(blank_image, 0)]] ((0, 0), class0_state)
      = Inr ((0 + sum_list (map b_value [r1]), 0 + sum_list (map b_accuracy [r1])), ?s1)"
  proof (rule validate_batches_run [where fwd = Classifier_call and s = class0_state, THEN iffD2])
    show "\<And>x y k'. Classifier_call (grad_enabled class0_state) (model class0_state)
               (rng class0_state) x = Inr (y, k') \<Longrightarrow> k' = rng class0_state"
      by (rule Classifier_call_stable)
    show "\<exists>V. map (validate_run Classifier_call (grad_enabled class0_state) (model class0_state)
               (rng class0_state)) [[(blank_image, 0)]] = map Inr V \<and>
            (0 + sum_list (map b_value [r1]), 0 + sum_list (map b_accuracy [r1]))
              = (0 + sum_list (map b_value V), 0 + sum_list (map b_accuracy V)) \<and>
            ?s1 = class0_state\<lparr>calls := calls class0_state
                @ validate_events (training (model class0_state)) (grad_enabled class0_state) V\<rparr>"
      by (rule exI [of _ "[r1]"]) (use r1 in simp)
  qed
  have f2: "Classifier_call (grad_enabled ?s1) (model ?s1) (rng ?s1) ?im = Inl ?err"
    by (rule c3 [rule_format, THEN iffD2]) (use mis [OF sz] in simp)
  have st: "validate_step Classifier_call [(small_image, 0)] ?s1 = Inl ?err"
    by (rule c4 [rule_format, THEN iffD2], rule disjI2,
        rule exI [of _ ?im], rule exI [of _ ?lb], rule conjI [OF co], rule disjI1, rule f2)
  have vb: "validate_batches Classifier_call [[(blank_image, 0)], [(small_image, 0)]]
       ((0, 0), class0_state) = Inl ?err"
    by (rule c5 [rule_format, THEN iffD2], rule exI [of _ "[[(blank_image, 0)]]"],
        rule exI [of _ "[(small_image, 0)]"], rule exI [of _ "[]"],
        rule exI, rule exI [of _ ?s1], intro conjI, simp, rule pre, rule st)
  show ?thesis using eq m f nb vb by (intro conjI)
qed

end
